theory Spec2Isabelle
  imports Complex_Main
begin

section \<open>Shared data: advisories of the recommendation engine\<close>

text \<open>
  JavaScript numbers are modelled as reals; where the source can produce \<open>NaN\<close>,
  \<open>undefined\<close> or \<open>null\<close> the value is an \<open>option\<close> and the branch is written
  out. Rounding of doubles is not modelled.

  An advisory is the object literal the analyzers of \<open>RecommendationService\<close> return:
  \<open>{type, message, severity, data}\<close>. The interpolated message and the \<open>data\<close> object
  are kept as structured values.
\<close>

datatype message =
    RouteMsg int
  | DelayMsg int
  | SpeedMsg
  | IdleMsg
  | GpsMsg int

datatype rec_data =
    DeviationData real
  | DelayData int real real
  | SpeedData real real real
  | IdleData int int
  | GpsData real

record recommendation =
  rtype :: string
  rmessage :: message
  severity :: string
  rdata :: rec_data

section \<open>Risk score (smartTrackingController.calculateRiskScore)\<close>

text \<open>
  The \<open>switch\<close> on \<open>rec.severity\<close> has no default branch: any other severity adds nothing.
\<close>

definition severity_points :: "string \<Rightarrow> int" where
  "severity_points s =
     (if s = ''high'' then 30
      else if s = ''medium'' then 15
      else if s = ''low'' then 5
      else 0)"

definition calculateRiskScore :: "recommendation list option \<Rightarrow> int" where
  "calculateRiskScore recommendations =
     (case recommendations of
        None \<Rightarrow> 0
      | Some recs \<Rightarrow>
          if length recs = 0 then 0
          else min (fold (\<lambda>rec riskScore. riskScore + severity_points (severity rec)) recs 0) 100)"

text \<open>The sum of severity weights the specification speaks of.\<close>

definition weight_sum :: "recommendation list \<Rightarrow> int" where
  "weight_sum recs =
     5 * int (length (filter (\<lambda>r. severity r = ''low'') recs))
     + 15 * int (length (filter (\<lambda>r. severity r = ''medium'') recs))
     + 30 * int (length (filter (\<lambda>r. severity r = ''high'') recs))"

section \<open>Geometry (haversineDistance of the recommendation and ETA services)\<close>

text \<open>
  The three services carry the same \<open>haversineDistance\<close>. For the recommendation engine
  and the ETA predictor it is taken in exact arithmetic: \<open>Math.atan2(y, x)\<close> is the angle
  itself, and \<open>Math.sqrt\<close> of a negative number is \<open>NaN\<close>, so the distance is \<open>None\<close> when
  the haversine term \<open>a\<close> leaves \<open>[0, 1]\<close>. \<open>haversine_num\<close> is the function on numbers,
  \<open>haversineDistance\<close> the function on what the callers pass. The route analysis, whose
  quotient of distances is sensitive to the last bit, has its own copy further down, with
  the rounding of every operation.
\<close>

definition atan2 :: "real \<Rightarrow> real \<Rightarrow> real" where
  "atan2 y x =
     (if 0 < x then arctan (y / x)
      else if x < 0 then (if 0 \<le> y then arctan (y / x) + pi else arctan (y / x) - pi)
      else if 0 < y then pi / 2
      else if y < 0 then - (pi / 2)
      else 0)"

definition hav_a :: "real \<Rightarrow> real \<Rightarrow> real \<Rightarrow> real \<Rightarrow> real" where
  "hav_a lat1 lon1 lat2 lon2 =
     (let \<phi>1 = lat1 * pi / 180;
          \<phi>2 = lat2 * pi / 180;
          \<Delta>\<phi> = (lat2 - lat1) * pi / 180;
          \<Delta>l = (lon2 - lon1) * pi / 180
      in sin (\<Delta>\<phi> / 2) * sin (\<Delta>\<phi> / 2)
         + cos \<phi>1 * cos \<phi>2 * sin (\<Delta>l / 2) * sin (\<Delta>l / 2))"

definition haversine_num :: "real \<Rightarrow> real \<Rightarrow> real \<Rightarrow> real \<Rightarrow> real option" where
  "haversine_num lat1 lon1 lat2 lon2 =
     (let R = 6371000;
          a = hav_a lat1 lon1 lat2 lon2
      in if a < 0 \<or> 1 < a then None
         else Some (R * (2 * atan2 (sqrt a) (sqrt (1 - a)))))"

text \<open>An argument that is \<open>undefined\<close> or \<open>NaN\<close> (\<open>None\<close>) makes the result \<open>NaN\<close>.\<close>

definition haversineDistance ::
  "real option \<Rightarrow> real option \<Rightarrow> real option \<Rightarrow> real option \<Rightarrow> real option" where
  "haversineDistance lat1 lon1 lat2 lon2 =
     (case (lat1, lon1, lat2, lon2) of
        (Some a, Some b, Some c, Some d) \<Rightarrow> haversine_num a b c d
      | _ \<Rightarrow> None)"

text \<open>Arithmetic on numbers that may be \<open>NaN\<close> (\<open>None\<close>).\<close>

definition nan2 :: "(real \<Rightarrow> real \<Rightarrow> real) \<Rightarrow> real option \<Rightarrow> real option \<Rightarrow> real option" where
  "nan2 f a b =
     (case a of None \<Rightarrow> None
      | Some x \<Rightarrow> (case b of None \<Rightarrow> None | Some y \<Rightarrow> Some (f x y)))"

text \<open>\<open>a || b\<close> on numbers that may be absent: \<open>0\<close> and \<open>undefined\<close> are falsy.\<close>

definition js_or :: "real option \<Rightarrow> real option \<Rightarrow> real option" where
  "js_or a b = (case a of Some x \<Rightarrow> (if x \<noteq> 0 then Some x else b) | None \<Rightarrow> b)"

text \<open>\<open>Math.round\<close> rounds half up.\<close>

definition js_round :: "real \<Rightarrow> int" where
  "js_round x = \<lfloor>x + 1 / 2\<rfloor>"

text \<open>
  \<open>new Date(ms)\<close>: the time value is truncated towards zero, and is invalid (\<open>None\<close>)
  beyond 8.64e15 ms.
\<close>

definition new_Date :: "real \<Rightarrow> int option" where
  "new_Date ms =
     (if 8640000000000000 < \<bar>ms\<bar> then None
      else Some (if 0 \<le> ms then \<lfloor>ms\<rfloor> else \<lceil>ms\<rceil>))"

section \<open>Recommendation engine (RecommendationService)\<close>

record sample =
  latitude :: "real option"
  longitude :: "real option"
  accuracy :: "real option"
  speed :: "real option"
  timestamp :: "int option"

record destination =
  d_latitude :: "real option"
  d_lat :: "real option"
  d_longitude :: "real option"
  d_lng :: "real option"

text \<open>
  The fields of a shipment row the services read. \<open>planned_delivery_time\<close> is the time
  value of \<open>new Date(shipment.planned_delivery_time)\<close>, \<open>None\<close> for an invalid date.
\<close>

record shipment_info =
  destination_address :: "destination option"
  destination_latitude :: "real option"
  destination_lat :: "real option"
  destination_longitude :: "real option"
  destination_lng :: "real option"
  destination_obj :: "destination option"
  planned_delivery_time :: "int option"
  driver_id :: nat

datatype js_error = TypeError | DbError

definition ROUTE_DEVIATION :: string where "ROUTE_DEVIATION = ''route_change''"
definition DELAY_ALERT :: string where "DELAY_ALERT = ''delay_alert''"
definition RISK_ALERT :: string where "RISK_ALERT = ''risk_alert''"
definition PERFORMANCE :: string where "PERFORMANCE = ''performance''"
definition GPS_WARNING :: string where "GPS_WARNING = ''gps_warning''"
definition IDLE_ALERT :: string where "IDLE_ALERT = ''idle_alert''"

definition LOW :: string where "LOW = ''low''"
definition MEDIUM :: string where "MEDIUM = ''medium''"
definition HIGH :: string where "HIGH = ''high''"

text \<open>
  \<open>calculateDeviation\<close>. Reading a property of an absent destination raises TypeError;
  \<open>parseFloat(undefined)\<close> is \<open>NaN\<close>.
\<close>

definition calculateDeviation ::
  "sample \<Rightarrow> destination option \<Rightarrow> sample \<Rightarrow> js_error + real option" where
  "calculateDeviation start dest current =
     (case dest of
        None \<Rightarrow> Inl TypeError
      | Some d \<Rightarrow>
          (let destLat = js_or (d_latitude d) (d_lat d);
               destLng = js_or (d_longitude d) (d_lng d);
               distanceToDest =
                 haversineDistance (latitude current) (longitude current) destLat destLng;
               totalDistance =
                 haversineDistance (latitude start) (longitude start) destLat destLng
           in Inr (nan2 (\<lambda>t d. \<bar>t - d\<bar>) totalDistance distanceToDest)))"

definition analyzeRouteDeviation ::
  "shipment_info option \<Rightarrow> sample option \<Rightarrow> sample list \<Rightarrow> js_error + recommendation option" where
  "analyzeRouteDeviation shipment currentLocation trackingHistory =
     (case (shipment, currentLocation) of
        (Some sh, Some cur) \<Rightarrow>
          (case trackingHistory of
             startLocation # _ # _ \<Rightarrow>
               (case calculateDeviation startLocation (destination_address sh) cur of
                  Inl e \<Rightarrow> Inl e
                | Inr None \<Rightarrow> Inr None
                | Inr (Some deviation) \<Rightarrow>
                    if 1000 < deviation then
                      Inr (Some \<lparr> rtype = ROUTE_DEVIATION,
                                  rmessage = RouteMsg (js_round (deviation / 1000)),
                                  severity = (if 5000 < deviation then HIGH else MEDIUM),
                                  rdata = DeviationData deviation \<rparr>)
                    else Inr None)
           | _ \<Rightarrow> Inr None)
      | _ \<Rightarrow> Inr None)"

text \<open>
  \<open>trackingHistory.slice(-10).map(t => t.speed).filter(s => s > 0)\<close>; a \<open>null\<close> speed
  fails the comparison.
\<close>

definition last10 :: "'a list \<Rightarrow> 'a list" where
  "last10 xs = drop (length xs - 10) xs"

definition positive_speeds :: "sample list \<Rightarrow> real list" where
  "positive_speeds trackingHistory =
     filter (\<lambda>s. 0 < s) (List.map_filter speed (last10 trackingHistory))"

text \<open>\<open>recentSpeeds.reduce((a, b) => a + b, 0) / recentSpeeds.length\<close>; \<open>0 / 0\<close> is \<open>NaN\<close>.\<close>

definition mean_speed :: "real list \<Rightarrow> real option" where
  "mean_speed recentSpeeds =
     (if recentSpeeds = [] then None
      else Some (fold (\<lambda>b a. a + b) recentSpeeds 0 / real (length recentSpeeds)))"

definition calculateDynamicETA ::
  "int \<Rightarrow> shipment_info option \<Rightarrow> sample list \<Rightarrow> int option" where
  "calculateDynamicETA now shipment trackingHistory =
     (case shipment of
        None \<Rightarrow> new_Date (real_of_int now + 2 * 60 * 60 * 1000)
      | Some sh \<Rightarrow>
          if length trackingHistory < 5 then new_Date (real_of_int now + 2 * 60 * 60 * 1000)
          else
            (let avgSpeed = mean_speed (positive_speeds trackingHistory);
                 currentLocation = last trackingHistory;
                 destLat = js_or (destination_latitude sh) (destination_lat sh);
                 destLng = js_or (destination_longitude sh) (destination_lng sh)
             in case haversineDistance (latitude currentLocation) (longitude currentLocation)
                       destLat destLng of
                  None \<Rightarrow> None
                | Some remainingDistance \<Rightarrow>
                    (let estimatedTime = remainingDistance / the (js_or avgSpeed (Some 10))
                     in new_Date (real_of_int now + estimatedTime * 1000))))"

definition analyzeDelayProbability ::
  "int \<Rightarrow> shipment_info option \<Rightarrow> sample list \<Rightarrow> recommendation option" where
  "analyzeDelayProbability now shipment trackingHistory =
     (case shipment of
        None \<Rightarrow> None
      | Some sh \<Rightarrow>
          if length trackingHistory < 5 then None
          else
            (case (calculateDynamicETA now shipment trackingHistory, planned_delivery_time sh) of
               (Some eta, Some plannedETA) \<Rightarrow>
                 (let delayMinutes = real_of_int (eta - plannedETA) / (1000 * 60)
                  in if 30 < delayMinutes then
                       Some \<lparr> rtype = DELAY_ALERT,
                              rmessage = DelayMsg (js_round delayMinutes),
                              severity = (if 60 < delayMinutes then HIGH else MEDIUM),
                              rdata = DelayData (js_round delayMinutes) (real_of_int eta)
                                        (real_of_int plannedETA) \<rparr>
                     else None)
             | _ \<Rightarrow> None))"

definition analyzeSpeedPatterns :: "sample \<Rightarrow> sample list \<Rightarrow> recommendation option" where
  "analyzeSpeedPatterns currentLocation trackingHistory =
     (if length trackingHistory < 10 then None
      else
        (let currentSpeed = the (js_or (speed currentLocation) (Some 0))
         in case mean_speed (positive_speeds trackingHistory) of
              None \<Rightarrow> None
            | Some avgSpeed \<Rightarrow>
                if currentSpeed < avgSpeed * (3 / 10) \<and> 0 < currentSpeed then
                  Some \<lparr> rtype = PERFORMANCE,
                         rmessage = SpeedMsg,
                         severity = LOW,
                         rdata = SpeedData currentSpeed avgSpeed (currentSpeed / avgSpeed) \<rparr>
                else None))"

definition in_window :: "int \<Rightarrow> sample \<Rightarrow> bool" where
  "in_window tenMinutesAgo t = (case timestamp t of Some ts \<Rightarrow> tenMinutesAgo < ts | None \<Rightarrow> False)"

definition moving :: "sample \<Rightarrow> bool" where
  "moving t = (case speed t of Some s \<Rightarrow> 5 < s | None \<Rightarrow> False)"

definition analyzeIdleTime :: "int \<Rightarrow> sample \<Rightarrow> sample list \<Rightarrow> recommendation option" where
  "analyzeIdleTime now currentLocation trackingHistory =
     (if length trackingHistory < 5 then None
      else
        (let tenMinutesAgo = now - 10 * 60 * 1000;
             recentTracking = filter (in_window tenMinutesAgo) trackingHistory;
             hasMovement = list_ex moving recentTracking
         in case recentTracking of
              [] \<Rightarrow> None
            | first # _ \<Rightarrow>
                if \<not> hasMovement then
                  Some \<lparr> rtype = IDLE_ALERT,
                         rmessage = IdleMsg,
                         severity = MEDIUM,
                         rdata = IdleData 10 (the (timestamp first)) \<rparr>
                else None))"

definition analyzeGPSAccuracy :: "sample \<Rightarrow> recommendation option" where
  "analyzeGPSAccuracy locationData =
     (let acc = the (js_or (accuracy locationData) (Some 0))
      in if 1000 < acc then
           Some \<lparr> rtype = GPS_WARNING,
                  rmessage = GpsMsg (js_round acc),
                  severity = (if 5000 < acc then HIGH else MEDIUM),
                  rdata = GpsData acc \<rparr>
         else None)"

text \<open>
  \<open>analyzeTrackingData\<close>. The two lookups are imported from the controllers
  (\<open>getShipmentById\<close>, \<open>getTrackingData\<close>); they are parameters here and may raise. Any
  exception inside the \<open>try\<close> block gives the empty list.
\<close>

definition push_opt :: "'a option \<Rightarrow> 'a list \<Rightarrow> 'a list" where
  "push_opt r recs = (case r of None \<Rightarrow> recs | Some x \<Rightarrow> recs @ [x])"

definition analyze_all ::
  "int \<Rightarrow> shipment_info option \<Rightarrow> sample \<Rightarrow> sample list \<Rightarrow> js_error + recommendation list" where
  "analyze_all now shipment locationData trackingHistory =
     (case analyzeRouteDeviation shipment (Some locationData) trackingHistory of
        Inl e \<Rightarrow> Inl e
      | Inr routeDeviation \<Rightarrow>
          Inr (push_opt (analyzeGPSAccuracy locationData)
                (push_opt (analyzeIdleTime now locationData trackingHistory)
                  (push_opt (analyzeSpeedPatterns locationData trackingHistory)
                    (push_opt (analyzeDelayProbability now shipment trackingHistory)
                      (push_opt routeDeviation []))))))"

definition analyzeTrackingData ::
  "('i \<Rightarrow> js_error + shipment_info option) \<Rightarrow> ('i \<Rightarrow> js_error + sample list)
     \<Rightarrow> int \<Rightarrow> 'i \<Rightarrow> sample \<Rightarrow> recommendation list" where
  "analyzeTrackingData getShipmentById getTrackingData now shipmentId locationData =
     (case getShipmentById shipmentId of
        Inl e \<Rightarrow> []
      | Inr shipment \<Rightarrow>
          (case getTrackingData shipmentId of
             Inl e \<Rightarrow> []
           | Inr trackingHistory \<Rightarrow>
               (case analyze_all now shipment locationData trackingHistory of
                  Inl e \<Rightarrow> []
                | Inr recommendations \<Rightarrow> recommendations)))"


section \<open>ETA predictor (ETAService)\<close>

text \<open>
  The clock and the store are inputs: \<open>clock_now\<close> is \<open>Date.now()\<close> in milliseconds, \<open>clock_hour\<close> the
  local hour of \<open>new Date().getHours()\<close>, and \<open>route_rows\<close> the outcome of the
  \<open>route_history\<close> query of \<open>getHistoricalFactor\<close> (the \<open>avg_speed\<close> column of each row,
  \<open>None\<close> for SQL \<open>NULL\<close>), or the exception it raised.
\<close>

record eta_env =
  clock_now :: int
  clock_hour :: nat
  route_rows :: "js_error + real option list"

text \<open>
  What \<open>calculateETA\<close> returns: a bare \<open>Date\<close> from the early return, the full object,
  or the two-field object of the \<open>catch\<close> block. A \<open>Date\<close> is its time value, \<open>None\<close> when
  invalid.
\<close>

datatype eta_result =
    BareDate "int option"
  | Prediction "int option" "real option" real string
  | Fallback "int option" string

definition defaultSpeed :: real where
  "defaultSpeed = 10"

definition calculateRemainingDistance :: "sample \<Rightarrow> shipment_info \<Rightarrow> real option" where
  "calculateRemainingDistance currentLocation shipment =
     (let destLat = js_or (js_or (destination_latitude shipment) (destination_lat shipment))
                      (case destination_obj shipment of None \<Rightarrow> None | Some d \<Rightarrow> d_latitude d);
          destLng = js_or (js_or (destination_longitude shipment) (destination_lng shipment))
                      (case destination_obj shipment of None \<Rightarrow> None | Some d \<Rightarrow> d_longitude d)
      in haversineDistance (latitude currentLocation) (longitude currentLocation) destLat destLng)"

text \<open>
  The \<open>forEach\<close> of \<open>analyzeCurrentSpeed\<close>: the speed at index \<open>i\<close> of \<open>n\<close> valid speeds has
  weight \<open>(i + 1) / n\<close>. The state is \<open>(index, weightedSum, totalWeight)\<close>.
\<close>

definition weigh :: "nat \<Rightarrow> real \<Rightarrow> nat \<times> real \<times> real \<Rightarrow> nat \<times> real \<times> real" where
  "weigh n spd st =
     (case st of (index, weightedSum, totalWeight) \<Rightarrow>
        (let weight = (real index + 1) / real n
         in (index + 1, weightedSum + spd * weight, totalWeight + weight)))"

definition analyzeCurrentSpeed :: "sample list option \<Rightarrow> real" where
  "analyzeCurrentSpeed trackingHistory =
     (case trackingHistory of
        None \<Rightarrow> defaultSpeed
      | Some h \<Rightarrow>
          if length h < 3 then defaultSpeed
          else
            (let recentData = last10 h;
                 validSpeeds = filter (\<lambda>s. 0 < s \<and> s < 50) (List.map_filter speed recentData)
             in if length validSpeeds = 0 then defaultSpeed
                else
                  (case fold (weigh (length validSpeeds)) validSpeeds (0, 0, 0) of
                     (_, weightedSum, totalWeight) \<Rightarrow> weightedSum / totalWeight)))"

definition getTrafficFactor :: "nat \<Rightarrow> real" where
  "getTrafficFactor h =
     (if (7 \<le> h \<and> h \<le> 9) \<or> (17 \<le> h \<and> h \<le> 19) then 3 / 2
      else if 22 \<le> h \<or> h \<le> 5 then 8 / 10
      else 1)"

definition getHistoricalFactor :: "js_error + real option list \<Rightarrow> real" where
  "getHistoricalFactor rows =
     (case rows of
        Inl e \<Rightarrow> 1
      | Inr [] \<Rightarrow> 1
      | Inr (avg_speed # _) \<Rightarrow>
          (case avg_speed of
             None \<Rightarrow> 1
           | Some historicalSpeed \<Rightarrow>
               if historicalSpeed \<noteq> 0 then historicalSpeed / defaultSpeed else 1))"

definition calculateConfidence :: "nat \<Rightarrow> string" where
  "calculateConfidence dataPoints =
     (if 20 \<le> dataPoints then ''high''
      else if 10 \<le> dataPoints then ''medium''
      else ''low'')"

text \<open>
  The body of the \<open>try\<close> block. \<open>trackingHistory.length\<close> in the returned object raises
  TypeError when the history is \<open>null\<close>.
\<close>

definition calculateETA_try ::
  "eta_env \<Rightarrow> shipment_info option \<Rightarrow> sample option \<Rightarrow> sample list option
     \<Rightarrow> js_error + eta_result" where
  "calculateETA_try env shipment currentLocation trackingHistory =
     (case (shipment, currentLocation) of
        (Some sh, Some cur) \<Rightarrow>
          (let remainingDistance = calculateRemainingDistance cur sh;
               avgSpeed = analyzeCurrentSpeed trackingHistory;
               trafficFactor = getTrafficFactor (clock_hour env);
               historicalFactor = getHistoricalFactor (route_rows env);
               adjustedSpeed = avgSpeed * trafficFactor * historicalFactor;
               eta = (case remainingDistance of
                        None \<Rightarrow> None
                      | Some remaining \<Rightarrow>
                          (let estimatedTime =
                                 remaining / (if adjustedSpeed \<noteq> 0 then adjustedSpeed else defaultSpeed)
                           in new_Date (real_of_int (clock_now env) + estimatedTime * 1000)))
           in case trackingHistory of
                None \<Rightarrow> Inl TypeError
              | Some h \<Rightarrow>
                  Inr (Prediction eta remainingDistance adjustedSpeed
                         (calculateConfidence (length h))))
      | _ \<Rightarrow> Inr (BareDate (new_Date (real_of_int (clock_now env) + 2 * 60 * 60 * 1000))))"

definition calculateETA ::
  "eta_env \<Rightarrow> shipment_info option \<Rightarrow> sample option \<Rightarrow> sample list option \<Rightarrow> eta_result" where
  "calculateETA env shipment currentLocation trackingHistory =
     (case calculateETA_try env shipment currentLocation trackingHistory of
        Inl error \<Rightarrow> Fallback (new_Date (real_of_int (clock_now env) + 2 * 60 * 60 * 1000)) ''low''
      | Inr r \<Rightarrow> r)"

text \<open>The time value of the predicted arrival, when the result carries one.\<close>

definition eta_of :: "eta_result \<Rightarrow> int option" where
  "eta_of r = (case r of BareDate d \<Rightarrow> d | Prediction d _ _ _ \<Rightarrow> d | Fallback d _ \<Rightarrow> d)"

section \<open>Request bodies\<close>

text \<open>
  A field of a parsed JSON body. A string carries its numeric reading (\<open>Number(s)\<close>, \<open>None\<close>
  for \<open>NaN\<close>) instead of computing it. JSON has no \<open>NaN\<close>, so a number is a real.
\<close>

datatype jsval = JUndefined | JNull | JBool bool | JNum real | JStr string "real option"

definition truthy :: "jsval \<Rightarrow> bool" where
  "truthy v =
     (case v of
        JUndefined \<Rightarrow> False
      | JNull \<Rightarrow> False
      | JBool b \<Rightarrow> b
      | JNum x \<Rightarrow> x \<noteq> 0
      | JStr s n \<Rightarrow> s \<noteq> [])"

text \<open>\<open>Number(v)\<close>, the coercion of arithmetic and of comparisons with numbers.\<close>

definition to_num :: "jsval \<Rightarrow> real option" where
  "to_num v =
     (case v of
        JUndefined \<Rightarrow> None
      | JNull \<Rightarrow> Some 0
      | JBool b \<Rightarrow> Some (if b then 1 else 0)
      | JNum x \<Rightarrow> Some x
      | JStr s n \<Rightarrow> n)"

definition val_or :: "jsval \<Rightarrow> jsval \<Rightarrow> jsval" where
  "val_or a b = (if truthy a then a else b)"

section \<open>Smart ingestion (smartTrackingController.updateLocation and its route)\<close>

record smart_body =
  b_shipment_id :: jsval
  b_latitude :: jsval
  b_longitude :: jsval
  b_accuracy :: jsval
  b_speed :: jsval
  b_heading :: jsval
  b_timestamp :: jsval

text \<open>A bind parameter of a statement.\<close>

datatype sql_value = SqlJs jsval | SqlDate "int option" | SqlText string | SqlNum int

text \<open>
  The collaborators of the handler. The store behind \<open>pool.execute\<close> is abstract: each
  statement is a function of the store's state that returns rows, or the new state, or
  the exception the driver raised. \<open>svc_getShipmentById\<close> and \<open>svc_getTrackingData\<close> are
  the two lookups the recommendation service imports, \<open>svc_save_recommendation\<close> its
  \<open>saveRecommendation\<close> (which swallows its own failures), \<open>app_io\<close> whether
  \<open>req.app.get('io')\<close> is set.
\<close>

record 's smart_deps =
  pool_select_shipment :: "'s \<Rightarrow> jsval \<Rightarrow> js_error + shipment_info list"
  pool_insert_location :: "'s \<Rightarrow> sql_value list \<Rightarrow> js_error + nat \<times> 's"
  pool_select_history :: "'s \<Rightarrow> jsval \<Rightarrow> js_error + sample list"
  pool_update_shipment :: "'s \<Rightarrow> sql_value list \<Rightarrow> js_error + 's"
  svc_save_recommendation :: "'s \<Rightarrow> jsval \<Rightarrow> recommendation \<Rightarrow> 's"
  svc_getShipmentById :: "'s \<Rightarrow> jsval \<Rightarrow> js_error + shipment_info option"
  svc_getTrackingData :: "'s \<Rightarrow> jsval \<Rightarrow> js_error + sample list"
  svc_env :: eta_env
  app_io :: bool

datatype smart_event =
    LocationUpdate smart_body nat sql_value sql_value
  | RecommendationAlert jsval nat "recommendation list"

record smart_success =
  location_id :: nat
  res_eta :: sql_value
  res_confidence :: sql_value
  res_recommendations :: "recommendation list"
  res_risk_score :: int

datatype smart_response =
    BadRequest string
  | NotFound string
  | ServerError string
  | Ok200 smart_success

text \<open>Whether the answer is \<open>{success: true, ...}\<close>.\<close>

definition is_success :: "smart_response \<Rightarrow> bool" where
  "is_success r = (case r of Ok200 d \<Rightarrow> True | _ \<Rightarrow> False)"

text \<open>\<open>etaData.eta\<close> and \<open>etaData.confidence\<close>; a bare \<open>Date\<close> has neither property.\<close>

definition eta_field :: "eta_result \<Rightarrow> sql_value" where
  "eta_field r =
     (case r of
        BareDate d \<Rightarrow> SqlJs JUndefined
      | Prediction d _ _ _ \<Rightarrow> SqlDate d
      | Fallback d _ \<Rightarrow> SqlDate d)"

definition confidence_field :: "eta_result \<Rightarrow> sql_value" where
  "confidence_field r =
     (case r of
        BareDate d \<Rightarrow> SqlJs JUndefined
      | Prediction _ _ _ c \<Rightarrow> SqlText c
      | Fallback _ c \<Rightarrow> SqlText c)"

text \<open>
  The object \<open>{ latitude, longitude, accuracy, speed, heading, timestamp }\<close> handed to the
  analyzers and \<open>{ latitude, longitude }\<close> handed to the predictor, with the fields read as
  numbers. No analyzer reads the timestamp of the current sample.
\<close>

definition location_data :: "smart_body \<Rightarrow> sample" where
  "location_data body =
     \<lparr> latitude = to_num (b_latitude body), longitude = to_num (b_longitude body),
        accuracy = to_num (b_accuracy body), speed = to_num (b_speed body),
        timestamp = None \<rparr>"

definition eta_location :: "smart_body \<Rightarrow> sample" where
  "eta_location body =
     \<lparr> latitude = to_num (b_latitude body), longitude = to_num (b_longitude body),
        accuracy = None, speed = None, timestamp = None \<rparr>"

text \<open>The six bind parameters of the \<open>INSERT\<close> (the statement names seven columns).\<close>

definition insert_params :: "smart_body \<Rightarrow> sql_value list" where
  "insert_params body =
     [SqlJs (b_shipment_id body), SqlJs (b_latitude body), SqlJs (b_longitude body),
      SqlJs (b_accuracy body), SqlJs (b_speed body),
      SqlJs (val_or (b_heading body) (b_timestamp body))]"

definition update_params :: "smart_body \<Rightarrow> eta_result \<Rightarrow> recommendation list \<Rightarrow> sql_value list" where
  "update_params body etaData recommendations =
     [SqlJs (b_latitude body), SqlJs (b_longitude body),
      eta_field etaData, confidence_field etaData,
      SqlNum (calculateRiskScore (Some recommendations)),
      SqlJs (b_shipment_id body)]"

definition smart_events ::
  "bool \<Rightarrow> smart_body \<Rightarrow> shipment_info \<Rightarrow> eta_result \<Rightarrow> recommendation list \<Rightarrow> smart_event list" where
  "smart_events io body shipment etaData recommendations =
     (if io then
        LocationUpdate body (driver_id shipment) (eta_field etaData) (confidence_field etaData)
        # (if 0 < length recommendations
           then [RecommendationAlert (b_shipment_id body) (driver_id shipment) recommendations]
           else [])
      else [])"

definition smart_updateLocation ::
  "'s smart_deps \<Rightarrow> 's \<Rightarrow> smart_body \<Rightarrow> smart_response \<times> 's \<times> smart_event list" where
  "smart_updateLocation deps s body =
     (if \<not> truthy (b_shipment_id body) \<or> \<not> truthy (b_latitude body)
         \<or> \<not> truthy (b_longitude body)
      then (BadRequest ''Missing required fields: shipment_id, latitude, longitude'', s, [])
      else
        (case pool_select_shipment deps s (b_shipment_id body) of
           Inl e \<Rightarrow> (ServerError ''Internal server error'', s, [])
         | Inr [] \<Rightarrow> (NotFound ''Shipment not found'', s, [])
         | Inr (shipment # _) \<Rightarrow>
             (case pool_insert_location deps s (insert_params body) of
                Inl e \<Rightarrow> (ServerError ''Internal server error'', s, [])
              | Inr (insertId, s1) \<Rightarrow>
                  (case pool_select_history deps s1 (b_shipment_id body) of
                     Inl e \<Rightarrow> (ServerError ''Internal server error'', s1, [])
                   | Inr trackingHistory \<Rightarrow>
                       (let recommendations =
                              analyzeTrackingData (svc_getShipmentById deps s1)
                                (svc_getTrackingData deps s1) (clock_now (svc_env deps))
                                (b_shipment_id body) (location_data body);
                            etaData =
                              calculateETA (svc_env deps) (Some shipment)
                                (Some (eta_location body)) (Some trackingHistory)
                        in case pool_update_shipment deps s1
                                  (update_params body etaData recommendations) of
                             Inl e \<Rightarrow> (ServerError ''Internal server error'', s1, [])
                           | Inr s2 \<Rightarrow>
                               (Ok200 \<lparr> location_id = insertId,
                                        res_eta = eta_field etaData,
                                        res_confidence = confidence_field etaData,
                                        res_recommendations = recommendations,
                                        res_risk_score = calculateRiskScore (Some recommendations) \<rparr>,
                                fold (\<lambda>rec st. svc_save_recommendation deps st (b_shipment_id body) rec)
                                  recommendations s2,
                                smart_events (app_io deps) body shipment etaData
                                  recommendations))))))"

text \<open>
  The validator chain of the route \<open>POST /smart/location/update\<close>. The checks are those of
  the express-validator package, which is not part of the repository: \<open>isFloat\<close> and
  \<open>isInt\<close> test the value's string form. A number is tested exactly. A string is tested
  through the numeric reading it carries, which admits more strings than the package
  does (the text \<open>1.0\<close> as an integer, say); the fields that the theorems on this chain
  speak of are numbers. \<open>optional()\<close> skips an \<open>undefined\<close> field.
\<close>

definition in_range :: "real option \<Rightarrow> real option \<Rightarrow> real \<Rightarrow> bool" where
  "in_range lo hi x =
     ((case lo of None \<Rightarrow> True | Some l \<Rightarrow> l \<le> x) \<and> (case hi of None \<Rightarrow> True | Some h \<Rightarrow> x \<le> h))"

definition isFloat :: "real option \<Rightarrow> real option \<Rightarrow> jsval \<Rightarrow> bool" where
  "isFloat lo hi v =
     (case v of
        JNum x \<Rightarrow> in_range lo hi x
      | JStr s n \<Rightarrow> (case n of None \<Rightarrow> False | Some x \<Rightarrow> in_range lo hi x)
      | _ \<Rightarrow> False)"

definition isInt :: "real option \<Rightarrow> real option \<Rightarrow> jsval \<Rightarrow> bool" where
  "isInt lo hi v =
     (case v of
        JNum x \<Rightarrow> x = real_of_int \<lfloor>x\<rfloor> \<and> \<bar>x\<bar> < 10 ^ 21 \<and> in_range lo hi x
      | JStr s n \<Rightarrow>
          (case n of None \<Rightarrow> False | Some x \<Rightarrow> x = real_of_int \<lfloor>x\<rfloor> \<and> in_range lo hi x)
      | _ \<Rightarrow> False)"

definition optional :: "(jsval \<Rightarrow> bool) \<Rightarrow> jsval \<Rightarrow> bool" where
  "optional check v = (v = JUndefined \<or> check v)"

definition smart_validation_errors :: "smart_body \<Rightarrow> string list" where
  "smart_validation_errors body =
     (if isInt (Some 1) None (b_shipment_id body) then []
      else [''Shipment ID must be a positive integer''])
     @ (if isFloat (Some (- 90)) (Some 90) (b_latitude body) then []
        else [''Latitude must be between -90 and 90''])
     @ (if isFloat (Some (- 180)) (Some 180) (b_longitude body) then []
        else [''Longitude must be between -180 and 180''])
     @ (if optional (isFloat (Some 0) None) (b_accuracy body) then []
        else [''Accuracy must be a positive number''])
     @ (if optional (isFloat (Some 0) (Some 200)) (b_speed body) then []
        else [''Speed must be between 0 and 200 m/s''])
     @ (if optional (isFloat (Some 0) (Some 360)) (b_heading body) then []
        else [''Heading must be between 0 and 360 degrees''])"

definition smart_route ::
  "'s smart_deps \<Rightarrow> 's \<Rightarrow> smart_body \<Rightarrow> smart_response \<times> 's \<times> smart_event list" where
  "smart_route deps s body =
     (if smart_validation_errors body \<noteq> [] then (BadRequest ''Validation failed'', s, [])
      else smart_updateLocation deps s body)"

section \<open>The store of the standard path (ShipmentModel, TrackingLocationModel)\<close>

record shipment_row =
  ship_id :: nat
  ship_driver_id :: nat
  ship_organization_id :: "nat option"
  ship_status :: string

record location_row =
  loc_id :: nat
  loc_shipment_id :: nat
  loc_latitude :: real
  loc_longitude :: real
  loc_accuracy :: jsval
  loc_speed :: jsval
  recorded_at :: nat

text \<open>
  The two tables, the \<open>AUTO_INCREMENT\<close> counter of \<open>tracking_locations\<close> and a log of the
  status updates the store executed (kept to count transitions). \<open>header_iterable\<close> says
  whether the result the driver returns for an \<open>UPDATE\<close> can be destructured as an array:
  \<open>db.query\<close> returns the first component of \<open>pool.execute\<close>'s result, which for an
  \<open>UPDATE\<close> under mysql2 is a header object, not an array.
\<close>

record store =
  shipments :: "shipment_row list"
  tracking_locations :: "location_row list"
  next_location_id :: nat
  status_log :: "(nat \<times> string) list"
  header_iterable :: bool

datatype app_error = AppError string nat string | Thrown js_error

text \<open>
  \<open>ShipmentModel.findById(id)\<close> without a role, and with the role and user id
  (\<open>AND s.driver_id = ?\<close> for a driver). The id is compared as a number.
\<close>

definition findById :: "store \<Rightarrow> jsval \<Rightarrow> shipment_row option" where
  "findById db ident =
     (case filter (\<lambda>s. to_num ident = Some (real (ship_id s))) (shipments db) of
        [] \<Rightarrow> None
      | s # _ \<Rightarrow> Some s)"

definition findById_as :: "store \<Rightarrow> jsval \<Rightarrow> string \<Rightarrow> nat \<Rightarrow> shipment_row option" where
  "findById_as db ident userRole userId =
     (case filter (\<lambda>s. to_num ident = Some (real (ship_id s))
                        \<and> (if userRole = ''driver'' then ship_driver_id s = userId else True))
             (shipments db) of
        [] \<Rightarrow> None
      | s # _ \<Rightarrow> Some s)"

text \<open>
  \<open>ShipmentModel.updateStatus\<close>: the \<open>UPDATE\<close> runs, then \<open>const [result] = ...\<close>
  destructures what \<open>db.query\<close> returned and raises TypeError when that is not iterable.
\<close>

definition updateStatus :: "store \<Rightarrow> jsval \<Rightarrow> string \<Rightarrow> store \<times> (js_error + bool)" where
  "updateStatus db ident status =
     (let hit = filter (\<lambda>s. to_num ident = Some (real (ship_id s))) (shipments db);
          db' = db \<lparr> shipments :=
                       map (\<lambda>s. if to_num ident = Some (real (ship_id s))
                                 then s \<lparr> ship_status := status \<rparr> else s) (shipments db),
                     status_log := status_log db @ map (\<lambda>s. (ship_id s, status)) hit \<rparr>
      in (db', if header_iterable db then Inr (0 < length hit) else Inl TypeError))"

definition isValidLatitude :: "jsval \<Rightarrow> bool" where
  "isValidLatitude lat = (case lat of JNum x \<Rightarrow> - 90 \<le> x \<and> x \<le> 90 | _ \<Rightarrow> False)"

definition isValidLongitude :: "jsval \<Rightarrow> bool" where
  "isValidLongitude lng = (case lng of JNum x \<Rightarrow> - 180 \<le> x \<and> x \<le> 180 | _ \<Rightarrow> False)"

text \<open>
  What \<open>TrackingLocationModel.create\<close> returns: the insert id and the fields it was given.
\<close>

record location =
  l_id :: nat
  l_shipment_id :: jsval
  l_latitude :: jsval
  l_longitude :: jsval
  l_accuracy :: jsval
  l_speed :: jsval

text \<open>A destructuring default (\<open>accuracy = null\<close>) replaces \<open>undefined\<close> only.\<close>

definition default_null :: "jsval \<Rightarrow> jsval" where
  "default_null v = (if v = JUndefined then JNull else v)"

text \<open>
  \<open>TrackingLocationModel.create\<close>; \<open>t\<close> is the value of \<open>NOW()\<close> when the row is written.
  The row is stored under the shipment whose id equals the bound number; the foreign
  key admits no other row.
\<close>

definition create_location ::
  "store \<Rightarrow> nat \<Rightarrow> jsval \<Rightarrow> jsval \<Rightarrow> jsval \<Rightarrow> jsval \<Rightarrow> jsval \<Rightarrow> app_error + location \<times> store" where
  "create_location db t ident lat lng acc spd =
     (if \<not> isValidLatitude lat \<or> \<not> isValidLongitude lng
      then Inl (AppError ''Invalid GPS coordinates'' 400 ''INVALID_COORDINATES'')
      else
        (case (findById db ident, to_num lat, to_num lng) of
           (Some s, Some la, Some lo) \<Rightarrow>
             Inr (\<lparr> l_id = next_location_id db, l_shipment_id = ident, l_latitude = lat,
                     l_longitude = lng, l_accuracy = default_null acc,
                     l_speed = default_null spd \<rparr>,
                  db \<lparr> tracking_locations :=
                         tracking_locations db
                         @ [\<lparr> loc_id = next_location_id db, loc_shipment_id = ship_id s,
                               loc_latitude = la, loc_longitude = lo,
                               loc_accuracy = default_null acc, loc_speed = default_null spd,
                               recorded_at = t \<rparr>],
                       next_location_id := next_location_id db + 1 \<rparr>)
         | _ \<Rightarrow> Inl (Thrown DbError)))"

text \<open>
  \<open>getLatestByShipment\<close>: \<open>ORDER BY recorded_at DESC LIMIT 1\<close>. Among rows with the same
  latest \<open>recorded_at\<close> the store may return any; \<open>pick\<close> chooses among them.
\<close>

definition latest_candidates :: "store \<Rightarrow> jsval \<Rightarrow> location_row list" where
  "latest_candidates db ident =
     (let rows = filter (\<lambda>r. to_num ident = Some (real (loc_shipment_id r))) (tracking_locations db)
      in filter (\<lambda>r. list_all (\<lambda>r'. recorded_at r' \<le> recorded_at r) rows) rows)"

definition getLatestByShipment ::
  "(location_row list \<Rightarrow> location_row) \<Rightarrow> store \<Rightarrow> jsval \<Rightarrow> location_row option" where
  "getLatestByShipment pick db ident =
     (case latest_candidates db ident of [] \<Rightarrow> None | c # cs \<Rightarrow> Some (pick (c # cs)))"

section \<open>Broadcast hub (SocketHandler)\<close>

datatype hub_event =
    Location_update jsval jsval jsval jsval
  | Shipment_status_update string

datatype socket_message =
    Error_msg string
  | Joined_shipment real
  | Left_shipment real

text \<open>
  The rooms as pairs of a socket id and the shipment id of the room \<open>shipment_<id>\<close>, the
  events published to rooms, and the messages emitted to single sockets.
\<close>

record hub =
  members :: "(nat \<times> real) set"
  published :: "(jsval \<times> hub_event) list"
  outbox :: "(nat \<times> socket_message) list"

record user =
  user_id :: nat
  user_role :: string
  user_organizationId :: "nat option"

text \<open>An organisation id is falsy when it is absent or 0.\<close>

definition org_set :: "nat option \<Rightarrow> bool" where
  "org_set org = (case org of None \<Rightarrow> False | Some n \<Rightarrow> n \<noteq> 0)"

definition emitLocationUpdate :: "hub \<Rightarrow> jsval \<Rightarrow> location \<Rightarrow> hub" where
  "emitLocationUpdate h shipmentId loc =
     h \<lparr> published := published h
           @ [(shipmentId, Location_update (l_latitude loc) (l_longitude loc) (l_accuracy loc)
                             (l_speed loc))] \<rparr>"

definition emitShipmentStatusUpdate :: "hub \<Rightarrow> jsval \<Rightarrow> string \<Rightarrow> hub" where
  "emitShipmentStatusUpdate h shipmentId status =
     h \<lparr> published := published h @ [(shipmentId, Shipment_status_update status)] \<rparr>"

text \<open>The sockets an event published for a shipment reaches: the room's members.\<close>

definition receivers :: "hub \<Rightarrow> real \<Rightarrow> nat set" where
  "receivers h room = {c. (c, room) \<in> members h}"

text \<open>\<open>handleJoinShipment\<close> for the socket \<open>sock\<close> of user \<open>u\<close>.\<close>

definition handleJoinShipment :: "store \<Rightarrow> hub \<Rightarrow> nat \<Rightarrow> user \<Rightarrow> jsval \<Rightarrow> hub" where
  "handleJoinShipment db h sock u shipment_id =
     (case shipment_id of
        JNum x \<Rightarrow>
          if x = 0 then h \<lparr> outbox := outbox h @ [(sock, Error_msg ''Invalid shipment_id'')] \<rparr>
          else
            (case findById_as db shipment_id (user_role u) (user_id u) of
               None \<Rightarrow> h \<lparr> outbox := outbox h @ [(sock, Error_msg ''Shipment not found'')] \<rparr>
             | Some shipment \<Rightarrow>
                 if user_role u = ''admin'' \<and> org_set (user_organizationId u)
                    \<and> org_set (ship_organization_id shipment)
                    \<and> ship_organization_id shipment \<noteq> user_organizationId u
                 then h \<lparr> outbox := outbox h
                            @ [(sock, Error_msg ''Access denied to this shipment'')] \<rparr>
                 else h \<lparr> members := insert (sock, x) (members h),
                          outbox := outbox h @ [(sock, Joined_shipment x)] \<rparr>)
      | _ \<Rightarrow> h \<lparr> outbox := outbox h @ [(sock, Error_msg ''Invalid shipment_id'')] \<rparr>)"

definition handleLeaveShipment :: "hub \<Rightarrow> nat \<Rightarrow> jsval \<Rightarrow> hub" where
  "handleLeaveShipment h sock shipment_id =
     (case shipment_id of
        JNum x \<Rightarrow>
          if x = 0 then h \<lparr> outbox := outbox h @ [(sock, Error_msg ''Invalid shipment_id'')] \<rparr>
          else h \<lparr> members := members h - {(sock, x)},
                   outbox := outbox h @ [(sock, Left_shipment x)] \<rparr>
      | _ \<Rightarrow> h \<lparr> outbox := outbox h @ [(sock, Error_msg ''Invalid shipment_id'')] \<rparr>)"

section \<open>Standard ingestion (trackingController.updateLocation)\<close>

text \<open>
  A request that passed authentication: the user of the token, the body, and the value
  of \<open>NOW()\<close> at which its row is written.
\<close>

record ingest_request =
  req_user :: user
  req_shipment_id :: jsval
  req_latitude :: jsval
  req_longitude :: jsval
  req_accuracy :: jsval
  req_speed :: jsval
  req_time :: nat

text \<open>The store and the socket handler of the application, if one is registered.\<close>

record world =
  w_store :: store
  w_hub :: "hub option"

datatype response =
    Created location string
  | Failed app_error

text \<open>
  The handler suspends at every \<open>await\<close>. A phase holds the local variables between two
  of them: the shipment read at the start, the inserted location, and \<open>isFirstUpdate\<close>.
\<close>

datatype phase =
    Start
  | Found shipment_row
  | Inserted shipment_row location
  | Checked shipment_row location bool
  | Transitioned shipment_row location bool
  | Finished response

definition is_first :: "location_row option \<Rightarrow> location \<Rightarrow> bool" where
  "is_first firstUpdate loc =
     (case firstUpdate of None \<Rightarrow> False | Some r \<Rightarrow> loc_id r = l_id loc)"

definition emit_all :: "hub option \<Rightarrow> jsval \<Rightarrow> location \<Rightarrow> bool \<Rightarrow> hub option" where
  "emit_all socketHandler shipment_id loc transition =
     (case socketHandler of
        None \<Rightarrow> None
      | Some h \<Rightarrow>
          (let h1 = emitLocationUpdate h shipment_id loc
           in Some (if transition then emitShipmentStatusUpdate h1 shipment_id ''in_transit''
                    else h1)))"

text \<open>The two permission checks after the lookup; \<open>None\<close> when both pass.\<close>

definition access_error :: "user \<Rightarrow> shipment_row \<Rightarrow> app_error option" where
  "access_error u shipment =
     (if user_role u = ''driver'' \<and> ship_driver_id shipment \<noteq> user_id u
      then Some (AppError ''You can only update your assigned shipments'' 403
                   ''SHIPMENT_ACCESS_DENIED'')
      else if user_role u = ''admin'' \<and> org_set (user_organizationId u)
              \<and> org_set (ship_organization_id shipment)
              \<and> ship_organization_id shipment \<noteq> user_organizationId u
      then Some (AppError ''Access denied to this shipment'' 403 ''ORGANIZATION_ACCESS_DENIED'')
      else None)"

text \<open>
  One step of a request, from one \<open>await\<close> to the next: the lookup and the permission
  checks; the insert; the re-read of the latest row; the status update when
  \<open>isFirstUpdate && shipment.status === 'pending'\<close> (on the status read at the start);
  the timestamp update with the emits and the response.
\<close>

definition advance ::
  "(location_row list \<Rightarrow> location_row) \<Rightarrow> ingest_request \<Rightarrow> phase \<times> world \<Rightarrow> phase \<times> world" where
  "advance pick req pw =
     (case pw of (ph, w) \<Rightarrow>
        (case ph of
           Start \<Rightarrow>
             (case findById (w_store w) (req_shipment_id req) of
                None \<Rightarrow>
                  (Finished (Failed (AppError ''Shipment not found'' 404 ''SHIPMENT_NOT_FOUND'')), w)
              | Some shipment \<Rightarrow>
                  (case access_error (req_user req) shipment of
                     Some e \<Rightarrow> (Finished (Failed e), w)
                   | None \<Rightarrow> (Found shipment, w)))
         | Found shipment \<Rightarrow>
             (case create_location (w_store w) (req_time req) (req_shipment_id req)
                     (req_latitude req) (req_longitude req) (req_accuracy req) (req_speed req) of
                Inl e \<Rightarrow> (Finished (Failed e), w)
              | Inr (loc, db) \<Rightarrow> (Inserted shipment loc, w \<lparr> w_store := db \<rparr>))
         | Inserted shipment loc \<Rightarrow>
             (let firstUpdate = getLatestByShipment pick (w_store w) (req_shipment_id req)
              in (Checked shipment loc (is_first firstUpdate loc), w))
         | Checked shipment loc isFirstUpdate \<Rightarrow>
             if isFirstUpdate \<and> ship_status shipment = ''pending'' then
               (case updateStatus (w_store w) (req_shipment_id req) ''in_transit'' of
                  (db, Inl e) \<Rightarrow> (Finished (Failed (Thrown e)), w \<lparr> w_store := db \<rparr>)
                | (db, Inr ok) \<Rightarrow> (Transitioned shipment loc isFirstUpdate, w \<lparr> w_store := db \<rparr>))
             else (Transitioned shipment loc isFirstUpdate, w)
         | Transitioned shipment loc isFirstUpdate \<Rightarrow>
             (let transition = (isFirstUpdate \<and> ship_status shipment = ''pending'')
              in (Finished (Created loc (if transition then ''in_transit''
                                          else ship_status shipment)),
                  w \<lparr> w_hub := emit_all (w_hub w) (req_shipment_id req) loc transition \<rparr>))
         | Finished r \<Rightarrow> (Finished r, w)))"

text \<open>The handler run without interruption, and a sequence of requests run one by one.\<close>

definition updateLocation ::
  "(location_row list \<Rightarrow> location_row) \<Rightarrow> ingest_request \<Rightarrow> world \<Rightarrow> phase \<times> world" where
  "updateLocation pick req w =
     advance pick req (advance pick req (advance pick req (advance pick req
       (advance pick req (Start, w)))))"





definition samples_of :: "world \<Rightarrow> nat \<Rightarrow> location_row list" where
  "samples_of w k = filter (\<lambda>r. loc_shipment_id r = k) (tracking_locations (w_store w))"

section \<open>Validation of the standard route (validator.js, updateLocationSchema)\<close>

text \<open>
  A rule of a schema. The schemas of the tracking routes use \<open>required\<close>, \<open>type\<close>, \<open>min\<close> and
  \<open>max\<close> only; \<open>minLength\<close>, \<open>maxLength\<close>, \<open>pattern\<close> and \<open>enum\<close> are \<open>undefined\<close> in them and
  their branches never run. A bound carries the text the template literal prints for it.
\<close>

record rule =
  rule_required :: bool
  rule_type :: string
  rule_min :: "(real \<times> string) option"
  rule_max :: "(real \<times> string) option"

definition typeof :: "jsval \<Rightarrow> string" where
  "typeof v =
     (case v of
        JUndefined \<Rightarrow> ''undefined''
      | JNull \<Rightarrow> ''object''
      | JBool b \<Rightarrow> ''boolean''
      | JNum x \<Rightarrow> ''number''
      | JStr s n \<Rightarrow> ''string'')"

text \<open>The errors one field contributes, in the order the checks run.\<close>

definition validateField :: "string \<Rightarrow> string \<Rightarrow> rule \<Rightarrow> jsval \<Rightarrow> string list" where
  "validateField location field rules v =
     (if rule_required rules \<and> (v = JUndefined \<or> v = JNull \<or> (case v of JStr s n \<Rightarrow> s = [] | _ \<Rightarrow> False))
      then [location @ ''.'' @ field @ '' is required'']
      else if v \<noteq> JUndefined \<and> v \<noteq> JNull then
        (if rule_type rules = ''string'' \<and> typeof v \<noteq> ''string''
         then [location @ ''.'' @ field @ '' must be a string''] else [])
        @ (if rule_type rules = ''number'' \<and> typeof v \<noteq> ''number''
           then [location @ ''.'' @ field @ '' must be a number''] else [])
        @ (if rule_type rules = ''boolean'' \<and> typeof v \<noteq> ''boolean''
           then [location @ ''.'' @ field @ '' must be a boolean''] else [])
        @ (case (rule_min rules, to_num v) of
             (Some (lo, text), Some x) \<Rightarrow>
               if x < lo then [location @ ''.'' @ field @ '' must be at least '' @ text] else []
           | _ \<Rightarrow> [])
        @ (case (rule_max rules, to_num v) of
             (Some (hi, text), Some x) \<Rightarrow>
               if hi < x then [location @ ''.'' @ field @ '' must be at most '' @ text] else []
           | _ \<Rightarrow> [])
      else [])"

definition validateObject ::
  "(string \<Rightarrow> jsval) \<Rightarrow> (string \<times> rule) list \<Rightarrow> string \<Rightarrow> string list" where
  "validateObject data schema location =
     concat (map (\<lambda>(field, rules). validateField location field rules (data field)) schema)"

definition updateLocationSchema :: "(string \<times> rule) list" where
  "updateLocationSchema =
     [(''shipment_id'', \<lparr> rule_required = True, rule_type = ''number'',
                          rule_min = Some (1, ''1''), rule_max = None \<rparr>),
      (''latitude'', \<lparr> rule_required = True, rule_type = ''number'',
                       rule_min = Some (- 90, ''-90''), rule_max = Some (90, ''90'') \<rparr>),
      (''longitude'', \<lparr> rule_required = True, rule_type = ''number'',
                        rule_min = Some (- 180, ''-180''), rule_max = Some (180, ''180'') \<rparr>),
      (''accuracy'', \<lparr> rule_required = False, rule_type = ''number'',
                       rule_min = Some (0, ''0''), rule_max = Some (1000, ''1000'') \<rparr>),
      (''speed'', \<lparr> rule_required = False, rule_type = ''number'',
                    rule_min = Some (0, ''0''), rule_max = Some (500, ''500'') \<rparr>)]"

text \<open>\<open>req.body\<close> of a request, as a lookup by field name.\<close>

definition body_of :: "ingest_request \<Rightarrow> string \<Rightarrow> jsval" where
  "body_of req field =
     (if field = ''shipment_id'' then req_shipment_id req
      else if field = ''latitude'' then req_latitude req
      else if field = ''longitude'' then req_longitude req
      else if field = ''accuracy'' then req_accuracy req
      else if field = ''speed'' then req_speed req
      else JUndefined)"

text \<open>\<open>errors.join(', ')\<close>.\<close>

fun join_errors :: "string list \<Rightarrow> string" where
  "join_errors [] = []"
| "join_errors [e] = e"
| "join_errors (e # es) = e @ '', '' @ join_errors es"

text \<open>
  The route \<open>POST /tracking/update\<close> for an authenticated request: \<open>authorize('driver')\<close>,
  then \<open>updateLocationValidation\<close>, then the handler. An error handed to \<open>next\<close> ends the
  request before the handler runs.
\<close>

definition tracking_update_route ::
  "(location_row list \<Rightarrow> location_row) \<Rightarrow> ingest_request \<Rightarrow> world \<Rightarrow> phase \<times> world" where
  "tracking_update_route pick req w =
     (if user_role (req_user req) \<noteq> ''driver''
      then (Finished (Failed (AppError ''Insufficient permissions'' 403 ''FORBIDDEN'')), w)
      else
        (case validateObject (body_of req) updateLocationSchema ''body'' of
           [] \<Rightarrow> updateLocation pick req w
         | e # es \<Rightarrow>
             (Finished (Failed (AppError (''Validation failed: '' @ join_errors (e # es)) 400
                                  ''VALIDATION_ERROR'')), w)))"

section \<open>Route analysis (RouteAnalysisService)\<close>

text \<open>
  A JavaScript number is an IEEE 754 double, and the route functions are modelled
  operation by operation. A number is a real, or \<open>NaN\<close> (\<open>None\<close>); every arithmetic
  operation returns the exact result rounded by \<open>rnd\<close>, the platform's rounding to the
  nearest double. \<open>Math.sin\<close>, \<open>Math.cos\<close>, \<open>Math.sqrt\<close> and \<open>Math.atan2\<close> are the
  platform's functions, which the language leaves implementation-approximated, and
  \<open>Math.PI\<close> is its constant. The platform is a parameter: a theorem assumes of it what
  it states and nothing else. The two zeros are one number here, and a rounded result is
  a real: with coordinates in \<open>[-90, 90]\<close> and \<open>[-180, 180]\<close> a distance stays below
  \<open>10\<^sup>8\<close>, far from the overflow threshold.
\<close>

record platform =
  rnd :: "real \<Rightarrow> real"
  Math_sin :: "real \<Rightarrow> real"
  Math_cos :: "real \<Rightarrow> real"
  Math_sqrt :: "real \<Rightarrow> real"
  Math_atan2 :: "real \<Rightarrow> real \<Rightarrow> real"
  Math_PI :: real

text \<open>
  A binary operation on numbers: \<open>NaN\<close> if an operand is, the rounded result otherwise.
  \<open>Math.sqrt\<close> of a negative number is \<open>NaN\<close>.
\<close>

definition num_op ::
  "platform \<Rightarrow> (real \<Rightarrow> real \<Rightarrow> real) \<Rightarrow> real option \<Rightarrow> real option \<Rightarrow> real option" where
  "num_op pf f x y =
     (case x of None \<Rightarrow> None
      | Some a \<Rightarrow> (case y of None \<Rightarrow> None | Some b \<Rightarrow> Some (rnd pf (f a b))))"

definition js_sin :: "platform \<Rightarrow> real option \<Rightarrow> real option" where
  "js_sin pf x = map_option (Math_sin pf) x"

definition js_cos :: "platform \<Rightarrow> real option \<Rightarrow> real option" where
  "js_cos pf x = map_option (Math_cos pf) x"

definition js_sqrt :: "platform \<Rightarrow> real option \<Rightarrow> real option" where
  "js_sqrt pf x =
     (case x of None \<Rightarrow> None | Some a \<Rightarrow> if a < 0 then None else Some (Math_sqrt pf a))"

definition js_atan2 :: "platform \<Rightarrow> real option \<Rightarrow> real option \<Rightarrow> real option" where
  "js_atan2 pf y x =
     (case y of None \<Rightarrow> None
      | Some a \<Rightarrow> (case x of None \<Rightarrow> None | Some b \<Rightarrow> Some (Math_atan2 pf a b)))"

text \<open>
  \<open>RouteAnalysisService.haversineDistance\<close>, in the order in which the expressions are
  evaluated: \<open>lat1 * Math.PI / 180\<close> is \<open>(lat1 * Math.PI) / 180\<close>, and the second summand of
  \<open>a\<close> is \<open>((cos \<phi>1 * cos \<phi>2) * sin (\<Delta>\<lambda>/2)) * sin (\<Delta>\<lambda>/2)\<close>. \<open>haversine_term\<close> is the
  constant \<open>a\<close> of the function.
\<close>

definition haversine_term ::
  "platform \<Rightarrow> real option \<Rightarrow> real option \<Rightarrow> real option \<Rightarrow> real option \<Rightarrow> real option" where
  "haversine_term pf lat1 lon1 lat2 lon2 =
     (let PI = Some (Math_PI pf);
          \<phi>1 = num_op pf (/) (num_op pf (*) lat1 PI) (Some 180);
          \<phi>2 = num_op pf (/) (num_op pf (*) lat2 PI) (Some 180);
          \<Delta>\<phi> = num_op pf (/) (num_op pf (*) (num_op pf (-) lat2 lat1) PI) (Some 180);
          \<Delta>l = num_op pf (/) (num_op pf (*) (num_op pf (-) lon2 lon1) PI) (Some 180)
      in num_op pf (+)
           (num_op pf (*) (js_sin pf (num_op pf (/) \<Delta>\<phi> (Some 2)))
                          (js_sin pf (num_op pf (/) \<Delta>\<phi> (Some 2))))
           (num_op pf (*)
              (num_op pf (*) (num_op pf (*) (js_cos pf \<phi>1) (js_cos pf \<phi>2))
                             (js_sin pf (num_op pf (/) \<Delta>l (Some 2))))
              (js_sin pf (num_op pf (/) \<Delta>l (Some 2)))))"

definition route_haversineDistance ::
  "platform \<Rightarrow> real option \<Rightarrow> real option \<Rightarrow> real option \<Rightarrow> real option \<Rightarrow> real option" where
  "route_haversineDistance pf lat1 lon1 lat2 lon2 =
     (let R = Some 6371000;
          a = haversine_term pf lat1 lon1 lat2 lon2;
          c = num_op pf (*) (Some 2)
                (js_atan2 pf (js_sqrt pf a) (js_sqrt pf (num_op pf (-) (Some 1) a)))
      in num_op pf (*) R c)"

text \<open>The distance between two samples, as every caller computes it.\<close>

definition sample_distance :: "platform \<Rightarrow> sample \<Rightarrow> sample \<Rightarrow> real option" where
  "sample_distance pf p q =
     route_haversineDistance pf (latitude p) (longitude p) (latitude q) (longitude q)"

text \<open>
  \<open>calculateTotalDistance\<close>: the loop \<open>for (i = 1; i < trackingData.length; i++)\<close> adds the
  distance from \<open>trackingData[i - 1]\<close> to \<open>trackingData[i]\<close> to the running total.
\<close>

definition calculateTotalDistance :: "platform \<Rightarrow> sample list \<Rightarrow> real option" where
  "calculateTotalDistance pf trackingData =
     fold (\<lambda>i totalDistance.
             (let prev = trackingData ! (i - 1);
                  cur = trackingData ! i
              in num_op pf (+) totalDistance (sample_distance pf prev cur)))
       [1 ..< length trackingData] (Some 0)"

text \<open>
  A quotient of two numbers. Division by zero gives an infinity, or \<open>NaN\<close> for \<open>0 / 0\<close>; a
  \<open>NaN\<close> operand gives \<open>NaN\<close>. The divisor of the route efficiency is a sum that starts at
  \<open>+0\<close>, which is never \<open>-0\<close>.
\<close>

datatype quotient = Fin real | PosInfinity | NegInfinity | NotANumber

definition js_div :: "platform \<Rightarrow> real option \<Rightarrow> real option \<Rightarrow> quotient" where
  "js_div pf a b =
     (case (a, b) of
        (Some x, Some y) \<Rightarrow>
          if y \<noteq> 0 then Fin (rnd pf (x / y))
          else if 0 < x then PosInfinity
          else if x < 0 then NegInfinity
          else NotANumber
      | _ \<Rightarrow> NotANumber)"

definition calculateRouteEfficiency :: "platform \<Rightarrow> sample list \<Rightarrow> quotient" where
  "calculateRouteEfficiency pf trackingData =
     (if length trackingData < 2 then Fin 0
      else
        (let start = trackingData ! 0;
             end' = trackingData ! (length trackingData - 1);
             directDistance = sample_distance pf start end';
             actualDistance = calculateTotalDistance pf trackingData
         in js_div pf directDistance actualDistance))"

text \<open>
  The specification's formula: the distance from the first to the last sample, divided by
  the distances of the consecutive segments summed from left to right.
\<close>

definition segment_distances :: "platform \<Rightarrow> sample list \<Rightarrow> real option list" where
  "segment_distances pf td = map2 (sample_distance pf) td (tl td)"

definition spec_routeEfficiency :: "platform \<Rightarrow> sample list \<Rightarrow> quotient" where
  "spec_routeEfficiency pf td =
     js_div pf (sample_distance pf (hd td) (last td))
       (foldl (num_op pf (+)) (Some 0) (segment_distances pf td))"

text \<open>
  What the theorems assume of the platform. Rounding to nearest keeps \<open>0\<close> and \<open>1\<close>, which
  are doubles, is monotone, and returns a double, which it keeps. The language fixes
  \<open>Math.sin(0) = 0\<close>, \<open>Math.sqrt(0) = 0\<close> and \<open>Math.atan2(0, x) = 0\<close> for \<open>x > 0\<close>; the square
  root of \<open>1\<close> is \<open>1\<close>, a square root is not negative, and neither is \<open>Math.atan2(y, x)\<close>
  for \<open>y\<close> and \<open>x\<close> that are not negative.
\<close>

definition conforming :: "platform \<Rightarrow> bool" where
  "conforming pf \<longleftrightarrow>
     rnd pf 0 = 0 \<and> rnd pf 1 = 1
     \<and> (\<forall>x y. x \<le> y \<longrightarrow> rnd pf x \<le> rnd pf y)
     \<and> (\<forall>x. rnd pf (rnd pf x) = rnd pf x)
     \<and> Math_sin pf 0 = 0
     \<and> Math_sqrt pf 0 = 0 \<and> Math_sqrt pf 1 = 1
     \<and> (\<forall>x. 0 \<le> x \<longrightarrow> 0 \<le> Math_sqrt pf x)
     \<and> Math_atan2 pf 0 1 = 0
     \<and> (\<forall>y x. 0 \<le> y \<longrightarrow> 0 \<le> x \<longrightarrow> 0 \<le> Math_atan2 pf y x)"

text \<open>
  A platform that is accurate to one part in a million, on the arguments that occur for
  coordinates in range: rounding changes a number by at most a millionth of its size (and
  of \<open>1\<close>, for the numbers next to \<open>0\<close>), the four functions are within \<open>10\<^sup>-\<^sup>6\<close> of the
  mathematical ones, and \<open>Math.PI\<close> is within \<open>10\<^sup>-\<^sup>6\<close> of \<open>\<pi>\<close>. A double carries 53 bits,
  an error of \<open>10\<^sup>-\<^sup>1\<^sup>6\<close>; the language promises no accuracy of \<open>Math.sin\<close>, \<open>Math.cos\<close> and
  \<open>Math.atan2\<close>, and the engines in use are accurate to the last bits.
\<close>

definition accurate :: "platform \<Rightarrow> bool" where
  "accurate pf \<longleftrightarrow>
     (\<forall>x. \<bar>x\<bar> \<le> 100000000 \<longrightarrow> \<bar>rnd pf x - x\<bar> \<le> (\<bar>x\<bar> + 1) / 1000000)
     \<and> (\<forall>x. \<bar>x\<bar> \<le> 4 \<longrightarrow> \<bar>Math_sin pf x - sin x\<bar> \<le> 1 / 1000000)
     \<and> (\<forall>x. \<bar>x\<bar> \<le> 4 \<longrightarrow> \<bar>Math_cos pf x - cos x\<bar> \<le> 1 / 1000000)
     \<and> (\<forall>x. 0 \<le> x \<and> x \<le> 4 \<longrightarrow> \<bar>Math_sqrt pf x - sqrt x\<bar> \<le> 1 / 1000000)
     \<and> (\<forall>y x. 0 < y \<and> y \<le> 4 \<and> 0 < x \<and> x \<le> 4
            \<longrightarrow> \<bar>Math_atan2 pf y x - arctan (y / x)\<bar> \<le> 1 / 1000000)
     \<and> \<bar>Math_PI pf - pi\<bar> \<le> 1 / 1000000"

text \<open>
  Rounding to the nearest double, ties to even, as IEEE 754 defines it for the binary64
  format. A number of magnitude \<open>a\<close> in the binade from \<open>2\<^sup>e\<close> to \<open>2\<^sup>e\<^sup>+\<^sup>1\<close> is rounded to the
  nearest multiple of \<open>2\<^sup>e\<^sup>-\<^sup>5\<^sup>2\<close>, and below \<open>2\<^sup>-\<^sup>1\<^sup>0\<^sup>2\<^sup>2\<close>, in the subnormal range, to the
  nearest multiple of \<open>2\<^sup>-\<^sup>1\<^sup>0\<^sup>7\<^sup>4\<close>; of two nearest multiples the one with the even factor
  is taken, and the sign is kept. Overflow to an infinity, from \<open>2\<^sup>1\<^sup>0\<^sup>2\<^sup>4\<close> on, is not
  represented.
\<close>

definition pow2 :: "int \<Rightarrow> real" where
  "pow2 n = 2 powr real_of_int n"

definition binade :: "real \<Rightarrow> int" where
  "binade a = \<lfloor>log 2 a\<rfloor>"

definition ulp :: "real \<Rightarrow> real" where
  "ulp a = pow2 (max (binade a) (- 1022) - 52)"

definition nearest_even :: "real \<Rightarrow> int" where
  "nearest_even m =
     (let f = \<lfloor>m\<rfloor>; r = m - real_of_int f
      in if r < 1 / 2 then f
         else if 1 / 2 < r then f + 1
         else if even f then f else f + 1)"

definition round_magnitude :: "real \<Rightarrow> real" where
  "round_magnitude a = ulp a * real_of_int (nearest_even (a / ulp a))"

definition binary64 :: "real \<Rightarrow> real" where
  "binary64 x = sgn x * round_magnitude \<bar>x\<bar>"

text \<open>A sample whose position is a pair of numbers within the ranges ingestion accepts.\<close>

definition in_bounds :: "sample \<Rightarrow> bool" where
  "in_bounds s =
     (case latitude s of None \<Rightarrow> False
      | Some la \<Rightarrow>
          (case longitude s of None \<Rightarrow> False
           | Some lo \<Rightarrow> \<bar>la\<bar> \<le> 90 \<and> \<bar>lo\<bar> \<le> 180))"

text \<open>Two samples at the same position.\<close>

definition same_position :: "sample \<Rightarrow> sample \<Rightarrow> bool" where
  "same_position p q = (latitude p = latitude q \<and> longitude p = longitude q)"

text \<open>A result that is not negative: \<open>NaN\<close>, \<open>+Infinity\<close>, or a number from \<open>0\<close> on.\<close>

definition not_negative :: "quotient \<Rightarrow> bool" where
  "not_negative q =
     (case q of Fin x \<Rightarrow> 0 \<le> x | PosInfinity \<Rightarrow> True | NegInfinity \<Rightarrow> False | NotANumber \<Rightarrow> True)"

section \<open>Sample data used in the closed theorems\<close>

definition mk_sample :: "real \<Rightarrow> real \<Rightarrow> real option \<Rightarrow> real option \<Rightarrow> int option \<Rightarrow> sample" where
  "mk_sample la lo a s t =
     \<lparr> latitude = Some la, longitude = Some lo, accuracy = a, speed = s, timestamp = t \<rparr>"

text \<open>A stationary sample and a slowly moving one, both one second before \<open>now = 1000000\<close>.\<close>

definition idle_sample :: sample where
  "idle_sample = mk_sample 0 0 None (Some 0) (Some 999000)"

definition crawl_sample :: sample where
  "crawl_sample = mk_sample 0 0 None (Some 3) (Some 999000)"

definition drive_sample :: sample where
  "drive_sample = mk_sample 0 0 None (Some 12) (Some 999000)"

text \<open>The advisory types and severities of the specification's data model.\<close>

definition spec_types :: "string set" where
  "spec_types = {''route_deviation'', ''delay_alert'', ''speed_pattern'', ''idle_alert'', ''gps_warning''}"

definition spec_severities :: "string set" where
  "spec_severities = {''low'', ''medium'', ''high''}"

text \<open>
  A shipment bound for the north pole, a start on the equator and a courier already at
  the destination; a slow courier after ten samples at speed 20.
\<close>

definition polar_destination :: destination where
  "polar_destination =
     \<lparr> d_latitude = Some 90, d_lat = None, d_longitude = Some 90, d_lng = None \<rparr>"

definition polar_shipment :: shipment_info where
  "polar_shipment =
     \<lparr> destination_address = Some polar_destination,
        destination_latitude = Some 90, destination_lat = None,
        destination_longitude = Some 90, destination_lng = None,
        destination_obj = None,
        planned_delivery_time = Some 0,
        driver_id = 7 \<rparr>"

definition equator_sample :: sample where
  "equator_sample = mk_sample 0 0 None (Some 20) (Some 0)"

definition pole_sample :: sample where
  "pole_sample = mk_sample 90 90 None (Some 20) (Some 0)"

definition slow_sample :: sample where
  "slow_sample = mk_sample 0 0 None (Some 1) None"

definition poor_gps_sample :: sample where
  "poor_gps_sample = mk_sample 0 0 (Some 2000) None None"

text \<open>
  Noon, no route history; five samples on the equator, the last one faster than the
  others.
\<close>

definition noon_env :: eta_env where
  "noon_env = \<lparr> clock_now = 0, clock_hour = 12, route_rows = Inr [] \<rparr>"

definition speeding_up :: "sample list" where
  "speeding_up =
     [mk_sample 0 0 None (Some 10) (Some 0), mk_sample 0 0 None (Some 10) (Some 0),
      mk_sample 0 0 None (Some 10) (Some 0), mk_sample 0 0 None (Some 10) (Some 0),
      mk_sample 0 0 None (Some 40) (Some 0)]"

text \<open>
  A store that keeps the bind parameters of every statement it accepted, and one that
  rejects the \<open>INSERT\<close>; in both the recommendation service's lookups raise, as calling
  the two imported names does in this repository (neither controller exports them).
\<close>

definition accepting_deps :: "sql_value list list smart_deps" where
  "accepting_deps =
     \<lparr> pool_select_shipment = (\<lambda>s v. Inr [polar_shipment]),
        pool_insert_location = (\<lambda>s ps. Inr (length s + 1, s @ [ps])),
        pool_select_history = (\<lambda>s v. Inr []),
        pool_update_shipment = (\<lambda>s ps. Inr (s @ [ps])),
        svc_save_recommendation = (\<lambda>s v r. s),
        svc_getShipmentById = (\<lambda>s v. Inl TypeError),
        svc_getTrackingData = (\<lambda>s v. Inl TypeError),
        svc_env = noon_env,
        app_io = True \<rparr>"

definition rejecting_deps :: "sql_value list list smart_deps" where
  "rejecting_deps = accepting_deps \<lparr> pool_insert_location := (\<lambda>s ps. Inl DbError) \<rparr>"

definition mk_body :: "jsval \<Rightarrow> jsval \<Rightarrow> jsval \<Rightarrow> jsval \<Rightarrow> jsval \<Rightarrow> smart_body" where
  "mk_body sid la lo acc spd =
     \<lparr> b_shipment_id = sid, b_latitude = la, b_longitude = lo, b_accuracy = acc,
        b_speed = spd, b_heading = JUndefined, b_timestamp = JUndefined \<rparr>"

text \<open>A sample on the equator, one with a poor fix, and one north of the pole.\<close>

definition equator_body :: smart_body where
  "equator_body = mk_body (JNum 1) (JNum 0) (JNum 77) JUndefined JUndefined"

definition poor_fix_body :: smart_body where
  "poor_fix_body = mk_body (JNum 1) (JNum 10) (JNum 10) (JNum 2000) (JNum 5)"



text \<open>
  One pending shipment of driver 7 without samples, an empty hub, and the same first
  sample submitted twice, one second apart.
\<close>

definition pending_shipment :: shipment_row where
  "pending_shipment =
     \<lparr> ship_id = 1, ship_driver_id = 7, ship_organization_id = Some 3,
        ship_status = ''pending'' \<rparr>"

definition fresh_store :: "bool \<Rightarrow> store" where
  "fresh_store iterable =
     \<lparr> shipments = [pending_shipment], tracking_locations = [], next_location_id = 1,
        status_log = [], header_iterable = iterable \<rparr>"

definition empty_hub :: hub where
  "empty_hub = \<lparr> members = {}, published = [], outbox = [] \<rparr>"

definition fresh_world :: "bool \<Rightarrow> world" where
  "fresh_world iterable = \<lparr> w_store = fresh_store iterable, w_hub = Some empty_hub \<rparr>"

definition driver7 :: user where
  "driver7 = \<lparr> user_id = 7, user_role = ''driver'', user_organizationId = None \<rparr>"

definition first_sample :: "nat \<Rightarrow> ingest_request" where
  "first_sample t =
     \<lparr> req_user = driver7, req_shipment_id = JNum 1, req_latitude = JNum 10,
        req_longitude = JNum 20, req_accuracy = JUndefined, req_speed = JUndefined,
        req_time = t \<rparr>"




text \<open>
  The authorization rule as the specification words it (the assigned courier, or an
  administrator of the same organization), and the cases in which the code refuses a
  join: the id is not a non-zero number, no shipment has it, the caller is a driver the
  shipment is not assigned to, or the caller is an administrator and both organization
  ids are set and differ.
\<close>

definition spec_authorized :: "user \<Rightarrow> shipment_row \<Rightarrow> bool" where
  "spec_authorized u shipment =
     ((user_role u = ''driver'' \<and> ship_driver_id shipment = user_id u)
      \<or> (user_role u = ''admin'' \<and> user_organizationId u = ship_organization_id shipment))"

definition join_refused :: "store \<Rightarrow> user \<Rightarrow> jsval \<Rightarrow> bool" where
  "join_refused db u shipment_id =
     (case shipment_id of
        JNum x \<Rightarrow>
          x = 0
          \<or> (case filter (\<lambda>s. real (ship_id s) = x) (shipments db) of
                [] \<Rightarrow> True
              | shipment # _ \<Rightarrow>
                  (user_role u = ''driver'' \<and> ship_driver_id shipment \<noteq> user_id u)
                  \<or> (user_role u = ''admin'' \<and> org_set (user_organizationId u)
                      \<and> org_set (ship_organization_id shipment)
                      \<and> ship_organization_id shipment \<noteq> user_organizationId u))
      | _ \<Rightarrow> True)"

definition admin_without_org :: user where
  "admin_without_org = \<lparr> user_id = 9, user_role = ''admin'', user_organizationId = None \<rparr>"

definition other_driver :: user where
  "other_driver = \<lparr> user_id = 8, user_role = ''driver'', user_organizationId = None \<rparr>"

text \<open>A sample north of the pole sent by the assigned driver.\<close>

definition beyond_pole :: ingest_request where
  "beyond_pole = (first_sample 100) \<lparr> req_latitude := JNum 95 \<rparr>"

definition beyond_pole_body :: smart_body where
  "beyond_pole_body = mk_body (JNum 1) (JNum 95) (JNum 10) JUndefined JUndefined"

text \<open>
  A right-angle path: along the equator from longitude 0 to 90, then up the meridian to
  the pole.
\<close>

definition quarter_sample :: sample where
  "quarter_sample = mk_sample 0 90 None (Some 20) (Some 0)"

definition right_angle_path :: "sample list" where
  "right_angle_path = [equator_sample, quarter_sample, pole_sample]"

definition round_trip :: "sample list" where
  "round_trip = [equator_sample, pole_sample, equator_sample]"

text \<open>
  Exact arithmetic: no rounding, and the mathematical functions themselves.
\<close>

definition exact_platform :: platform where
  "exact_platform =
     \<lparr> rnd = (\<lambda>x. x), Math_sin = sin, Math_cos = cos, Math_sqrt = sqrt,
        Math_atan2 = atan2, Math_PI = pi \<rparr>"

text \<open>
  Double arithmetic with correctly rounded functions: every operation and every function
  returns the double nearest to the exact result, and \<open>Math.PI\<close> is the double nearest to
  \<open>\<pi>\<close>, as the language defines it. The language permits functions that are less accurate.
\<close>

definition ieee_platform :: platform where
  "ieee_platform =
     \<lparr> rnd = binary64,
        Math_sin = (\<lambda>x. binary64 (sin x)),
        Math_cos = (\<lambda>x. binary64 (cos x)),
        Math_sqrt = (\<lambda>x. binary64 (sqrt x)),
        Math_atan2 = (\<lambda>y x. binary64 (atan2 y x)),
        Math_PI = binary64 pi \<rparr>"

section \<open>Properties of the risk score\<close>

lemma fold_points:
  "fold (\<lambda>rec riskScore. riskScore + severity_points (severity rec)) recs acc
     = acc + weight_sum recs"
  by (induction recs arbitrary: acc) (auto simp: weight_sum_def severity_points_def)

lemma weight_sum_nonneg: "0 \<le> weight_sum recs"
  by (simp add: weight_sum_def)

text \<open>
  Claim C4. For every list of advisories handed to \<open>calculateRiskScore\<close> the score is
  \<open>min 100\<close> of the sum of the severity weights (low 5, medium 15, high 30), it depends on
  that list only (the empty and the absent list give 0), and it lies in \<open>[0, 100]\<close>.
\<close>

theorem risk_score_min_sum:
  "calculateRiskScore (Some recs) = min 100 (weight_sum recs)
   \<and> calculateRiskScore (Some []) = 0
   \<and> calculateRiskScore None = 0
   \<and> 0 \<le> calculateRiskScore r \<and> calculateRiskScore r \<le> 100"
proof -
  have e: "weight_sum [] = 0" by (simp add: weight_sum_def)
  have a: "calculateRiskScore (Some recs) = min 100 (weight_sum recs)" for recs
  proof (cases "recs = []")
    case True
    then show ?thesis using e by (simp add: calculateRiskScore_def)
  next
    case False
    then show ?thesis by (simp add: calculateRiskScore_def fold_points min.commute)
  qed
  have b: "0 \<le> calculateRiskScore r \<and> calculateRiskScore r \<le> 100"
  proof (cases r)
    case None
    then show ?thesis by (simp add: calculateRiskScore_def)
  next
    case (Some rs)
    then show ?thesis using a [of rs] weight_sum_nonneg [of rs] by simp
  qed
  show ?thesis using a b by (simp add: calculateRiskScore_def)
qed



section \<open>Distances at particular points\<close>

lemma hav_a_same: "hav_a la lo la lo = 0"
  by (simp add: hav_a_def)

lemma haversine_Some [simp]:
  "haversineDistance (Some a) (Some b) (Some c) (Some d) = haversine_num a b c d"
  by (simp add: haversineDistance_def)

lemma haversine_same: "haversine_num la lo la lo = Some 0"
  by (simp add: haversine_num_def hav_a_same atan2_def)

lemma hav_a_pole: "hav_a 0 0 90 90 = 1 / 2"
proof -
  have a: "(90::real) * pi / 180 = pi / 2" by simp
  have b: "((90::real) - 0) * pi / 180 / 2 = pi / 4" by simp
  have c: "sin (pi / 4) * sin (pi / 4) = 1 / 2" by (simp add: sin_45)
  show ?thesis unfolding hav_a_def Let_def a b using c by simp
qed

lemma atan2_diag: "0 < x \<Longrightarrow> atan2 x x = pi / 4"
  by (simp add: atan2_def arctan_one)

lemma haversine_pole: "haversine_num 0 0 90 90 = Some (6371000 * (pi / 2))"
proof -
  have "sqrt (1 - 1 / 2) = sqrt (1 / 2)" by simp
  moreover have "0 < sqrt (1 / 2 :: real)" by simp
  ultimately show ?thesis
    unfolding haversine_num_def Let_def hav_a_pole
    by (simp add: atan2_diag del: real_sqrt_gt_0_iff)
qed

lemma quarter_meridian_long: "5000 < 6371000 * (pi / 2)"
  using pi_ge_two by simp

section \<open>Properties of the idle-time analyzer\<close>

lemma idle_fires:
  assumes "5 \<le> length h"
      and "filter (in_window (now - 10 * 60 * 1000)) h \<noteq> []"
      and "\<not> list_ex moving (filter (in_window (now - 10 * 60 * 1000)) h)"
  shows "\<exists>r. analyzeIdleTime now cur h = Some r \<and> rtype r = ''idle_alert'' \<and> severity r = ''medium''"
  using assms
  by (auto simp: analyzeIdleTime_def Let_def IDLE_ALERT_def MEDIUM_def split: list.splits)

lemma idle_none_if_moving:
  "list_ex moving (filter (in_window (now - 10 * 60 * 1000)) h) \<Longrightarrow> analyzeIdleTime now cur h = None"
  by (cases "filter (in_window (now - 10 * 60 * 1000)) h") (simp_all add: analyzeIdleTime_def Let_def)

lemma idle_suppressed:
  assumes "in_window (now - 10 * 60 * 1000) t" and "moving t"
  shows "analyzeIdleTime now cur (xs @ t # ys) = None"
proof -
  let ?R = "filter (in_window (now - 10 * 60 * 1000)) (xs @ t # ys)"
  have "t \<in> set ?R" using assms(1) by simp
  then have "list_ex moving ?R" using assms(2) unfolding list_ex_iff by blast
  then show ?thesis by (rule idle_none_if_moving)
qed

text \<open>
  Claim C8, as the specification states it, fails twice on the code: a history of fewer
  than five samples never fires (here one stationary sample inside the window), and a
  sample with a non-zero speed of at most 5 does not suppress the alert (here speed 3
  added to five stationary samples).
\<close>

theorem idle_alert_counterexample:
  "filter (in_window (1000000 - 10 * 60 * 1000)) [idle_sample] \<noteq> []
   \<and> \<not> list_ex moving [idle_sample]
   \<and> analyzeIdleTime 1000000 idle_sample [idle_sample] = None
   \<and> speed crawl_sample \<noteq> Some 0
   \<and> in_window (1000000 - 10 * 60 * 1000) crawl_sample
   \<and> analyzeIdleTime 1000000 crawl_sample (replicate 5 idle_sample @ [crawl_sample]) \<noteq> None"
  by (simp add: analyzeIdleTime_def idle_sample_def crawl_sample_def mk_sample_def
        in_window_def moving_def Let_def numeral_eq_Suc)

text \<open>
  Claim C8, amended. For every history of at least five samples whose trailing
  ten-minute window holds at least one sample and no sample of the window has a speed
  above 5, the idle analyzer returns one advisory of type \<open>idle_alert\<close> and severity
  \<open>medium\<close>; inserting anywhere a sample that lies in the window and has a speed above 5
  makes the analyzer return nothing.
\<close>

theorem idle_alert_window:
  assumes "5 \<le> length (xs @ ys)"
      and "filter (in_window (now - 10 * 60 * 1000)) (xs @ ys) \<noteq> []"
      and "\<not> list_ex moving (filter (in_window (now - 10 * 60 * 1000)) (xs @ ys))"
      and "in_window (now - 10 * 60 * 1000) t"
      and "moving t"
  shows "(\<exists>r. analyzeIdleTime now cur (xs @ ys) = Some r
              \<and> rtype r = ''idle_alert'' \<and> severity r = ''medium'')
         \<and> analyzeIdleTime now cur (xs @ t # ys) = None"
  using idle_fires [OF assms(1,2,3)] idle_suppressed [OF assms(4,5)] by blast

theorem idle_alert_window_witness:
  "5 \<le> length (replicate 5 idle_sample @ [])
   \<and> filter (in_window (1000000 - 10 * 60 * 1000)) (replicate 5 idle_sample @ []) \<noteq> []
   \<and> \<not> list_ex moving (filter (in_window (1000000 - 10 * 60 * 1000)) (replicate 5 idle_sample @ []))
   \<and> in_window (1000000 - 10 * 60 * 1000) drive_sample
   \<and> moving drive_sample
   \<and> (\<exists>r. analyzeIdleTime 1000000 idle_sample (replicate 5 idle_sample @ []) = Some r
            \<and> rtype r = ''idle_alert'' \<and> severity r = ''medium'')
   \<and> analyzeIdleTime 1000000 idle_sample (replicate 5 idle_sample @ drive_sample # []) = None"
proof -
  have h1: "5 \<le> length (replicate 5 idle_sample @ [])" by simp
  have h2: "filter (in_window (1000000 - 10 * 60 * 1000)) (replicate 5 idle_sample @ []) \<noteq> []"
    by (simp add: idle_sample_def mk_sample_def in_window_def numeral_eq_Suc)
  have h3: "\<not> list_ex moving (filter (in_window (1000000 - 10 * 60 * 1000)) (replicate 5 idle_sample @ []))"
    by (simp add: idle_sample_def mk_sample_def in_window_def moving_def numeral_eq_Suc)
  have h4: "in_window (1000000 - 10 * 60 * 1000) drive_sample"
    by (simp add: drive_sample_def mk_sample_def in_window_def)
  have h5: "moving drive_sample"
    by (simp add: drive_sample_def mk_sample_def moving_def)
  show ?thesis
    using idle_alert_window [OF h1 h2 h3 h4 h5, of idle_sample] h1 h2 h3 h4 h5 by blast
qed

section \<open>Types and severities of the advisories\<close>

lemma route_enum:
  "analyzeRouteDeviation sh cur h = Inr (Some r)
   \<Longrightarrow> rtype r = ''route_change'' \<and> severity r \<in> {''medium'', ''high''}"
  by (auto simp: analyzeRouteDeviation_def ROUTE_DEVIATION_def HIGH_def MEDIUM_def
      split: option.splits list.splits sum.splits if_splits)

lemma delay_enum:
  "analyzeDelayProbability now sh h = Some r
   \<Longrightarrow> rtype r = ''delay_alert'' \<and> severity r \<in> {''medium'', ''high''}"
  by (auto simp: analyzeDelayProbability_def DELAY_ALERT_def HIGH_def MEDIUM_def Let_def
      split: option.splits if_splits)

lemma speed_enum:
  "analyzeSpeedPatterns cur h = Some r \<Longrightarrow> rtype r = ''performance'' \<and> severity r = ''low''"
  by (auto simp: analyzeSpeedPatterns_def PERFORMANCE_def LOW_def Let_def
      split: option.splits if_splits)

lemma idle_enum:
  "analyzeIdleTime now cur h = Some r \<Longrightarrow> rtype r = ''idle_alert'' \<and> severity r = ''medium''"
  by (auto simp: analyzeIdleTime_def IDLE_ALERT_def MEDIUM_def Let_def
      split: list.splits if_splits)

lemma gps_enum:
  "analyzeGPSAccuracy loc = Some r
   \<Longrightarrow> rtype r = ''gps_warning'' \<and> severity r \<in> {''medium'', ''high''}"
  by (auto simp: analyzeGPSAccuracy_def GPS_WARNING_def HIGH_def MEDIUM_def Let_def
      split: if_splits)

lemma set_push_opt: "set (push_opt r recs) = set recs \<union> set_option r"
  by (cases r) (auto simp: push_opt_def)

lemma analyze_all_enum:
  assumes "analyze_all now sh loc h = Inr recs" and "r \<in> set recs"
  shows "rtype r \<in> {''route_change'', ''delay_alert'', ''performance'', ''idle_alert'', ''gps_warning''}
         \<and> severity r \<in> {''low'', ''medium'', ''high''}"
proof -
  obtain rd where rd: "analyzeRouteDeviation sh (Some loc) h = Inr rd"
    and recs: "recs = push_opt (analyzeGPSAccuracy loc)
                (push_opt (analyzeIdleTime now loc h)
                  (push_opt (analyzeSpeedPatterns loc h)
                    (push_opt (analyzeDelayProbability now sh h)
                      (push_opt rd []))))"
    using assms(1) by (auto simp: analyze_all_def split: sum.splits)
  from assms(2) recs consider
      "analyzeGPSAccuracy loc = Some r" | "analyzeIdleTime now loc h = Some r"
    | "analyzeSpeedPatterns loc h = Some r" | "analyzeDelayProbability now sh h = Some r"
    | "rd = Some r"
    by (auto simp: set_push_opt)
  then show ?thesis
  proof cases
    case 1 then show ?thesis using gps_enum [of loc r] by auto
  next
    case 2 then show ?thesis using idle_enum [of now loc h r] by auto
  next
    case 3 then show ?thesis using speed_enum [of loc h r] by auto
  next
    case 4 then show ?thesis using delay_enum [of now sh h r] by auto
  next
    case 5 then show ?thesis using route_enum [of sh "Some loc" h r] rd by auto
  qed
qed

text \<open>
  Claim C7, as the specification states it, fails on the code: the speed analyzer files
  its advisory under \<open>performance\<close> and the route analyzer under \<open>route_change\<close>, neither
  of which is a type of the specification's enumeration.
\<close>

theorem advisory_type_counterexample:
  "analyzeSpeedPatterns slow_sample (replicate 10 equator_sample)
     = Some \<lparr> rtype = ''performance'', rmessage = SpeedMsg, severity = ''low'',
              rdata = SpeedData 1 20 (1 / 20) \<rparr>
   \<and> ''performance'' \<notin> spec_types
   \<and> map_sum id (map_option rtype)
         (analyzeRouteDeviation (Some polar_shipment) (Some pole_sample)
            [equator_sample, pole_sample]) = Inr (Some ''route_change'')
   \<and> map_sum id (map_option severity)
         (analyzeRouteDeviation (Some polar_shipment) (Some pole_sample)
            [equator_sample, pole_sample]) = Inr (Some ''high'')
   \<and> ''route_change'' \<notin> spec_types"
proof -
  have a: "analyzeSpeedPatterns slow_sample (replicate 10 equator_sample)
     = Some \<lparr> rtype = ''performance'', rmessage = SpeedMsg, severity = ''low'',
              rdata = SpeedData 1 20 (1 / 20) \<rparr>"
    by (simp add: analyzeSpeedPatterns_def slow_sample_def equator_sample_def mk_sample_def
        last10_def positive_speeds_def mean_speed_def js_or_def List.map_filter_simps
        PERFORMANCE_def LOW_def numeral_eq_Suc)
  have b: "calculateDeviation equator_sample (Some polar_destination) pole_sample
             = Inr (Some (6371000 * (pi / 2)))"
    using quarter_meridian_long
    by (simp add: calculateDeviation_def polar_destination_def equator_sample_def
        pole_sample_def mk_sample_def js_or_def nan2_def haversine_pole haversine_same)
  have c: "map_sum id (map_option rtype)
         (analyzeRouteDeviation (Some polar_shipment) (Some pole_sample)
            [equator_sample, pole_sample]) = Inr (Some ''route_change'')"
    "map_sum id (map_option severity)
         (analyzeRouteDeviation (Some polar_shipment) (Some pole_sample)
            [equator_sample, pole_sample]) = Inr (Some ''high'')"
    using quarter_meridian_long
    by (simp_all add: analyzeRouteDeviation_def polar_shipment_def b ROUTE_DEVIATION_def HIGH_def)
  show ?thesis using a c by (simp add: spec_types_def)
qed

text \<open>
  Claim C7, amended. Every advisory the recommendation engine returns has a type among
  \<open>route_change\<close>, \<open>delay_alert\<close>, \<open>performance\<close>, \<open>idle_alert\<close>, \<open>gps_warning\<close> and a
  severity among \<open>low\<close>, \<open>medium\<close>, \<open>high\<close>.
\<close>

theorem advisory_enums:
  "r \<in> set (analyzeTrackingData getShipmentById getTrackingData now shipmentId locationData)
   \<Longrightarrow> rtype r \<in> {''route_change'', ''delay_alert'', ''performance'', ''idle_alert'', ''gps_warning''}
       \<and> severity r \<in> {''low'', ''medium'', ''high''}"
  by (auto simp: analyzeTrackingData_def split: sum.splits dest: analyze_all_enum [OF sym])

theorem advisory_enums_witness:
  "\<lparr> rtype = ''gps_warning'', rmessage = GpsMsg 2000, severity = ''medium'', rdata = GpsData 2000 \<rparr>
     \<in> set (analyzeTrackingData (\<lambda>i. Inr None) (\<lambda>i. Inr []) 1000000 1 poor_gps_sample)
   \<and> ''gps_warning'' \<in> {''route_change'', ''delay_alert'', ''performance'', ''idle_alert'', ''gps_warning''}
   \<and> ''medium'' \<in> {''low'', ''medium'', ''high''}"
proof -
  let ?r = "\<lparr> rtype = ''gps_warning'', rmessage = GpsMsg 2000, severity = ''medium'',
               rdata = GpsData 2000 \<rparr>"
  have m: "?r \<in> set (analyzeTrackingData (\<lambda>i. Inr None) (\<lambda>i. Inr []) 1000000 1 poor_gps_sample)"
    by (simp add: analyzeTrackingData_def analyze_all_def analyzeRouteDeviation_def
        analyzeDelayProbability_def analyzeSpeedPatterns_def analyzeIdleTime_def
        analyzeGPSAccuracy_def push_opt_def poor_gps_sample_def mk_sample_def js_or_def
        js_round_def GPS_WARNING_def MEDIUM_def)
  show ?thesis using advisory_enums [OF m] m by simp
qed

section \<open>The delay analyzer's estimate and the ETA predictor\<close>

lemma map_filter_const:
  "\<forall>s\<in>set xs. f s = Some v \<Longrightarrow> List.map_filter f xs = replicate (length xs) v"
  by (induction xs) (auto simp: List.map_filter_simps)

lemma fold_add_replicate:
  "fold (\<lambda>b a. a + b) (replicate n (v::real)) acc = acc + real n * v"
  by (induction n arbitrary: acc) (auto simp: algebra_simps simp del: fold_replicate)

lemma mean_speed_replicate: "0 < n \<Longrightarrow> mean_speed (replicate n v) = Some v"
  by (simp add: mean_speed_def fold_add_replicate del: fold_replicate)

lemma weigh_step:
  "weigh m v (i, ws, tw)
     = (i + 1, ws + v * ((real i + 1) / real m), tw + (real i + 1) / real m)"
  by (simp add: weigh_def Let_def)

text \<open>Over equal speeds the weighted sum stays \<open>v\<close> times the total weight.\<close>

lemma fold_weigh_replicate:
  "0 < m \<Longrightarrow> fold (weigh m) (replicate n v) (i, ws, tw) = (i', ws', tw')
   \<Longrightarrow> ws' - ws = v * (tw' - tw) \<and> tw \<le> tw' \<and> (0 < n \<longrightarrow> tw < tw')"
proof (induction n arbitrary: i ws tw)
  case 0
  then show ?case by simp
next
  case (Suc n)
  let ?w = "(real i + 1) / real m"
  have w: "0 < ?w" using Suc.prems(1) by simp
  from Suc.prems(2) have
    "fold (weigh m) (replicate n v) (i + 1, ws + v * ?w, tw + ?w) = (i', ws', tw')"
    by (simp add: weigh_step del: fold_replicate)
  from Suc.IH [OF Suc.prems(1) this] w show ?case by (auto simp: algebra_simps)
qed

lemma length_last10: "length (last10 h) = min 10 (length h)"
  by (auto simp: last10_def)

lemma current_speed_const:
  assumes "3 \<le> length h" and "\<forall>s\<in>set (last10 h). speed s = Some v" and "0 < v" and "v < 50"
  shows "analyzeCurrentSpeed (Some h) = v"
proof -
  let ?n = "length (last10 h)"
  have n: "0 < ?n" using assms(1) by (auto simp: length_last10)
  have vs: "filter (\<lambda>s. 0 < s \<and> s < 50) (List.map_filter speed (last10 h)) = replicate ?n v"
    using assms(3,4) by (simp add: map_filter_const [OF assms(2)])
  obtain i' ws' tw' where f: "fold (weigh ?n) (replicate ?n v) (0, 0, 0) = (i', ws', tw')"
    by (metis prod_cases3)
  from fold_weigh_replicate [OF n f] n have "ws' = v * tw'" "0 < tw'" by auto
  then have "ws' / tw' = v" by simp
  then show ?thesis using assms(1) n f
    by (simp add: analyzeCurrentSpeed_def Let_def vs)
qed

lemma dynamic_speed_const:
  assumes "3 \<le> length h" and "\<forall>s\<in>set (last10 h). speed s = Some v" and "0 < v"
  shows "mean_speed (positive_speeds h) = Some v"
proof -
  have n: "0 < length (last10 h)" using assms(1) by (auto simp: length_last10)
  have "positive_speeds h = replicate (length (last10 h)) v"
    using assms(3) by (simp add: positive_speeds_def map_filter_const [OF assms(2)])
  then show ?thesis using n by (simp add: mean_speed_replicate)
qed

lemma eta_agree:
  assumes len: "5 \<le> length h"
    and sp: "\<forall>s\<in>set (last10 h). speed s = Some v" and v: "0 < v" "v < 50"
    and tf: "getTrafficFactor (clock_hour env) = 1"
    and hf: "getHistoricalFactor (route_rows env) = 1"
    and la: "destination_latitude sh = Some la" "la \<noteq> 0"
    and lo: "destination_longitude sh = Some lo" "lo \<noteq> 0"
  shows "calculateDynamicETA (clock_now env) (Some sh) h
           = eta_of (calculateETA env (Some sh) (Some (last h)) (Some h))"
proof -
  have a: "analyzeCurrentSpeed (Some h) = v" using current_speed_const [of h v] len sp v by simp
  have b: "mean_speed (positive_speeds h) = Some v" using dynamic_speed_const [of h v] len sp v by simp
  have c: "calculateRemainingDistance (last h) sh
             = haversineDistance (latitude (last h)) (longitude (last h)) (Some la) (Some lo)"
    using la lo by (simp add: calculateRemainingDistance_def js_or_def)
  show ?thesis
    using len v la lo
    by (simp add: calculateDynamicETA_def calculateETA_def calculateETA_try_def Let_def a b c tf hf
        js_or_def eta_of_def split: option.splits)
qed

lemma delay_thresholds:
  assumes "5 \<le> length h"
      and "calculateDynamicETA t (Some sh) h = Some eta"
      and "planned_delivery_time sh = Some planned"
  shows "map_option severity (analyzeDelayProbability t (Some sh) h)
           = (if 60 < real_of_int (eta - planned) / (1000 * 60) then Some ''high''
              else if 30 < real_of_int (eta - planned) / (1000 * 60) then Some ''medium''
              else None)"
  using assms by (simp add: analyzeDelayProbability_def Let_def HIGH_def MEDIUM_def)

lemma date_in_range:
  "0 \<le> ms \<Longrightarrow> ms \<le> 8640000000000000 \<Longrightarrow> new_Date ms = Some \<lfloor>ms\<rfloor>"
  by (simp add: new_Date_def)

lemma speeding_up_mean: "mean_speed (positive_speeds speeding_up) = Some 16"
  by (simp add: speeding_up_def mk_sample_def positive_speeds_def last10_def mean_speed_def
      List.map_filter_simps)

lemma speeding_up_weighted: "analyzeCurrentSpeed (Some speeding_up) = 20"
  by (simp add: speeding_up_def mk_sample_def analyzeCurrentSpeed_def last10_def Let_def
      List.map_filter_simps weigh_def defaultSpeed_def)

lemma speeding_up_dynamic:
  "calculateDynamicETA 0 (Some polar_shipment) speeding_up
     = Some \<lfloor>6371000 * (pi / 2) / 16 * 1000\<rfloor>"
proof -
  have n: "new_Date (6371000 * (pi / 2) / 16 * 1000) = Some \<lfloor>6371000 * (pi / 2) / 16 * 1000\<rfloor>"
    using pi_less_4 by (intro date_in_range) simp_all
  have l: "last speeding_up = mk_sample 0 0 None (Some 40) (Some 0)"
    by (simp add: speeding_up_def)
  have len: "length speeding_up = 5" by (simp add: speeding_up_def)
  show ?thesis
    unfolding calculateDynamicETA_def Let_def speeding_up_mean l len
    using n by (simp add: polar_shipment_def js_or_def mk_sample_def haversine_pole)
qed

lemma speeding_up_predicted:
  "eta_of (calculateETA noon_env (Some polar_shipment) (Some (last speeding_up)) (Some speeding_up))
     = Some \<lfloor>6371000 * (pi / 2) / 20 * 1000\<rfloor>"
proof -
  have n: "new_Date (6371000 * (pi / 2) / 20 * 1000) = Some \<lfloor>6371000 * (pi / 2) / 20 * 1000\<rfloor>"
    using pi_less_4 by (intro date_in_range) simp_all
  have l: "last speeding_up = mk_sample 0 0 None (Some 40) (Some 0)"
    by (simp add: speeding_up_def)
  have d: "calculateRemainingDistance (mk_sample 0 0 None (Some 40) (Some 0)) polar_shipment
             = Some (6371000 * (pi / 2))"
    by (simp add: calculateRemainingDistance_def polar_shipment_def js_or_def mk_sample_def
        haversine_pole)
  show ?thesis
    unfolding calculateETA_def calculateETA_try_def Let_def speeding_up_weighted l
    using n by (simp add: d noon_env_def getTrafficFactor_def getHistoricalFactor_def eta_of_def)
qed

lemma floors_differ:
  "\<lfloor>6371000 * (pi / 2) / 16 * 1000\<rfloor> \<noteq> \<lfloor>6371000 * (pi / 2) / 20 * 1000\<rfloor>"
proof -
  have "6371000 * (pi / 2) / 20 * 1000 + 1 \<le> 6371000 * (pi / 2) / 16 * 1000"
    using pi_ge_two by simp
  then have "\<lfloor>6371000 * (pi / 2) / 20 * 1000 + 1\<rfloor> \<le> \<lfloor>6371000 * (pi / 2) / 16 * 1000\<rfloor>"
    by (rule floor_mono)
  then show ?thesis by simp
qed

text \<open>
  Claim C5, as the specification states it, fails on the code: at noon, with no route
  history, for a courier on the equator bound for the pole whose last five speeds are
  10, 10, 10, 10, 40, the delay analyzer's estimate divides the distance by the plain
  mean 16, the predictor's by the recency-weighted mean 20, and the two arrival times
  differ.
\<close>

theorem delay_eta_counterexample:
  "5 \<le> length speeding_up
   \<and> calculateDynamicETA (clock_now noon_env) (Some polar_shipment) speeding_up
       \<noteq> eta_of (calculateETA noon_env (Some polar_shipment) (Some (last speeding_up))
                   (Some speeding_up))"
proof -
  have c: "clock_now noon_env = 0" by (simp add: noon_env_def)
  have l: "5 \<le> length speeding_up" by (simp add: speeding_up_def)
  show ?thesis
    unfolding c speeding_up_predicted speeding_up_dynamic
    using floors_differ l by simp
qed

lemma steady_dynamic:
  "calculateDynamicETA 0 (Some polar_shipment) (replicate 5 equator_sample)
     = Some \<lfloor>6371000 * (pi / 2) / 20 * 1000\<rfloor>"
proof -
  have n: "new_Date (6371000 * (pi / 2) / 20 * 1000) = Some \<lfloor>6371000 * (pi / 2) / 20 * 1000\<rfloor>"
    using pi_less_4 by (intro date_in_range) simp_all
  have m: "mean_speed (positive_speeds (replicate 5 equator_sample)) = Some 20"
    by (rule dynamic_speed_const) (auto simp: equator_sample_def mk_sample_def last10_def)
  have l: "last (replicate 5 equator_sample) = equator_sample" by simp
  show ?thesis
    unfolding calculateDynamicETA_def Let_def m l
    using n by (simp add: polar_shipment_def js_or_def equator_sample_def mk_sample_def haversine_pole)
qed

text \<open>
  Claim C5, amended. The delay analyzer compares the planned delivery time with its own
  estimate (\<open>calculateDynamicETA\<close>: the distance from the last sample divided by the plain
  mean of the positive speeds among the last ten samples, 10 when there is none), on
  histories of at least five samples. It reports a delay above 30 minutes as \<open>medium\<close> and
  above 60 minutes as \<open>high\<close>. The estimate equals the ETA predictor's output for the last
  sample when the last ten samples all have the same speed below 50, the traffic and
  historical factors are 1 and the destination coordinates are the non-zero
  \<open>destination_latitude\<close> and \<open>destination_longitude\<close>.
\<close>

theorem delay_alert_own_estimate:
  assumes "5 \<le> length h"
      and "calculateDynamicETA (clock_now env) (Some sh) h = Some eta"
      and "planned_delivery_time sh = Some planned"
  shows "map_option severity (analyzeDelayProbability (clock_now env) (Some sh) h)
           = (if 60 < real_of_int (eta - planned) / (1000 * 60) then Some ''high''
              else if 30 < real_of_int (eta - planned) / (1000 * 60) then Some ''medium''
              else None)
         \<and> (list_all (\<lambda>s. speed s = Some v) (last10 h) \<and> 0 < v \<and> v < 50
              \<and> getTrafficFactor (clock_hour env) = 1
              \<and> getHistoricalFactor (route_rows env) = 1
              \<and> destination_latitude sh = Some la \<and> la \<noteq> 0
              \<and> destination_longitude sh = Some lo \<and> lo \<noteq> 0
            \<longrightarrow> eta_of (calculateETA env (Some sh) (Some (last h)) (Some h)) = Some eta)"
  using delay_thresholds [OF assms] eta_agree [of h v env sh la lo] assms(1,2)
  by (simp add: list_all_iff)

theorem delay_alert_own_estimate_witness:
  "5 \<le> length (replicate 5 equator_sample)
   \<and> calculateDynamicETA (clock_now noon_env) (Some polar_shipment) (replicate 5 equator_sample)
       = Some \<lfloor>6371000 * (pi / 2) / 20 * 1000\<rfloor>
   \<and> planned_delivery_time polar_shipment = Some 0
   \<and> list_all (\<lambda>s. speed s = Some 20) (last10 (replicate 5 equator_sample))
   \<and> (0::real) < 20 \<and> (20::real) < 50
   \<and> getTrafficFactor (clock_hour noon_env) = 1
   \<and> getHistoricalFactor (route_rows noon_env) = 1
   \<and> destination_latitude polar_shipment = Some 90 \<and> (90::real) \<noteq> 0
   \<and> destination_longitude polar_shipment = Some 90
   \<and> map_option severity (analyzeDelayProbability (clock_now noon_env) (Some polar_shipment)
         (replicate 5 equator_sample)) = Some ''high''
   \<and> eta_of (calculateETA noon_env (Some polar_shipment) (Some (last (replicate 5 equator_sample)))
         (Some (replicate 5 equator_sample))) = Some \<lfloor>6371000 * (pi / 2) / 20 * 1000\<rfloor>"
proof -
  have h1: "5 \<le> length (replicate 5 equator_sample)" by simp
  have c: "clock_now noon_env = 0" by (simp add: noon_env_def)
  have h2: "calculateDynamicETA (clock_now noon_env) (Some polar_shipment) (replicate 5 equator_sample)
       = Some \<lfloor>6371000 * (pi / 2) / 20 * 1000\<rfloor>"
    unfolding c by (rule steady_dynamic)
  have h3: "planned_delivery_time polar_shipment = Some 0" by (simp add: polar_shipment_def)
  have h4: "list_all (\<lambda>s. speed s = Some 20) (last10 (replicate 5 equator_sample))"
    by (auto simp: list_all_iff last10_def equator_sample_def mk_sample_def)
  have h5: "getTrafficFactor (clock_hour noon_env) = 1" by (simp add: noon_env_def getTrafficFactor_def)
  have h6: "getHistoricalFactor (route_rows noon_env) = 1" by (simp add: noon_env_def getHistoricalFactor_def)
  have h7: "destination_latitude polar_shipment = Some 90" "destination_longitude polar_shipment = Some 90"
    by (simp_all add: polar_shipment_def)
  have big: "60 < real_of_int (\<lfloor>6371000 * (pi / 2) / 20 * 1000\<rfloor> - 0) / (1000 * 60)"
    using pi_ge_two by (simp add: less_floor_iff)
  from delay_alert_own_estimate [OF h1 h2 h3, of 20 90 90] h4 h5 h6 h7 big
  show ?thesis using h1 h2 h3 by simp
qed


section \<open>Smart ingestion: the required-field guard and the containment of analytics faults\<close>

lemma guard_zero:
  assumes "b_latitude body = JNum 0 \<or> b_longitude body = JNum 0"
  shows "smart_updateLocation deps s body
           = (BadRequest ''Missing required fields: shipment_id, latitude, longitude'', s, [])"
  using assms by (auto simp: smart_updateLocation_def truthy_def)

text \<open>
  Claim C10. On the smart ingestion path the handler tests \<open>shipment_id\<close>, \<open>latitude\<close> and
  \<open>longitude\<close> by truthiness. A body whose latitude or longitude is the number 0 passes the
  route's validators (0 is in range) and is then answered with status 400, "Missing
  required fields", the store untouched and nothing emitted.
\<close>

theorem smart_guard_rejects_zero:
  assumes "b_latitude body = JNum 0 \<or> b_longitude body = JNum 0"
      and "smart_validation_errors body = []"
  shows "isFloat (Some (- 90)) (Some 90) (JNum 0) \<and> isFloat (Some (- 180)) (Some 180) (JNum 0)
         \<and> smart_updateLocation deps s body
             = (BadRequest ''Missing required fields: shipment_id, latitude, longitude'', s, [])
         \<and> smart_route deps s body
             = (BadRequest ''Missing required fields: shipment_id, latitude, longitude'', s, [])"
  using guard_zero [OF assms(1)] assms(2)
  by (simp add: smart_route_def isFloat_def in_range_def)

lemma equator_body_valid: "smart_validation_errors equator_body = []"
  by (simp add: smart_validation_errors_def equator_body_def mk_body_def isFloat_def isInt_def
      in_range_def optional_def)

theorem smart_guard_rejects_zero_witness:
  "(b_latitude equator_body = JNum 0 \<or> b_longitude equator_body = JNum 0)
   \<and> smart_validation_errors equator_body = []
   \<and> smart_route accepting_deps [] equator_body
       = (BadRequest ''Missing required fields: shipment_id, latitude, longitude'', [], [])"
proof -
  have h: "b_latitude equator_body = JNum 0 \<or> b_longitude equator_body = JNum 0"
    by (simp add: equator_body_def mk_body_def)
  show ?thesis
    using smart_guard_rejects_zero [OF h equator_body_valid, of accepting_deps "[]"] h equator_body_valid
    by simp
qed






section \<open>Standard ingestion: the status transition\<close>

lemma advance_Finished [simp]: "advance pick req (Finished r, w) = (Finished r, w)"
  by (simp add: advance_def)









lemma filter_distinct_key:
  "distinct (map f xs) \<Longrightarrow> x \<in> set xs \<Longrightarrow> filter (\<lambda>y. f y = f x) xs = [x]"
proof (induction xs)
  case Nil
  then show ?case by simp
next
  case (Cons a xs)
  show ?case
  proof (cases "a = x")
    case True
    then have "f x \<notin> f ` set xs" using Cons.prems(1) by simp
    then have "\<forall>y\<in>set xs. f y \<noteq> f x" by (metis imageI)
    then have "filter (\<lambda>y. f y = f x) xs = []" by (simp add: filter_empty_conv)
    then show ?thesis using True by simp
  next
    case False
    then have "x \<in> set xs" using Cons.prems(2) by simp
    moreover have "f a \<noteq> f x" using Cons.prems(1) \<open>x \<in> set xs\<close> by auto
    ultimately show ?thesis using Cons by simp
  qed
qed

lemma match_id:
  "to_num ident = Some (real j) \<Longrightarrow> (to_num ident = Some (real i)) = (i = j)"
  by auto

lemma samples_of_store:
  "tracking_locations db1 = tracking_locations (w_store w) @ [row]
   \<Longrightarrow> samples_of (w \<lparr> w_store := db1 \<rparr>) k
       = samples_of w k @ (if loc_shipment_id row = k then [row] else [])"
  by (simp add: samples_of_def)











section \<open>Broadcast hub: joining a shipment room\<close>

lemma findById_as_driver:
  assumes "distinct (map ship_id (shipments db))"
      and "filter (\<lambda>s. real (ship_id s) = x) (shipments db) = sh # rest"
  shows "findById_as db (JNum x) role uid
           = (if role = ''driver'' \<and> ship_driver_id sh \<noteq> uid then None else Some sh)"
proof -
  have "sh \<in> set (filter (\<lambda>s. real (ship_id s) = x) (shipments db))" using assms(2) by simp
  then have m: "sh \<in> set (shipments db)" and x: "x = real (ship_id sh)" by auto
  have one: "filter (\<lambda>s. ship_id s = ship_id sh) (shipments db) = [sh]"
    by (rule filter_distinct_key [OF assms(1) m])
  have e: "(x = real (ship_id s)) = (ship_id s = ship_id sh)" for s
    using x by auto
  show ?thesis
  proof (cases "role = ''driver''")
    case False
    then show ?thesis by (simp add: findById_as_def to_num_def e one)
  next
    case True
    have "filter (\<lambda>s. ship_id s = ship_id sh \<and> ship_driver_id s = uid) (shipments db)
            = filter (\<lambda>s. ship_driver_id s = uid) (filter (\<lambda>s. ship_id s = ship_id sh) (shipments db))"
      by (simp add: conj_commute)
    then show ?thesis using True by (simp add: findById_as_def to_num_def e one)
  qed
qed

lemma findById_as_unknown:
  "filter (\<lambda>s. real (ship_id s) = x) (shipments db) = []
   \<Longrightarrow> findById_as db (JNum x) role uid = None"
proof -
  assume a: "filter (\<lambda>s. real (ship_id s) = x) (shipments db) = []"
  have "filter (\<lambda>s. x = real (ship_id s)
                     \<and> (if role = ''driver'' then ship_driver_id s = uid else True)) (shipments db)
          = filter (\<lambda>s. if role = ''driver'' then ship_driver_id s = uid else True)
              (filter (\<lambda>s. real (ship_id s) = x) (shipments db))"
    by (auto intro: filter_cong)
  then show ?thesis using a by (simp add: findById_as_def to_num_def)
qed

lemma join_refused_keeps:
  assumes "distinct (map ship_id (shipments db))" and "join_refused db u shipment_id"
  shows "members (handleJoinShipment db h sock u shipment_id) = members h
         \<and> (\<exists>m. outbox (handleJoinShipment db h sock u shipment_id)
                    = outbox h @ [(sock, Error_msg m)])"
proof (cases shipment_id)
  case (JNum x)
  show ?thesis
  proof (cases "x = 0")
    case True
    then show ?thesis using JNum by (simp add: handleJoinShipment_def)
  next
    case False
    show ?thesis
    proof (cases "filter (\<lambda>s. real (ship_id s) = x) (shipments db)")
      case Nil
      then show ?thesis using JNum False
        by (simp add: handleJoinShipment_def findById_as_unknown)
    next
      case (Cons sh rest)
      from assms(2) JNum False Cons have
        r: "(user_role u = ''driver'' \<and> ship_driver_id sh \<noteq> user_id u)
            \<or> (user_role u = ''admin'' \<and> org_set (user_organizationId u)
                \<and> org_set (ship_organization_id sh)
                \<and> ship_organization_id sh \<noteq> user_organizationId u)"
        by (simp add: join_refused_def)
      show ?thesis using JNum False r
        by (auto simp: handleJoinShipment_def findById_as_driver [OF assms(1) Cons])
    qed
  qed
qed (simp_all add: handleJoinShipment_def)

lemma join_accepted_adds:
  assumes "distinct (map ship_id (shipments db))" and "\<not> join_refused db u (JNum x)"
  shows "members (handleJoinShipment db h sock u (JNum x)) = insert (sock, x) (members h)"
proof -
  from assms(2) have x: "x \<noteq> 0" by (auto simp: join_refused_def)
  from assms(2) obtain sh rest where
    f: "filter (\<lambda>s. real (ship_id s) = x) (shipments db) = sh # rest"
    by (cases "filter (\<lambda>s. real (ship_id s) = x) (shipments db)") (auto simp: join_refused_def)
  from assms(2) x f have
    r: "\<not> (user_role u = ''driver'' \<and> ship_driver_id sh \<noteq> user_id u)"
       "\<not> (user_role u = ''admin'' \<and> org_set (user_organizationId u)
                \<and> org_set (ship_organization_id sh)
                \<and> ship_organization_id sh \<noteq> user_organizationId u)"
    by (auto simp: join_refused_def)
  show ?thesis using x r
    by (auto simp: handleJoinShipment_def findById_as_driver [OF assms(1) f])
qed

text \<open>
  Claim C9, as the specification states it, fails on the code: an administrator whose
  token carries no organization id is not an administrator of the shipment's
  organization 3, yet the join succeeds and the socket receives the shipment's events.
\<close>

theorem join_without_org_counterexample:
  "findById (fresh_store False) (JNum 1) = Some pending_shipment
   \<and> \<not> spec_authorized admin_without_org pending_shipment
   \<and> (5, 1) \<in> members (handleJoinShipment (fresh_store False) empty_hub 5 admin_without_org (JNum 1))
   \<and> 5 \<in> receivers (handleJoinShipment (fresh_store False) empty_hub 5 admin_without_org (JNum 1)) 1
   \<and> outbox (handleJoinShipment (fresh_store False) empty_hub 5 admin_without_org (JNum 1))
       = [(5, Joined_shipment 1)]"
  by (simp add: handleJoinShipment_def findById_as_def findById_def fresh_store_def
      pending_shipment_def empty_hub_def admin_without_org_def spec_authorized_def to_num_def
      org_set_def receivers_def)

text \<open>
  Claim C9, amended. For every join on which the code's re-authorization fails (the id is
  not a non-zero number, no shipment has it, the caller is a driver the shipment is not
  assigned to, or the caller is an administrator and the two organization ids are both
  set and differ), the hub emits an explicit error to the socket and adds no membership:
  the receivers of every room are the same as before, so a socket that was not subscribed
  receives no later event of that shipment.
\<close>

theorem refused_join_keeps_membership:
  assumes "distinct (map ship_id (shipments db))"
      and "join_refused db u shipment_id"
  shows "members (handleJoinShipment db h sock u shipment_id) = members h
         \<and> (\<exists>m. outbox (handleJoinShipment db h sock u shipment_id)
                    = outbox h @ [(sock, Error_msg m)])
         \<and> receivers (handleJoinShipment db h sock u shipment_id) room = receivers h room"
  using join_refused_keeps [OF assms, of h sock] by (simp add: receivers_def)

theorem refused_join_keeps_membership_witness:
  "distinct (map ship_id (shipments (fresh_store False)))
   \<and> join_refused (fresh_store False) other_driver (JNum 1)
   \<and> members (handleJoinShipment (fresh_store False) empty_hub 5 other_driver (JNum 1)) = {}
   \<and> outbox (handleJoinShipment (fresh_store False) empty_hub 5 other_driver (JNum 1))
       = [(5, Error_msg ''Shipment not found'')]
   \<and> receivers (handleJoinShipment (fresh_store False) empty_hub 5 other_driver (JNum 1)) 1 = {}"
proof -
  have d: "distinct (map ship_id (shipments (fresh_store False)))"
    by (simp add: fresh_store_def)
  have r: "join_refused (fresh_store False) other_driver (JNum 1)"
    by (simp add: join_refused_def fresh_store_def pending_shipment_def other_driver_def)
  have o: "outbox (handleJoinShipment (fresh_store False) empty_hub 5 other_driver (JNum 1))
       = [(5, Error_msg ''Shipment not found'')]"
    by (simp add: handleJoinShipment_def findById_as_def fresh_store_def pending_shipment_def
        other_driver_def empty_hub_def to_num_def)
  have e: "members empty_hub = {}" "receivers empty_hub 1 = {}"
    by (simp_all add: empty_hub_def receivers_def)
  from refused_join_keeps_membership [OF d r, of empty_hub 5 1] e o
  show ?thesis using d r by simp
qed

section \<open>Validation before persistence\<close>

lemma schema_errors:
  "validateObject (body_of req) updateLocationSchema ''body''
     = validateField ''body'' ''shipment_id'' (snd (updateLocationSchema ! 0)) (req_shipment_id req)
       @ validateField ''body'' ''latitude'' (snd (updateLocationSchema ! 1)) (req_latitude req)
       @ validateField ''body'' ''longitude'' (snd (updateLocationSchema ! 2)) (req_longitude req)
       @ validateField ''body'' ''accuracy'' (snd (updateLocationSchema ! 3)) (req_accuracy req)
       @ validateField ''body'' ''speed'' (snd (updateLocationSchema ! 4)) (req_speed req)"
  by (simp add: validateObject_def updateLocationSchema_def body_of_def)

lemma latitude_rejected:
  "x < - 90 \<or> 90 < x
   \<Longrightarrow> validateField ''body'' ''latitude'' (snd (updateLocationSchema ! 1)) (JNum x) \<noteq> []"
  by (auto simp: validateField_def updateLocationSchema_def to_num_def typeof_def)

lemma longitude_rejected:
  "y < - 180 \<or> 180 < y
   \<Longrightarrow> validateField ''body'' ''longitude'' (snd (updateLocationSchema ! 2)) (JNum y) \<noteq> []"
  by (auto simp: validateField_def updateLocationSchema_def to_num_def typeof_def)

lemma accuracy_rejected:
  "1000 < a
   \<Longrightarrow> validateField ''body'' ''accuracy'' (snd (updateLocationSchema ! 3)) (JNum a) \<noteq> []"
  by (auto simp: validateField_def updateLocationSchema_def to_num_def typeof_def)

lemma speed_rejected:
  "v < 0
   \<Longrightarrow> validateField ''body'' ''speed'' (snd (updateLocationSchema ! 4)) (JNum v) \<noteq> []"
  by (auto simp: validateField_def updateLocationSchema_def to_num_def typeof_def)

lemma route_rejects:
  assumes "user_role (req_user req) = ''driver''"
      and "validateObject (body_of req) updateLocationSchema ''body'' \<noteq> []"
  shows "\<exists>msg. tracking_update_route pick req w
                 = (Finished (Failed (AppError msg 400 ''VALIDATION_ERROR'')), w)"
  using assms
  by (cases "validateObject (body_of req) updateLocationSchema ''body''")
     (simp_all add: tracking_update_route_def)

lemma standard_route_validates:
  assumes "user_role (req_user req) = ''driver''"
      and "(req_latitude req = JNum x \<and> (x < - 90 \<or> 90 < x))
           \<or> (req_longitude req = JNum y \<and> (y < - 180 \<or> 180 < y))
           \<or> (req_accuracy req = JNum a \<and> 1000 < a)
           \<or> (req_speed req = JNum v \<and> v < 0)"
  shows "\<exists>msg. tracking_update_route pick req w
                 = (Finished (Failed (AppError msg 400 ''VALIDATION_ERROR'')), w)"
proof -
  have "validateObject (body_of req) updateLocationSchema ''body'' \<noteq> []"
    using assms(2) latitude_rejected [of x] longitude_rejected [of y] accuracy_rejected [of a]
      speed_rejected [of v]
    unfolding schema_errors by auto
  then show ?thesis by (rule route_rejects [OF assms(1)])
qed

lemma smart_route_validates:
  assumes "(b_latitude body = JNum x \<and> (x < - 90 \<or> 90 < x))
           \<or> (b_longitude body = JNum y \<and> (y < - 180 \<or> 180 < y))
           \<or> (b_speed body = JNum v \<and> v < 0)"
  shows "smart_route deps s body = (BadRequest ''Validation failed'', s, [])"
proof -
  have "smart_validation_errors body \<noteq> []"
    using assms
    by (auto simp: smart_validation_errors_def isFloat_def in_range_def optional_def)
  then show ?thesis by (simp add: smart_route_def)
qed

lemma poor_fix_valid: "smart_validation_errors poor_fix_body = []"
  by (simp add: smart_validation_errors_def poor_fix_body_def mk_body_def isFloat_def isInt_def
      in_range_def optional_def)

lemma poor_fix_guard:
  "truthy (b_shipment_id poor_fix_body) \<and> truthy (b_latitude poor_fix_body)
   \<and> truthy (b_longitude poor_fix_body)"
  by (simp add: poor_fix_body_def mk_body_def truthy_def)

text \<open>
  Claim C2, as the specification states it, fails on the code: the validators of the
  smart route bound the accuracy from below only. A body with accuracy 2000 passes them
  and the handler's guard; the handler looks the shipment up and issues the \<open>INSERT\<close>.
  With a store that accepts the statement the call succeeds and the sample is stored;
  with one that rejects it the call ends in \<open>Internal server error\<close>. In neither case is
  the answer a validation error.
\<close>

theorem smart_accuracy_counterexample:
  "b_accuracy poor_fix_body = JNum 2000
   \<and> smart_validation_errors poor_fix_body = []
   \<and> is_success (fst (smart_route accepting_deps [] poor_fix_body))
   \<and> hd (fst (snd (smart_route accepting_deps [] poor_fix_body))) = insert_params poor_fix_body
   \<and> smart_route rejecting_deps [] poor_fix_body = (ServerError ''Internal server error'', [], [])"
proof -
  have a: "b_accuracy poor_fix_body = JNum 2000" by (simp add: poor_fix_body_def mk_body_def)
  have b: "pool_select_shipment accepting_deps [] (b_shipment_id poor_fix_body) = Inr [polar_shipment]"
    "pool_insert_location accepting_deps [] (insert_params poor_fix_body)
       = Inr (1, [insert_params poor_fix_body])"
    "pool_select_history accepting_deps [insert_params poor_fix_body] (b_shipment_id poor_fix_body)
       = Inr []"
    "\<And>ps. pool_update_shipment accepting_deps [insert_params poor_fix_body] ps
       = Inr [insert_params poor_fix_body, ps]"
    "\<And>st v. svc_getShipmentById accepting_deps st v = Inl TypeError"
    by (simp_all add: accepting_deps_def)
  have c: "pool_select_shipment rejecting_deps [] (b_shipment_id poor_fix_body) = Inr [polar_shipment]"
    "pool_insert_location rejecting_deps [] (insert_params poor_fix_body) = Inl DbError"
    by (simp_all add: rejecting_deps_def accepting_deps_def)
  have ok: "is_success (fst (smart_route accepting_deps [] poor_fix_body))"
    and st: "hd (fst (snd (smart_route accepting_deps [] poor_fix_body))) = insert_params poor_fix_body"
    using poor_fix_guard
    by (simp_all add: smart_route_def poor_fix_valid smart_updateLocation_def b Let_def
        analyzeTrackingData_def is_success_def)
  have rej: "smart_route rejecting_deps [] poor_fix_body = (ServerError ''Internal server error'', [], [])"
    using poor_fix_guard
    by (simp add: smart_route_def poor_fix_valid smart_updateLocation_def c)
  show ?thesis using a poor_fix_valid ok st rej by simp
qed

text \<open>
  Claim C2, amended. On the standard route, for every request of a driver whose latitude
  is a number outside \<open>[-90, 90]\<close>, whose longitude is a number outside \<open>[-180, 180]\<close>, whose
  accuracy is a number above 1000 or whose speed is a negative number, validation fails
  with code \<open>VALIDATION_ERROR\<close> (status 400) before the handler runs: the store and the hub
  are unchanged. On the smart route a latitude or longitude out of range or a negative
  speed is answered with status 400, "Validation failed", the store unchanged and nothing
  emitted; the accuracy has no upper bound there.
\<close>

theorem out_of_range_rejected:
  assumes "user_role (req_user req) = ''driver''"
      and "(req_latitude req = JNum x \<and> (x < - 90 \<or> 90 < x))
           \<or> (req_longitude req = JNum y \<and> (y < - 180 \<or> 180 < y))
           \<or> (req_accuracy req = JNum a \<and> 1000 < a)
           \<or> (req_speed req = JNum v \<and> v < 0)"
      and "(b_latitude body = JNum x' \<and> (x' < - 90 \<or> 90 < x'))
           \<or> (b_longitude body = JNum y' \<and> (y' < - 180 \<or> 180 < y'))
           \<or> (b_speed body = JNum v' \<and> v' < 0)"
  shows "(\<exists>msg. tracking_update_route pick req w
                  = (Finished (Failed (AppError msg 400 ''VALIDATION_ERROR'')), w))
         \<and> smart_route deps s body = (BadRequest ''Validation failed'', s, [])"
  using standard_route_validates [OF assms(1,2)] smart_route_validates [OF assms(3)] by simp

theorem out_of_range_rejected_witness:
  "user_role (req_user beyond_pole) = ''driver''
   \<and> req_latitude beyond_pole = JNum 95
   \<and> b_latitude beyond_pole_body = JNum 95
   \<and> (\<exists>msg. tracking_update_route hd beyond_pole (fresh_world False)
              = (Finished (Failed (AppError msg 400 ''VALIDATION_ERROR'')), fresh_world False))
   \<and> smart_route accepting_deps [] beyond_pole_body = (BadRequest ''Validation failed'', [], [])"
proof -
  have r: "user_role (req_user beyond_pole) = ''driver''"
    by (simp add: beyond_pole_def first_sample_def driver7_def)
  have l: "req_latitude beyond_pole = JNum 95" by (simp add: beyond_pole_def)
  have m: "b_latitude beyond_pole_body = JNum 95" by (simp add: beyond_pole_body_def mk_body_def)
  have h2: "(req_latitude beyond_pole = JNum 95 \<and> ((95::real) < - 90 \<or> (90::real) < 95))
           \<or> (req_longitude beyond_pole = JNum 0 \<and> ((0::real) < - 180 \<or> (180::real) < 0))
           \<or> (req_accuracy beyond_pole = JNum 0 \<and> (1000::real) < 0)
           \<or> (req_speed beyond_pole = JNum 0 \<and> (0::real) < 0)"
    using l by simp
  have h3: "(b_latitude beyond_pole_body = JNum 95 \<and> ((95::real) < - 90 \<or> (90::real) < 95))
           \<or> (b_longitude beyond_pole_body = JNum 0 \<and> ((0::real) < - 180 \<or> (180::real) < 0))
           \<or> (b_speed beyond_pole_body = JNum 0 \<and> (0::real) < 0)"
    using m by simp
  from out_of_range_rejected [OF r h2 h3, of hd "fresh_world False" accepting_deps "[]"]
  show ?thesis using r l m by simp
qed

section \<open>Rounding to the nearest double\<close>

lemma pow2_pos [simp]: "0 < pow2 n"
  by (simp add: pow2_def)

lemma pow2_add: "pow2 (a + b) = pow2 a * pow2 b"
  by (simp add: pow2_def powr_add)

lemma pow2_mono: "a \<le> b \<Longrightarrow> pow2 a \<le> pow2 b"
  by (simp add: pow2_def)

lemma pow2_0 [simp]: "pow2 0 = 1"
  by (simp add: pow2_def)

lemma pow2_nat: "pow2 (int n) = 2 ^ n"
  by (simp add: pow2_def powr_realpow)

lemma pow2_diff: "pow2 (a - b) = pow2 a / pow2 b"
  by (simp add: pow2_def powr_diff)

lemma nearest_even_int [simp]: "nearest_even (real_of_int k) = k"
  by (simp add: nearest_even_def)

lemma nearest_even_near: "\<bar>real_of_int (nearest_even m) - m\<bar> \<le> 1 / 2"
  unfolding nearest_even_def Let_def by (auto split: if_splits)

lemma nearest_even_floor: "nearest_even m = \<lfloor>m\<rfloor> \<or> nearest_even m = \<lfloor>m\<rfloor> + 1"
  by (simp add: nearest_even_def Let_def)

lemma nearest_even_mono:
  assumes "m \<le> m'"
  shows "nearest_even m \<le> nearest_even m'"
proof (cases "\<lfloor>m\<rfloor> = \<lfloor>m'\<rfloor>")
  case True
  then show ?thesis
    using assms unfolding nearest_even_def Let_def by (auto split: if_splits)
next
  case False
  then have "\<lfloor>m\<rfloor> + 1 \<le> \<lfloor>m'\<rfloor>" using floor_mono [OF assms] by linarith
  moreover have "nearest_even m \<le> \<lfloor>m\<rfloor> + 1" using nearest_even_floor [of m] by linarith
  moreover have "\<lfloor>m'\<rfloor> \<le> nearest_even m'" using nearest_even_floor [of m'] by linarith
  ultimately show ?thesis by linarith
qed

lemma nearest_even_ge: "real_of_int k \<le> m \<Longrightarrow> k \<le> nearest_even m"
  using nearest_even_mono [of "real_of_int k" m] by simp

lemma nearest_even_le: "m \<le> real_of_int k \<Longrightarrow> nearest_even m \<le> k"
  using nearest_even_mono [of m "real_of_int k"] by simp

lemma binade_bounds:
  assumes "0 < a"
  shows "pow2 (binade a) \<le> a" and "a < pow2 (binade a + 1)"
  using floor_log_eq_powr_iff [of a 2 "binade a"] assms
  by (simp_all add: binade_def pow2_def)

lemma binade_eq:
  assumes "0 < a" and "pow2 k \<le> a" and "a < pow2 (k + 1)"
  shows "binade a = k"
  using floor_log_eq_powr_iff [of a 2 k] assms
  by (simp add: binade_def pow2_def)


lemma pow2_52: "pow2 52 = 4503599627370496"
  using pow2_nat [of 52] by simp

lemma pow2_53: "pow2 53 = 9007199254740992"
  using pow2_nat [of 53] by simp

lemma pow2_1: "pow2 1 = 2"
  using pow2_nat [of 1] by simp

lemma ulp_pos [simp]: "0 < ulp a"
  by (simp add: ulp_def)

lemma ulp_nonneg [simp]: "0 \<le> ulp a"
  by (rule less_imp_le) simp

lemma ulp_normal: "- 1022 \<le> binade a \<Longrightarrow> ulp a * pow2 52 = pow2 (binade a)"
  by (simp add: ulp_def max_def pow2_add [symmetric])

lemma ulp_subnormal: "binade a < - 1022 \<Longrightarrow> ulp a * pow2 52 = pow2 (- 1022)"
  by (simp add: ulp_def max_def pow2_add [symmetric])

lemma scaled_normal:
  assumes "0 < a" and "- 1022 \<le> binade a"
  shows "4503599627370496 \<le> a / ulp a" and "a / ulp a < 9007199254740992"
proof -
  have u: "ulp a * 4503599627370496 = pow2 (binade a)"
    using ulp_normal [OF assms(2)] by (simp add: pow2_52)
  have lo: "pow2 (binade a) \<le> a" and hi: "a < pow2 (binade a + 1)"
    using binade_bounds [OF assms(1)] by simp_all
  have hi': "a < 2 * pow2 (binade a)" using hi by (simp add: pow2_add pow2_1)
  show "4503599627370496 \<le> a / ulp a"
    using lo u by (simp add: pos_le_divide_eq mult.commute)
  show "a / ulp a < 9007199254740992"
    using hi' u by (simp add: pos_divide_less_eq mult.commute)
qed

lemma scaled_subnormal:
  assumes "0 < a" and "binade a < - 1022"
  shows "0 < a / ulp a" and "a / ulp a < 4503599627370496"
proof -
  have u: "ulp a * 4503599627370496 = pow2 (- 1022)"
    using ulp_subnormal [OF assms(2)] by (simp add: pow2_52)
  have "a < pow2 (binade a + 1)" using binade_bounds [OF assms(1)] by simp
  also have "\<dots> \<le> pow2 (- 1022)" using assms(2) by (intro pow2_mono) simp
  finally have hi: "a < pow2 (- 1022)" .
  show "0 < a / ulp a" using assms(1) by simp
  show "a / ulp a < 4503599627370496"
    using hi u by (simp add: pos_divide_less_eq mult.commute)
qed

lemma round_normal:
  assumes "0 < a" and "- 1022 \<le> binade a"
  shows "pow2 (binade a) \<le> round_magnitude a" and "round_magnitude a \<le> pow2 (binade a + 1)"
proof -
  let ?k = "nearest_even (a / ulp a)"
  have u: "ulp a * 4503599627370496 = pow2 (binade a)"
    using ulp_normal [OF assms(2)] by (simp add: pow2_52)
  have "4503599627370496 \<le> ?k"
    by (rule nearest_even_ge) (use scaled_normal(1) [OF assms] in simp)
  then have "(4503599627370496 :: real) \<le> real_of_int ?k" by linarith
  then have "ulp a * 4503599627370496 \<le> ulp a * real_of_int ?k"
    by (intro mult_left_mono) simp_all
  then show "pow2 (binade a) \<le> round_magnitude a"
    unfolding u round_magnitude_def .
  have "?k \<le> 9007199254740992"
    by (rule nearest_even_le) (use scaled_normal(2) [OF assms] in simp)
  then have "real_of_int ?k \<le> 9007199254740992" by linarith
  then have "ulp a * real_of_int ?k \<le> ulp a * 9007199254740992"
    by (intro mult_left_mono) simp_all
  also have "\<dots> = 2 * pow2 (binade a)" using u by simp
  finally show "round_magnitude a \<le> pow2 (binade a + 1)"
    unfolding round_magnitude_def by (simp add: pow2_add pow2_1)
qed

lemma round_subnormal:
  assumes "0 < a" and "binade a < - 1022"
  shows "0 \<le> round_magnitude a" and "round_magnitude a \<le> pow2 (- 1022)"
proof -
  let ?k = "nearest_even (a / ulp a)"
  have u: "ulp a * 4503599627370496 = pow2 (- 1022)"
    using ulp_subnormal [OF assms(2)] by (simp add: pow2_52)
  have "0 \<le> ?k"
    by (rule nearest_even_ge) (use scaled_subnormal(1) [OF assms] in simp)
  then show "0 \<le> round_magnitude a"
    unfolding round_magnitude_def by simp
  have "?k \<le> 4503599627370496"
    by (rule nearest_even_le) (use scaled_subnormal(2) [OF assms] in simp)
  then have "real_of_int ?k \<le> 4503599627370496" by linarith
  then have "ulp a * real_of_int ?k \<le> ulp a * 4503599627370496"
    by (intro mult_left_mono) simp_all
  then show "round_magnitude a \<le> pow2 (- 1022)"
    unfolding u round_magnitude_def .
qed

lemma round_nonneg:
  assumes "0 < a"
  shows "0 \<le> round_magnitude a"
proof (cases "- 1022 \<le> binade a")
  case True
  have "0 < pow2 (binade a)" by simp
  then show ?thesis using round_normal(1) [OF assms True] by linarith
next
  case False
  then show ?thesis using round_subnormal(1) [OF assms] by simp
qed


lemma pow2_strict: "pow2 a < pow2 b \<Longrightarrow> a < b"
  by (simp add: pow2_def)

lemma binade_mono:
  assumes "0 < a" and "a \<le> b"
  shows "binade a \<le> binade b"
  unfolding binade_def using assms by (intro floor_mono) simp

lemma round_upper:
  assumes "0 < a"
  shows "round_magnitude a \<le> pow2 (max (binade a) (- 1022) + 1)"
proof (cases "- 1022 \<le> binade a")
  case True
  then show ?thesis using round_normal(2) [OF assms True] by (simp add: max_def)
next
  case False
  then have "round_magnitude a \<le> pow2 (- 1022)" using round_subnormal(2) [OF assms] by simp
  also have "\<dots> \<le> pow2 (- 1022 + 1)" by (intro pow2_mono) simp
  finally show ?thesis using False by (simp add: max_def)
qed

lemma round_mono_pos:
  assumes "0 < a" and "a \<le> b"
  shows "round_magnitude a \<le> round_magnitude b"
proof -
  have b: "0 < b" using assms by linarith
  let ?Ea = "max (binade a) (- 1022)"
  let ?Eb = "max (binade b) (- 1022)"
  have le: "?Ea \<le> ?Eb" using binade_mono [OF assms] by simp
  show ?thesis
  proof (cases "?Ea = ?Eb")
    case True
    then have u: "ulp a = ulp b" by (simp add: ulp_def)
    have "a / ulp b \<le> b / ulp b" using assms(2) by (simp add: divide_right_mono)
    then have "nearest_even (a / ulp b) \<le> nearest_even (b / ulp b)" by (rule nearest_even_mono)
    then have "real_of_int (nearest_even (a / ulp b)) \<le> real_of_int (nearest_even (b / ulp b))"
      by simp
    then show ?thesis
      unfolding round_magnitude_def u by (intro mult_left_mono) simp_all
  next
    case False
    then have lt: "?Ea + 1 \<le> ?Eb" using le by linarith
    then have n: "- 1022 \<le> binade b" and e: "?Eb = binade b" by (auto simp: max_def split: if_splits)
    have "round_magnitude a \<le> pow2 (?Ea + 1)" by (rule round_upper [OF assms(1)])
    also have "\<dots> \<le> pow2 (binade b)" using lt e by (intro pow2_mono) simp
    also have "\<dots> \<le> round_magnitude b" by (rule round_normal(1) [OF b n])
    finally show ?thesis .
  qed
qed

lemma round_fixed:
  assumes "r = ulp r * real_of_int j"
  shows "round_magnitude r = r"
proof -
  have "r / ulp r = real_of_int j"
    using assms by (metis less_irrefl nonzero_mult_div_cancel_left ulp_pos)
  then show ?thesis using assms by (simp add: round_magnitude_def)
qed

lemma round_idem_pos:
  assumes "0 < a" and "0 < round_magnitude a"
  shows "round_magnitude (round_magnitude a) = round_magnitude a"
proof -
  let ?r = "round_magnitude a"
  let ?k = "nearest_even (a / ulp a)"
  have r: "?r = ulp a * real_of_int ?k" by (simp add: round_magnitude_def)
  show ?thesis
  proof (cases "- 1022 \<le> binade a")
    case True
    have u: "ulp a * 4503599627370496 = pow2 (binade a)"
      using ulp_normal [OF True] by (simp add: pow2_52)
    have lo: "pow2 (binade a) \<le> ?r" by (rule round_normal(1) [OF assms(1) True])
    have khi: "?k \<le> 9007199254740992"
      by (rule nearest_even_le) (use scaled_normal(2) [OF assms(1) True] in simp)
    show ?thesis
    proof (cases "?k = 9007199254740992")
      case False
      then have "?k < 9007199254740992" using khi by linarith
      then have "real_of_int ?k < 9007199254740992" by linarith
      then have "ulp a * real_of_int ?k < ulp a * 9007199254740992"
        by (intro mult_strict_left_mono) simp_all
      also have "\<dots> = 2 * pow2 (binade a)" using u by simp
      finally have "?r < pow2 (binade a + 1)" using r by (simp add: pow2_add pow2_1)
      then have "binade ?r = binade a" using lo assms(2) by (intro binade_eq) simp_all
      then have "ulp ?r = ulp a" by (simp add: ulp_def)
      then show ?thesis using r by (intro round_fixed [of _ ?k]) simp
    next
      case k: True
      have rr: "?r = pow2 (binade a + 1)"
        using r u unfolding k by (simp add: pow2_add pow2_1)
      have "?r < pow2 (binade a + 1 + 1)" unfolding rr by (simp add: pow2_def)
      then have "binade ?r = binade a + 1" using rr assms(2) by (intro binade_eq) simp_all
      then have U: "ulp ?r = pow2 (binade a + 1 - 52)" using True by (simp add: ulp_def max_def)
      have "ulp ?r * pow2 52 = pow2 (binade a + 1 - 52 + 52)"
        unfolding U by (rule pow2_add [symmetric])
      moreover have "binade a + 1 - 52 + 52 = binade a + 1" by simp
      ultimately have "ulp ?r * 4503599627370496 = pow2 (binade a + 1)"
        by (simp only: pow2_52)
      then have "?r = ulp ?r * real_of_int 4503599627370496"
        using rr by (simp add: add.commute)
      then show ?thesis by (rule round_fixed)
    qed
  next
    case False
    then have sub: "binade a < - 1022" by simp
    have u: "ulp a * 4503599627370496 = pow2 (- 1022)"
      using ulp_subnormal [OF sub] by (simp add: pow2_52)
    have ua: "ulp a = pow2 (- 1074)" using sub by (simp add: ulp_def max_def)
    have hi: "?r \<le> pow2 (- 1022)" by (rule round_subnormal(2) [OF assms(1) sub])
    have "binade ?r \<le> - 1022"
    proof (rule ccontr)
      assume "\<not> binade ?r \<le> - 1022"
      then have "- 1022 + 1 \<le> binade ?r" by simp
      then have "pow2 (- 1022 + 1) \<le> pow2 (binade ?r)" by (rule pow2_mono)
      also have "\<dots> \<le> ?r" using binade_bounds(1) [OF assms(2)] .
      finally have "pow2 (- 1022 + 1) \<le> pow2 (- 1022)" using hi by linarith
      then show False by (simp add: pow2_def)
    qed
    then have "ulp ?r = pow2 (- 1074)" by (simp add: ulp_def max_def)
    then have "ulp ?r = ulp a" using ua by simp
    then show ?thesis using r by (intro round_fixed [of _ ?k]) simp
  qed
qed

lemma round_error:
  assumes "0 < a"
  shows "\<bar>round_magnitude a - a\<bar> \<le> (a + 1) / 9007199254740992"
proof -
  let ?u = "ulp a"
  let ?k = "nearest_even (a / ?u)"
  have "?u \<noteq> 0" using ulp_pos [of a] by linarith
  then have "round_magnitude a - a = ?u * (real_of_int ?k - a / ?u)"
    by (simp add: round_magnitude_def algebra_simps)
  then have "\<bar>round_magnitude a - a\<bar> = ?u * \<bar>real_of_int ?k - a / ?u\<bar>"
    by (simp add: abs_mult)
  also have "\<dots> \<le> ?u * (1 / 2)"
    using nearest_even_near [of "a / ?u"] by (intro mult_left_mono) simp_all
  finally have e: "\<bar>round_magnitude a - a\<bar> \<le> ?u / 2" by simp
  have "?u * 4503599627370496 \<le> a + 1"
  proof (cases "- 1022 \<le> binade a")
    case True
    have "?u * 4503599627370496 = pow2 (binade a)"
      using ulp_normal [OF True] by (simp add: pow2_52)
    then show ?thesis using binade_bounds(1) [OF assms] by linarith
  next
    case False
    then have "?u * 4503599627370496 = pow2 (- 1022)"
      using ulp_subnormal [of a] by (simp add: pow2_52)
    moreover have "pow2 (- 1022) \<le> pow2 0" by (intro pow2_mono) simp
    ultimately show ?thesis using assms by simp
  qed
  then have "?u \<le> (a + 1) / 4503599627370496" by (simp add: pos_le_divide_eq)
  then show ?thesis using e by simp
qed


lemma binary64_zero [simp]: "binary64 0 = 0"
  by (simp add: binary64_def)

lemma binary64_pos: "0 < x \<Longrightarrow> binary64 x = round_magnitude x"
  by (simp add: binary64_def)

lemma binary64_neg: "x < 0 \<Longrightarrow> binary64 x = - round_magnitude (- x)"
  by (simp add: binary64_def)

lemma binary64_one [simp]: "binary64 1 = 1"
proof -
  have b: "binade 1 = 0" by (rule binade_eq) (simp_all add: pow2_1)
  then have "ulp 1 * pow2 52 = pow2 0" using ulp_normal [of 1] by simp
  then have "1 = ulp 1 * real_of_int 4503599627370496" by (simp add: pow2_52)
  then have "round_magnitude 1 = 1" by (rule round_fixed)
  then show ?thesis by (simp add: binary64_pos)
qed

lemma binary64_nonneg: "0 \<le> x \<Longrightarrow> 0 \<le> binary64 x"
  by (cases "x = 0") (simp_all add: binary64_pos round_nonneg)

lemma binary64_nonpos: "x \<le> 0 \<Longrightarrow> binary64 x \<le> 0"
  by (cases "x = 0") (simp_all add: binary64_neg round_nonneg)

lemma binary64_mono:
  assumes "x \<le> y"
  shows "binary64 x \<le> binary64 y"
proof -
  consider "0 < x" | "x \<le> 0" "0 \<le> y" | "y < 0" by linarith
  then show ?thesis
  proof cases
    case 1
    then show ?thesis using assms by (simp add: binary64_pos round_mono_pos)
  next
    case 2
    then show ?thesis using binary64_nonpos [of x] binary64_nonneg [of y] by linarith
  next
    case 3
    then have "x < 0" using assms by linarith
    moreover have "round_magnitude (- y) \<le> round_magnitude (- x)"
      using 3 assms by (intro round_mono_pos) simp_all
    ultimately show ?thesis using 3 by (simp add: binary64_neg)
  qed
qed

lemma binary64_idem: "binary64 (binary64 x) = binary64 x"
proof -
  consider "0 < x" | "x = 0" | "x < 0" by linarith
  then show ?thesis
  proof cases
    case 1
    show ?thesis
    proof (cases "round_magnitude x = 0")
      case True
      then show ?thesis using 1 by (simp add: binary64_pos)
    next
      case False
      then have "0 < round_magnitude x" using round_nonneg [OF 1] by linarith
      then show ?thesis using 1 by (simp add: binary64_pos round_idem_pos)
    qed
  next
    case 2
    then show ?thesis by simp
  next
    case 3
    then have p: "0 < - x" by simp
    show ?thesis
    proof (cases "round_magnitude (- x) = 0")
      case True
      then show ?thesis using 3 by (simp add: binary64_neg)
    next
      case False
      then have "0 < round_magnitude (- x)" using round_nonneg [OF p] by linarith
      then show ?thesis using 3 p by (simp add: binary64_neg round_idem_pos)
    qed
  qed
qed

lemma binary64_error: "\<bar>binary64 x - x\<bar> \<le> (\<bar>x\<bar> + 1) / 9007199254740992"
proof -
  consider "0 < x" | "x = 0" | "x < 0" by linarith
  then show ?thesis
  proof cases
    case 1
    then show ?thesis using round_error [of x] by (simp add: binary64_pos)
  next
    case 2
    then show ?thesis by simp
  next
    case 3
    then have "\<bar>round_magnitude (- x) - (- x)\<bar> \<le> (- x + 1) / 9007199254740992"
      by (intro round_error) simp
    moreover have "\<bar>binary64 x - x\<bar> = \<bar>round_magnitude (- x) - (- x)\<bar>"
      using 3 by (simp add: binary64_neg abs_minus_commute)
    ultimately show ?thesis using 3 by simp
  qed
qed

lemma atan2_not_negative: "0 \<le> y \<Longrightarrow> 0 \<le> x \<Longrightarrow> 0 \<le> atan2 y x"
  by (auto simp: atan2_def zero_le_arctan_iff)

lemma ieee_conforming: "conforming ieee_platform"
  unfolding conforming_def ieee_platform_def
  by (simp add: binary64_mono binary64_idem binary64_nonneg atan2_not_negative)
     (simp add: atan2_def)

lemma ieee_accurate: "accurate ieee_platform"
proof -
  have r: "\<bar>binary64 y - y\<bar> \<le> 1 / 1000000" if "\<bar>y\<bar> \<le> 4" for y
  proof -
    have "\<bar>binary64 y - y\<bar> \<le> (\<bar>y\<bar> + 1) / 9007199254740992" by (rule binary64_error)
    also have "\<dots> \<le> (4 + 1) / 9007199254740992" using that by (simp add: divide_right_mono)
    finally show ?thesis by simp
  qed
  have a: "\<bar>binary64 x - x\<bar> \<le> (\<bar>x\<bar> + 1) / 1000000" for x
  proof -
    have "\<bar>binary64 x - x\<bar> \<le> (\<bar>x\<bar> + 1) / 9007199254740992" by (rule binary64_error)
    also have "\<dots> \<le> (\<bar>x\<bar> + 1) / 1000000" by (intro divide_left_mono) simp_all
    finally show ?thesis .
  qed
  have s: "\<bar>binary64 (sin x) - sin x\<bar> \<le> 1 / 1000000" for x :: real
    by (rule r) (use abs_sin_le_one [of x] in linarith)
  have c: "\<bar>binary64 (cos x) - cos x\<bar> \<le> 1 / 1000000" for x :: real
    by (rule r) (use abs_cos_le_one [of x] in linarith)
  have q: "\<bar>binary64 (sqrt x) - sqrt x\<bar> \<le> 1 / 1000000" if "0 \<le> x" "x \<le> 4" for x
  proof (rule r)
    have "sqrt x \<le> sqrt 16" using that by (intro real_sqrt_le_mono) simp
    then show "\<bar>sqrt x\<bar> \<le> 4" using that by simp
  qed
  have t: "\<bar>binary64 (atan2 y x) - arctan (y / x)\<bar> \<le> 1 / 1000000" if "0 < x" for y x
  proof -
    have "\<bar>arctan (y / x)\<bar> \<le> 4"
      using arctan_bounded [of "y / x"] pi_less_4 by (simp add: abs_le_iff)
    then have "\<bar>binary64 (arctan (y / x)) - arctan (y / x)\<bar> \<le> 1 / 1000000" by (rule r)
    then show ?thesis using that by (simp add: atan2_def)
  qed
  have p: "\<bar>binary64 pi - pi\<bar> \<le> 1 / 1000000"
    by (rule r) (use pi_less_4 pi_ge_two in simp)
  show ?thesis
    unfolding accurate_def ieee_platform_def using a s c q t p by simp
qed

section \<open>Route efficiency under rounding\<close>

lemma num_op_Some [simp]: "num_op pf f (Some a) (Some b) = Some (rnd pf (f a b))"
  by (simp add: num_op_def)

lemma num_op_None [simp]: "num_op pf f None y = None" "num_op pf f x None = None"
  by (simp_all add: num_op_def split: option.splits)

lemma distance_same:
  assumes "conforming pf"
  shows "route_haversineDistance pf (Some la) (Some lo) (Some la) (Some lo) = Some 0"
  using assms
  by (simp add: conforming_def route_haversineDistance_def haversine_term_def Let_def js_sin_def
      js_cos_def js_sqrt_def js_atan2_def)

lemma tail_not_negative:
  assumes "conforming pf"
      and "num_op pf (*) (Some 6371000)
             (num_op pf (*) (Some 2) (js_atan2 pf (js_sqrt pf a) (js_sqrt pf b))) = Some d"
  shows "0 \<le> d"
proof -
  have r0: "0 \<le> rnd pf x" if "0 \<le> x" for x
    using assms(1) that unfolding conforming_def by metis
  have sq: "0 \<le> Math_sqrt pf x" if "0 \<le> x" for x
    using assms(1) that unfolding conforming_def by blast
  have at: "0 \<le> Math_atan2 pf y x" if "0 \<le> y" "0 \<le> x" for y x
    using assms(1) that unfolding conforming_def by blast
  from assms(2) obtain u v where a: "a = Some u" "\<not> u < 0" and b: "b = Some v" "\<not> v < 0"
    and d: "d = rnd pf (6371000 * rnd pf (2 * Math_atan2 pf (Math_sqrt pf u) (Math_sqrt pf v)))"
    by (auto simp: js_atan2_def js_sqrt_def num_op_def split: option.splits if_splits)
  have "0 \<le> Math_atan2 pf (Math_sqrt pf u) (Math_sqrt pf v)"
    using a(2) b(2) by (intro at sq) simp_all
  then have "0 \<le> rnd pf (2 * Math_atan2 pf (Math_sqrt pf u) (Math_sqrt pf v))"
    by (intro r0) simp
  then show ?thesis unfolding d by (intro r0) simp
qed

lemma distance_not_negative:
  assumes "conforming pf" and "route_haversineDistance pf lat1 lon1 lat2 lon2 = Some d"
  shows "0 \<le> d"
  using assms(2) unfolding route_haversineDistance_def Let_def
  by (rule tail_not_negative [OF assms(1)])

lemma distance_rounded:
  assumes "route_haversineDistance pf lat1 lon1 lat2 lon2 = Some d"
  shows "\<exists>z. d = rnd pf z"
  using assms
  by (auto simp: route_haversineDistance_def Let_def num_op_def split: option.splits)

lemma segments_by_index:
  "map (\<lambda>i. g (td ! (i - Suc 0)) (td ! i)) [Suc 0 ..< length td] = map2 g td (tl td)"
proof (rule nth_equalityI)
  show "length (map (\<lambda>i. g (td ! (i - Suc 0)) (td ! i)) [Suc 0 ..< length td])
          = length (map2 g td (tl td))"
    by simp
next
  fix i assume "i < length (map (\<lambda>i. g (td ! (i - Suc 0)) (td ! i)) [Suc 0 ..< length td])"
  then have i: "i < length td - 1" by simp
  then show "map (\<lambda>i. g (td ! (i - Suc 0)) (td ! i)) [Suc 0 ..< length td] ! i
               = map2 g td (tl td) ! i"
    by (simp add: nth_tl)
qed

lemma total_as_sum:
  "calculateTotalDistance pf td = foldl (num_op pf (+)) (Some 0) (segment_distances pf td)"
proof -
  have "fold (\<lambda>i t. num_op pf (+) t (sample_distance pf (td ! (i - 1)) (td ! i))) xs a
        = foldl (num_op pf (+)) a (map (\<lambda>i. sample_distance pf (td ! (i - 1)) (td ! i)) xs)"
    for xs a
    by (induction xs arbitrary: a) simp_all
  then show ?thesis
    by (simp add: calculateTotalDistance_def Let_def segment_distances_def segments_by_index)
qed


lemma efficiency_as_specified:
  assumes "2 \<le> length td"
  shows "calculateRouteEfficiency pf td = spec_routeEfficiency pf td"
proof -
  have ne: "td \<noteq> []" using assms by auto
  have "td ! 0 = hd td" using ne by (simp add: hd_conv_nth)
  moreover have "td ! (length td - 1) = last td" using ne by (simp add: last_conv_nth)
  ultimately show ?thesis
    using assms
    by (simp add: calculateRouteEfficiency_def spec_routeEfficiency_def Let_def total_as_sum)
qed

lemma sum_not_negative:
  assumes "conforming pf"
      and "foldl (num_op pf (+)) (Some a) ds = Some t"
      and "0 \<le> a"
      and "\<And>d x. d \<in> set ds \<Longrightarrow> d = Some x \<Longrightarrow> 0 \<le> x"
  shows "0 \<le> t"
  using assms(2-4)
proof (induction ds arbitrary: a)
  case Nil
  then show ?case by simp
next
  case (Cons d ds)
  have r0: "0 \<le> rnd pf x" if "0 \<le> x" for x
    using assms(1) that unfolding conforming_def by metis
  have none: "foldl (num_op pf (+)) None ds = None"
    by (induction ds) simp_all
  show ?case
  proof (cases d)
    case None
    then show ?thesis using Cons.prems(1) none by simp
  next
    case (Some x)
    then have x: "0 \<le> x" using Cons.prems(3) by simp
    have "foldl (num_op pf (+)) (Some (rnd pf (a + x))) ds = Some t"
      using Cons.prems(1) Some by simp
    moreover have "0 \<le> rnd pf (a + x)" using x Cons.prems(2) by (intro r0) simp
    ultimately show ?thesis
      using Cons.IH [of "rnd pf (a + x)"] Cons.prems(3) by simp
  qed
qed

lemma total_not_negative:
  assumes "conforming pf" and "calculateTotalDistance pf td = Some t"
  shows "0 \<le> t"
proof (rule sum_not_negative [OF assms(1)])
  show "foldl (num_op pf (+)) (Some 0) (segment_distances pf td) = Some t"
    using assms(2) by (simp add: total_as_sum)
  show "(0::real) \<le> 0" by simp
  fix d x assume "d \<in> set (segment_distances pf td)" and "d = Some x"
  then obtain p q where "sample_distance pf p q = Some x"
    by (auto simp: segment_distances_def dest!: set_zip_leftD)
  then show "0 \<le> x"
    unfolding sample_distance_def by (rule distance_not_negative [OF assms(1)])
qed

lemma js_div_not_negative:
  assumes "conforming pf" and "\<And>x. a = Some x \<Longrightarrow> 0 \<le> x" and "\<And>y. b = Some y \<Longrightarrow> 0 \<le> y"
  shows "not_negative (js_div pf a b)"
proof -
  have r0: "0 \<le> rnd pf x" if "0 \<le> x" for x
    using assms(1) that unfolding conforming_def by metis
  show ?thesis
    using assms(2,3)
    by (auto simp: js_div_def not_negative_def split: option.splits intro!: r0)
qed

lemma efficiency_not_negative:
  assumes "conforming pf"
  shows "not_negative (calculateRouteEfficiency pf td)"
proof (cases "length td < 2")
  case True
  then show ?thesis by (simp add: calculateRouteEfficiency_def not_negative_def)
next
  case False
  then have "calculateRouteEfficiency pf td
      = js_div pf (sample_distance pf (td ! 0) (td ! (length td - 1))) (calculateTotalDistance pf td)"
    by (simp add: calculateRouteEfficiency_def Let_def)
  moreover have "not_negative (js_div pf (sample_distance pf (td ! 0) (td ! (length td - 1)))
                    (calculateTotalDistance pf td))"
    by (rule js_div_not_negative [OF assms])
       (auto simp: sample_distance_def intro: distance_not_negative [OF assms]
          total_not_negative [OF assms])
  ultimately show ?thesis by simp
qed

lemma round_trip_efficiency:
  assumes "conforming pf" and "2 \<le> length td" and "in_bounds (hd td)"
      and "same_position (hd td) (last td)"
  shows "calculateRouteEfficiency pf td
           = (case calculateTotalDistance pf td of
                None \<Rightarrow> NotANumber
              | Some t \<Rightarrow> if t \<noteq> 0 then Fin 0 else NotANumber)"
proof -
  obtain la lo where p: "latitude (hd td) = Some la" "longitude (hd td) = Some lo"
    using assms(3) by (auto simp: in_bounds_def split: option.splits)
  then have q: "latitude (last td) = Some la" "longitude (last td) = Some lo"
    using assms(4) by (simp_all add: same_position_def)
  have d: "sample_distance pf (hd td) (last td) = Some 0"
    by (simp add: sample_distance_def p q distance_same [OF assms(1)])
  have r0: "rnd pf 0 = 0" using assms(1) by (simp add: conforming_def)
  have ne: "td \<noteq> []" using assms(2) by auto
  have "td ! 0 = hd td" using ne by (simp add: hd_conv_nth)
  moreover have "td ! (length td - 1) = last td" using ne by (simp add: last_conv_nth)
  ultimately show ?thesis
    using assms(2) d r0
    by (simp add: calculateRouteEfficiency_def Let_def js_div_def split: option.splits)
qed

lemma two_sample_efficiency:
  assumes "conforming pf"
  shows "calculateRouteEfficiency pf [p, q]
           = (case sample_distance pf p q of
                None \<Rightarrow> NotANumber
              | Some d \<Rightarrow> if d \<noteq> 0 then Fin 1 else NotANumber)"
proof (cases "sample_distance pf p q")
  case None
  then show ?thesis
    by (simp add: calculateRouteEfficiency_def Let_def js_div_def calculateTotalDistance_def)
next
  case (Some d)
  then obtain z where z: "d = rnd pf z"
    unfolding sample_distance_def using distance_rounded by blast
  have "rnd pf (0 + d) = d"
    using assms unfolding z conforming_def by simp
  then have t: "calculateTotalDistance pf [p, q] = Some d"
    using Some by (simp add: calculateTotalDistance_def)
  have r1: "rnd pf 1 = 1" using assms by (simp add: conforming_def)
  show ?thesis
    using Some t r1 by (simp add: calculateRouteEfficiency_def Let_def js_div_def)
qed


lemma exact_conforming: "conforming exact_platform"
  by (simp add: conforming_def exact_platform_def atan2_not_negative) (simp add: atan2_def)

lemma exact_distance:
  "route_haversineDistance exact_platform (Some a) (Some b) (Some c) (Some d) = haversine_num a b c d"
  by (auto simp: route_haversineDistance_def haversine_term_def haversine_num_def hav_a_def Let_def
      exact_platform_def js_sin_def js_cos_def js_sqrt_def js_atan2_def)

lemma upto_3: "[Suc 0 ..< 3] = [1, 2]"
  by (simp add: upt_rec)

lemma exact_accurate: "accurate exact_platform"
  by (simp add: accurate_def exact_platform_def atan2_def)

lemma sample_bounds:
  "in_bounds equator_sample" "in_bounds pole_sample" "in_bounds quarter_sample"
  by (simp_all add: in_bounds_def equator_sample_def pole_sample_def quarter_sample_def
      mk_sample_def)

subsection \<open>The right-angle path on an accurate platform\<close>

lemma arctan_lipschitz: "\<bar>arctan x - arctan y\<bar> \<le> \<bar>x - y\<bar>"
proof -
  have mono: "a - arctan a \<le> b - arctan b" if "a \<le> b" for a b :: real
  proof (rule DERIV_nonneg_imp_nondecreasing [OF that])
    fix x :: real
    have "DERIV (\<lambda>x. x - arctan x) x :> 1 - inverse (1 + x\<^sup>2)"
      by (auto intro!: derivative_eq_intros)
    moreover have "0 \<le> 1 - inverse (1 + x\<^sup>2)"
      by (simp add: inverse_le_1_iff)
    ultimately show "\<exists>y. DERIV (\<lambda>x. x - arctan x) x :> y \<and> 0 \<le> y" by blast
  qed
  show ?thesis
  proof (cases "x \<le> y")
    case True
    then show ?thesis using mono [of x y] arctan_monotone' [of x y] by simp
  next
    case False
    then show ?thesis using mono [of y x] arctan_monotone' [of y x] by simp
  qed
qed

lemma sin_lipschitz: "\<bar>sin x - sin y\<bar> \<le> \<bar>x - y\<bar>" for x y :: real
proof -
  have "\<bar>sin x - sin y\<bar> = 2 * \<bar>sin ((x - y) / 2)\<bar> * \<bar>cos ((x + y) / 2)\<bar>"
    by (simp add: sin_diff_sin abs_mult)
  also have "\<dots> \<le> 2 * \<bar>sin ((x - y) / 2)\<bar> * 1"
    by (intro mult_left_mono) simp_all
  also have "\<dots> \<le> 2 * \<bar>(x - y) / 2\<bar>"
    using abs_sin_x_le_abs_x [of "(x - y) / 2"] by simp
  finally show ?thesis by simp
qed

lemma cos_near_half_pi: "\<bar>cos x\<bar> \<le> \<bar>x - pi / 2\<bar>" for x :: real
proof -
  have "cos x = sin (pi / 2 - x)" by (simp add: cos_sin_eq)
  then show ?thesis using abs_sin_x_le_abs_x [of "pi / 2 - x"] by simp
qed

lemma half_root:
  "(sqrt 2 / 2) * (sqrt 2 / 2) = (1 / 2 :: real)"
  "7 / 10 \<le> sqrt 2 / 2"
  "sqrt 2 / 2 \<le> 71 / 100"
proof -
  show "(sqrt 2 / 2) * (sqrt 2 / 2) = (1 / 2 :: real)" by simp
  have "(14 / 10)\<^sup>2 \<le> (2::real)" by (simp add: power2_eq_square)
  then have "14 / 10 \<le> sqrt 2" by (rule real_le_rsqrt)
  then show "7 / 10 \<le> sqrt 2 / 2" by simp
  have "sqrt 2 \<le> (142 / 100 :: real)"
    by (rule real_le_lsqrt) (simp_all add: power2_eq_square)
  then show "sqrt 2 / 2 \<le> 71 / 100" by simp
qed


lemma rnd_near:
  assumes "accurate pf" and "\<bar>x - x0\<bar> \<le> d" and "\<bar>x0\<bar> + d \<le> B" and "B \<le> 100000000"
  shows "\<bar>rnd pf x - x0\<bar> \<le> d + (B + 1) / 1000000"
proof -
  have x: "\<bar>x\<bar> \<le> B" using assms(2,3) by linarith
  then have "\<bar>x\<bar> \<le> 100000000" using assms(4) by linarith
  then have "\<bar>rnd pf x - x\<bar> \<le> (\<bar>x\<bar> + 1) / 1000000"
    using assms(1) unfolding accurate_def by blast
  also have "\<dots> \<le> (B + 1) / 1000000"
    using x by (simp add: divide_right_mono)
  finally show ?thesis using assms(2) by linarith
qed

lemma near_mult:
  fixes x y x0 y0 :: real
  assumes "\<bar>x - x0\<bar> \<le> dx" and "\<bar>y - y0\<bar> \<le> dy" and "\<bar>x0\<bar> \<le> X" and "\<bar>y0\<bar> \<le> Y"
  shows "\<bar>x * y - x0 * y0\<bar> \<le> dx * (Y + dy) + X * dy"
proof -
  have y: "\<bar>y\<bar> \<le> Y + dy" using assms(2,4) by linarith
  have dx0: "0 \<le> dx" using assms(1) by linarith
  have dy0: "0 \<le> dy" using assms(2) by linarith
  have X0: "0 \<le> X" using assms(3) by linarith
  have "x * y - x0 * y0 = (x - x0) * y + x0 * (y - y0)" by (simp add: algebra_simps)
  then have "\<bar>x * y - x0 * y0\<bar> \<le> \<bar>x - x0\<bar> * \<bar>y\<bar> + \<bar>x0\<bar> * \<bar>y - y0\<bar>"
    by (metis abs_mult abs_triangle_ineq)
  also have "\<dots> \<le> dx * (Y + dy) + X * dy"
    using assms(1,2,3) y dx0 dy0 X0 by (intro add_mono mult_mono) simp_all
  finally show ?thesis .
qed

lemma quarter_turn:
  assumes "accurate pf" and "\<bar>x - 90\<bar> \<le> 1 / 10000"
  shows "\<bar>rnd pf (rnd pf (x * Math_PI pf) / 180) - pi / 2\<bar> \<le> 1 / 100000"
proof -
  have p: "\<bar>Math_PI pf - pi\<bar> \<le> 1 / 1000000"
    using assms(1) unfolding accurate_def by blast
  have "\<bar>x * Math_PI pf - 90 * pi\<bar> \<le> 1 / 10000 * (4 + 1 / 1000000) + 90 * (1 / 1000000)"
    by (rule near_mult [OF assms(2) p]) (use pi_less_4 pi_ge_two in simp_all)
  then have a: "\<bar>x * Math_PI pf - 90 * pi\<bar> \<le> 6 / 10000" by simp
  have "\<bar>rnd pf (x * Math_PI pf) - 90 * pi\<bar> \<le> 6 / 10000 + (361 + 1) / 1000000"
    by (rule rnd_near [OF assms(1) a]) (use pi_less_4 pi_ge_two in simp_all)
  then have "\<bar>rnd pf (x * Math_PI pf) - 90 * pi\<bar> \<le> 1 / 1000" by simp
  then have "\<bar>rnd pf (x * Math_PI pf) / 180 - pi / 2\<bar> \<le> 6 / 1000000"
    by arith
  then have "\<bar>rnd pf (rnd pf (x * Math_PI pf) / 180) - pi / 2\<bar> \<le> 6 / 1000000 + (3 + 1) / 1000000"
    by (rule rnd_near [OF assms(1)]) (use pi_less_4 pi_ge_two in simp_all)
  then show ?thesis by simp
qed

lemma half_sine:
  assumes "accurate pf" and "\<bar>u - pi / 2\<bar> \<le> 1 / 100000"
  shows "\<bar>Math_sin pf (rnd pf (u / 2)) - sqrt 2 / 2\<bar> \<le> 1 / 100000"
proof -
  have "\<bar>u / 2 - pi / 4\<bar> \<le> 5 / 1000000" using assms(2) by arith
  then have "\<bar>rnd pf (u / 2) - pi / 4\<bar> \<le> 5 / 1000000 + (2 + 1) / 1000000"
    by (rule rnd_near [OF assms(1)]) (use pi_less_4 pi_ge_two in simp_all)
  then have h: "\<bar>rnd pf (u / 2) - pi / 4\<bar> \<le> 8 / 1000000" by simp
  then have "\<bar>rnd pf (u / 2)\<bar> \<le> 4" using pi_less_4 pi_ge_two by arith
  then have "\<bar>Math_sin pf (rnd pf (u / 2)) - sin (rnd pf (u / 2))\<bar> \<le> 1 / 1000000"
    using assms(1) unfolding accurate_def by blast
  moreover have "\<bar>sin (rnd pf (u / 2)) - sin (pi / 4)\<bar> \<le> 8 / 1000000"
    using sin_lipschitz [of "rnd pf (u / 2)" "pi / 4"] h by linarith
  ultimately show ?thesis unfolding sin_45 by arith
qed


lemma root_bounds: "\<bar>sqrt 2 / 2\<bar> \<le> (71 / 100 :: real)"
  using half_root(2,3) by simp

lemma square_half:
  assumes "accurate pf" and "\<bar>s - sqrt 2 / 2\<bar> \<le> 1 / 100000"
  shows "\<bar>rnd pf (s * s) - 1 / 2\<bar> \<le> 2 / 100000"
proof -
  have "\<bar>s * s - (sqrt 2 / 2) * (sqrt 2 / 2)\<bar>
          \<le> 1 / 100000 * (71 / 100 + 1 / 100000) + 71 / 100 * (1 / 100000)"
    by (rule near_mult [OF assms(2) assms(2) root_bounds root_bounds])
  then have "\<bar>s * s - 1 / 2\<bar> \<le> 15 / 1000000" unfolding half_root(1) by simp
  then have "\<bar>rnd pf (s * s) - 1 / 2\<bar> \<le> 15 / 1000000 + (1 + 1) / 1000000"
    by (rule rnd_near [OF assms(1)]) simp_all
  then show ?thesis by simp
qed

lemma cos_zero_near:
  assumes "accurate pf"
  shows "\<bar>Math_cos pf 0 - 1\<bar> \<le> 1 / 1000000"
proof -
  have "\<bar>Math_cos pf 0 - cos 0\<bar> \<le> 1 / 1000000"
    using assms unfolding accurate_def by (metis abs_zero zero_le_numeral)
  then show ?thesis by simp
qed

lemma equator_chain:
  assumes "accurate pf" and "\<bar>s - sqrt 2 / 2\<bar> \<le> 1 / 100000"
  shows "\<bar>rnd pf (rnd pf (rnd pf (Math_cos pf 0 * Math_cos pf 0) * s) * s) - 1 / 2\<bar> \<le> 3 / 100000"
proof -
  let ?k = "Math_cos pf 0"
  have k: "\<bar>?k - 1\<bar> \<le> 1 / 1000000" by (rule cos_zero_near [OF assms(1)])
  have one: "\<bar>1 :: real\<bar> \<le> 1" by simp
  have "\<bar>?k * ?k - 1 * 1\<bar> \<le> 1 / 1000000 * (1 + 1 / 1000000) + 1 * (1 / 1000000)"
    by (rule near_mult [OF k k one one])
  then have "\<bar>?k * ?k - 1\<bar> \<le> 3 / 1000000" by simp
  then have "\<bar>rnd pf (?k * ?k) - 1\<bar> \<le> 3 / 1000000 + (2 + 1) / 1000000"
    by (rule rnd_near [OF assms(1)]) simp_all
  then have kk: "\<bar>rnd pf (?k * ?k) - 1\<bar> \<le> 6 / 1000000" by simp
  have "\<bar>rnd pf (?k * ?k) * s - 1 * (sqrt 2 / 2)\<bar>
          \<le> 6 / 1000000 * (71 / 100 + 1 / 100000) + 1 * (1 / 100000)"
    by (rule near_mult [OF kk assms(2) one root_bounds])
  then have "\<bar>rnd pf (?k * ?k) * s - sqrt 2 / 2\<bar> \<le> 15 / 1000000" by simp
  then have "\<bar>rnd pf (rnd pf (?k * ?k) * s) - sqrt 2 / 2\<bar> \<le> 15 / 1000000 + (1 + 1) / 1000000"
    by (rule rnd_near [OF assms(1)]) (use half_root(2,3) in simp_all)
  then have t1: "\<bar>rnd pf (rnd pf (?k * ?k) * s) - sqrt 2 / 2\<bar> \<le> 2 / 100000" by simp
  have "\<bar>rnd pf (rnd pf (?k * ?k) * s) * s - (sqrt 2 / 2) * (sqrt 2 / 2)\<bar>
          \<le> 2 / 100000 * (71 / 100 + 1 / 100000) + 71 / 100 * (1 / 100000)"
    by (rule near_mult [OF t1 assms(2) root_bounds root_bounds])
  then have "\<bar>rnd pf (rnd pf (?k * ?k) * s) * s - 1 / 2\<bar> \<le> 22 / 1000000"
    unfolding half_root(1) by simp
  then have "\<bar>rnd pf (rnd pf (rnd pf (?k * ?k) * s) * s) - 1 / 2\<bar> \<le> 22 / 1000000 + (1 + 1) / 1000000"
    by (rule rnd_near [OF assms(1)]) simp_all
  then show ?thesis by simp
qed

lemma polar_chain:
  assumes "accurate pf" and "\<bar>s - sqrt 2 / 2\<bar> \<le> 1 / 100000" and "\<bar>v - pi / 2\<bar> \<le> 1 / 100000"
  shows "\<bar>rnd pf (rnd pf (rnd pf (Math_cos pf 0 * Math_cos pf v) * s) * s)\<bar> \<le> 2 / 100000"
proof -
  let ?k = "Math_cos pf 0"
  let ?w = "Math_cos pf v"
  have k: "\<bar>?k - 1\<bar> \<le> 1 / 1000000" by (rule cos_zero_near [OF assms(1)])
  have one: "\<bar>1 :: real\<bar> \<le> 1" and zero: "\<bar>0 :: real\<bar> \<le> 0" by simp_all
  have "\<bar>v\<bar> \<le> 4" using assms(3) pi_less_4 pi_ge_two by arith
  then have "\<bar>?w - cos v\<bar> \<le> 1 / 1000000"
    using assms(1) unfolding accurate_def by blast
  moreover have "\<bar>cos v\<bar> \<le> 1 / 100000"
    using cos_near_half_pi [of v] assms(3) by linarith
  ultimately have w: "\<bar>?w - 0\<bar> \<le> 11 / 1000000" by arith
  have "\<bar>?k * ?w - 1 * 0\<bar> \<le> 1 / 1000000 * (0 + 11 / 1000000) + 1 * (11 / 1000000)"
    by (rule near_mult [OF k w one zero])
  then have "\<bar>?k * ?w - 0\<bar> \<le> 12 / 1000000" by simp
  then have "\<bar>rnd pf (?k * ?w) - 0\<bar> \<le> 12 / 1000000 + (1 + 1) / 1000000"
    by (rule rnd_near [OF assms(1)]) simp_all
  then have q1: "\<bar>rnd pf (?k * ?w) - 0\<bar> \<le> 14 / 1000000" by simp
  have "\<bar>rnd pf (?k * ?w) * s - 0 * (sqrt 2 / 2)\<bar>
          \<le> 14 / 1000000 * (71 / 100 + 1 / 100000) + 0 * (1 / 100000)"
    by (rule near_mult [OF q1 assms(2) zero root_bounds])
  then have "\<bar>rnd pf (?k * ?w) * s - 0\<bar> \<le> 10 / 1000000" by simp
  then have "\<bar>rnd pf (rnd pf (?k * ?w) * s) - 0\<bar> \<le> 10 / 1000000 + (1 + 1) / 1000000"
    by (rule rnd_near [OF assms(1)]) simp_all
  then have q2: "\<bar>rnd pf (rnd pf (?k * ?w) * s) - 0\<bar> \<le> 12 / 1000000" by simp
  have "\<bar>rnd pf (rnd pf (?k * ?w) * s) * s - 0 * (sqrt 2 / 2)\<bar>
          \<le> 12 / 1000000 * (71 / 100 + 1 / 100000) + 0 * (1 / 100000)"
    by (rule near_mult [OF q2 assms(2) zero root_bounds])
  then have "\<bar>rnd pf (rnd pf (?k * ?w) * s) * s - 0\<bar> \<le> 10 / 1000000" by simp
  then have "\<bar>rnd pf (rnd pf (rnd pf (?k * ?w) * s) * s) - 0\<bar> \<le> 10 / 1000000 + (1 + 1) / 1000000"
    by (rule rnd_near [OF assms(1)]) simp_all
  then show ?thesis by simp
qed


lemma sqrt_near_half:
  assumes "\<bar>z - 1 / 2\<bar> \<le> e" and "e \<le> 1 / 100"
  shows "\<bar>sqrt z - sqrt 2 / 2\<bar> \<le> 2 * e"
proof -
  let ?s = "sqrt 2 / 2 :: real"
  have e0: "0 \<le> e" using assms(1) by linarith
  have s2: "?s * ?s = 1 / 2" by (rule half_root(1))
  have lo: "7 / 10 \<le> ?s" and hi: "?s \<le> 71 / 100" by (rule half_root(2), rule half_root(3))
  have "e * (7 / 10) \<le> e * ?s" using lo e0 by (rule mult_left_mono)
  then have es: "7 / 10 * e \<le> e * ?s" by simp
  have "e * ?s \<le> e * (71 / 100)" using hi e0 by (rule mult_left_mono)
  then have es': "e * ?s \<le> 71 / 100 * e" by simp
  have ee: "e * e \<le> e * (1 / 100)" using assms(2) e0 by (rule mult_left_mono)
  have up: "z \<le> (?s + 2 * e)\<^sup>2"
  proof -
    have "(?s + 2 * e)\<^sup>2 = ?s * ?s + 4 * (e * ?s) + 4 * (e * e)"
      by (simp add: power2_eq_square algebra_simps)
    then have "(?s + 2 * e)\<^sup>2 = 1 / 2 + 4 * (e * ?s) + 4 * (e * e)" unfolding s2 .
    moreover have "0 \<le> e * e" by simp
    ultimately show ?thesis using assms(1) es by linarith
  qed
  have dn: "(?s - 2 * e)\<^sup>2 \<le> z"
  proof -
    have "(?s - 2 * e)\<^sup>2 = ?s * ?s - 4 * (e * ?s) + 4 * (e * e)"
      by (simp add: power2_eq_square algebra_simps)
    then have "(?s - 2 * e)\<^sup>2 = 1 / 2 - 4 * (e * ?s) + 4 * (e * e)" unfolding s2 .
    then show ?thesis using assms(1) es ee by linarith
  qed
  have "0 \<le> ?s + 2 * e" using lo e0 by linarith
  then have "sqrt z \<le> ?s + 2 * e" using up by (rule real_le_lsqrt)
  moreover have "?s - 2 * e \<le> sqrt z" using dn by (rule real_le_rsqrt)
  ultimately show ?thesis by linarith
qed

lemma quarter_distance:
  assumes "accurate pf" and "\<bar>a - 1 / 2\<bar> \<le> 1 / 1000"
  shows "\<exists>d. num_op pf (*) (Some 6371000)
               (num_op pf (*) (Some 2)
                  (js_atan2 pf (js_sqrt pf (Some a)) (js_sqrt pf (num_op pf (-) (Some 1) (Some a)))))
             = Some d
             \<and> \<bar>d - 6371000 * (pi / 2)\<bar> \<le> 6371000 * (28 / 1000)"
proof -
  let ?s = "sqrt 2 / 2 :: real"
  have lo: "7 / 10 \<le> ?s" and hi: "?s \<le> 71 / 100" by (rule half_root(2), rule half_root(3))
  let ?y = "Math_sqrt pf a"
  let ?b = "rnd pf (1 - a)"
  let ?x = "Math_sqrt pf ?b"
  have a0: "0 \<le> a \<and> a \<le> 4" using assms(2) by arith
  then have "\<bar>?y - sqrt a\<bar> \<le> 1 / 1000000"
    using assms(1) unfolding accurate_def by blast
  moreover have "\<bar>sqrt a - ?s\<bar> \<le> 2 * (1 / 1000)"
    by (rule sqrt_near_half [OF assms(2)]) simp
  ultimately have y: "\<bar>?y - ?s\<bar> \<le> 3 / 1000" by arith
  have "\<bar>(1 - a) - 1 / 2\<bar> \<le> 1 / 1000" using assms(2) by arith
  then have "\<bar>?b - 1 / 2\<bar> \<le> 1 / 1000 + (1 + 1) / 1000000"
    by (rule rnd_near [OF assms(1)]) simp_all
  then have b: "\<bar>?b - 1 / 2\<bar> \<le> 2 / 1000" by simp
  then have b0: "0 \<le> ?b \<and> ?b \<le> 4" by arith
  then have "\<bar>?x - sqrt ?b\<bar> \<le> 1 / 1000000"
    using assms(1) unfolding accurate_def by blast
  moreover have "\<bar>sqrt ?b - ?s\<bar> \<le> 2 * (2 / 1000)"
    by (rule sqrt_near_half [OF b]) simp
  ultimately have x: "\<bar>?x - ?s\<bar> \<le> 5 / 1000" by arith
  have ypos: "0 < ?y \<and> ?y \<le> 4" using y lo hi by arith
  have xpos: "0 < ?x \<and> ?x \<le> 4" using x lo hi by arith
  have xlo: "69 / 100 \<le> ?x" using x lo by arith
  have "\<bar>?y - ?x\<bar> \<le> 8 / 1000" using x y by arith
  then have "\<bar>?y - ?x\<bar> / ?x \<le> (8 / 1000) / (69 / 100)"
    using xlo by (intro frac_le) simp_all
  moreover have "?y / ?x - 1 = (?y - ?x) / ?x" using xpos by (simp add: field_simps)
  ultimately have "\<bar>?y / ?x - 1\<bar> \<le> (8 / 1000) / (69 / 100)"
    using xpos by (simp add: abs_divide)
  then have r: "\<bar>?y / ?x - 1\<bar> \<le> 12 / 1000" by simp
  have "\<bar>arctan (?y / ?x) - arctan 1\<bar> \<le> 12 / 1000"
    using arctan_lipschitz [of "?y / ?x" 1] r by linarith
  moreover have "\<bar>Math_atan2 pf ?y ?x - arctan (?y / ?x)\<bar> \<le> 1 / 1000000"
    using assms(1) ypos xpos unfolding accurate_def by blast
  ultimately have "\<bar>Math_atan2 pf ?y ?x - pi / 4\<bar> \<le> 13 / 1000"
    unfolding arctan_one by arith
  then have "\<bar>2 * Math_atan2 pf ?y ?x - pi / 2\<bar> \<le> 26 / 1000" by arith
  then have "\<bar>rnd pf (2 * Math_atan2 pf ?y ?x) - pi / 2\<bar> \<le> 26 / 1000 + (3 + 1) / 1000000"
    by (rule rnd_near [OF assms(1)]) (use pi_less_4 pi_ge_two in simp_all)
  then have c: "\<bar>rnd pf (2 * Math_atan2 pf ?y ?x) - pi / 2\<bar> \<le> 27 / 1000" by simp
  then have "\<bar>6371000 * rnd pf (2 * Math_atan2 pf ?y ?x) - 6371000 * (pi / 2)\<bar> \<le> 6371000 * (27 / 1000)"
    by arith
  then have "\<bar>rnd pf (6371000 * rnd pf (2 * Math_atan2 pf ?y ?x)) - 6371000 * (pi / 2)\<bar>
               \<le> 6371000 * (27 / 1000) + (20000000 + 1) / 1000000"
    by (rule rnd_near [OF assms(1)]) (use pi_less_4 pi_ge_two in simp_all)
  then have "\<bar>rnd pf (6371000 * rnd pf (2 * Math_atan2 pf ?y ?x)) - 6371000 * (pi / 2)\<bar>
               \<le> 6371000 * (28 / 1000)"
    by simp
  moreover have "num_op pf (*) (Some 6371000)
                   (num_op pf (*) (Some 2)
                      (js_atan2 pf (js_sqrt pf (Some a))
                         (js_sqrt pf (num_op pf (-) (Some 1) (Some a)))))
                   = Some (rnd pf (6371000 * rnd pf (2 * Math_atan2 pf ?y ?x)))"
    using a0 b0 by (simp add: js_sqrt_def js_atan2_def)
  ultimately show ?thesis by blast
qed


lemma ninety_near:
  assumes "accurate pf"
  shows "\<bar>rnd pf 90 - 90\<bar> \<le> 1 / 10000"
proof -
  have "\<bar>(90::real) - 90\<bar> \<le> 0" by simp
  then have "\<bar>rnd pf 90 - 90\<bar> \<le> 0 + (90 + 1) / 1000000"
    by (rule rnd_near [OF assms]) simp_all
  then show ?thesis by simp
qed

lemma quarter_sine:
  assumes "accurate pf"
  shows "\<bar>Math_sin pf (rnd pf (rnd pf (rnd pf (rnd pf 90 * Math_PI pf) / 180) / 2)) - sqrt 2 / 2\<bar>
           \<le> 1 / 100000"
  by (intro half_sine quarter_turn ninety_near assms)

lemma equator_term:
  assumes "conforming pf" and "accurate pf"
  shows "\<exists>a. haversine_term pf (Some 0) (Some 0) (Some 0) (Some 90) = Some a
             \<and> \<bar>a - 1 / 2\<bar> \<le> 1 / 1000"
proof -
  define s where "s = Math_sin pf (rnd pf (rnd pf (rnd pf (rnd pf 90 * Math_PI pf) / 180) / 2))"
  have s: "\<bar>s - sqrt 2 / 2\<bar> \<le> 1 / 100000"
    unfolding s_def by (rule quarter_sine [OF assms(2)])
  have r0: "rnd pf 0 = 0" and s0: "Math_sin pf 0 = 0"
    using assms(1) by (simp_all add: conforming_def)
  have t: "haversine_term pf (Some 0) (Some 0) (Some 0) (Some 90)
             = Some (rnd pf (rnd pf (rnd pf (rnd pf (Math_cos pf 0 * Math_cos pf 0) * s) * s)))"
    by (simp add: haversine_term_def Let_def js_sin_def js_cos_def r0 s0 s_def)
  have "\<bar>rnd pf (rnd pf (rnd pf (Math_cos pf 0 * Math_cos pf 0) * s) * s) - 1 / 2\<bar> \<le> 3 / 100000"
    by (rule equator_chain [OF assms(2) s])
  then have "\<bar>rnd pf (rnd pf (rnd pf (rnd pf (Math_cos pf 0 * Math_cos pf 0) * s) * s)) - 1 / 2\<bar>
               \<le> 3 / 100000 + (1 + 1) / 1000000"
    by (rule rnd_near [OF assms(2)]) simp_all
  then have "\<bar>rnd pf (rnd pf (rnd pf (rnd pf (Math_cos pf 0 * Math_cos pf 0) * s) * s)) - 1 / 2\<bar>
               \<le> 1 / 1000"
    by simp
  then show ?thesis using t by blast
qed

lemma meridian_term:
  assumes "conforming pf" and "accurate pf"
  shows "\<exists>a. haversine_term pf (Some 0) (Some 90) (Some 90) (Some 90) = Some a
             \<and> \<bar>a - 1 / 2\<bar> \<le> 1 / 1000"
proof -
  define s where "s = Math_sin pf (rnd pf (rnd pf (rnd pf (rnd pf 90 * Math_PI pf) / 180) / 2))"
  have s: "\<bar>s - sqrt 2 / 2\<bar> \<le> 1 / 100000"
    unfolding s_def by (rule quarter_sine [OF assms(2)])
  have r0: "rnd pf 0 = 0" and s0: "Math_sin pf 0 = 0"
    using assms(1) by (simp_all add: conforming_def)
  have t: "haversine_term pf (Some 0) (Some 90) (Some 90) (Some 90)
             = Some (rnd pf (rnd pf (s * s)))"
    by (simp add: haversine_term_def Let_def js_sin_def js_cos_def r0 s0 s_def)
  have "\<bar>rnd pf (s * s) - 1 / 2\<bar> \<le> 2 / 100000"
    by (rule square_half [OF assms(2) s])
  then have "\<bar>rnd pf (rnd pf (s * s)) - 1 / 2\<bar> \<le> 2 / 100000 + (1 + 1) / 1000000"
    by (rule rnd_near [OF assms(2)]) simp_all
  then have "\<bar>rnd pf (rnd pf (s * s)) - 1 / 2\<bar> \<le> 1 / 1000" by simp
  then show ?thesis using t by blast
qed

lemma diagonal_term:
  assumes "conforming pf" and "accurate pf"
  shows "\<exists>a. haversine_term pf (Some 0) (Some 0) (Some 90) (Some 90) = Some a
             \<and> \<bar>a - 1 / 2\<bar> \<le> 1 / 1000"
proof -
  define s where "s = Math_sin pf (rnd pf (rnd pf (rnd pf (rnd pf 90 * Math_PI pf) / 180) / 2))"
  define v where "v = rnd pf (rnd pf (90 * Math_PI pf) / 180)"
  have s: "\<bar>s - sqrt 2 / 2\<bar> \<le> 1 / 100000"
    unfolding s_def by (rule quarter_sine [OF assms(2)])
  have v: "\<bar>v - pi / 2\<bar> \<le> 1 / 100000"
    unfolding v_def by (rule quarter_turn [OF assms(2)]) simp
  have r0: "rnd pf 0 = 0" and s0: "Math_sin pf 0 = 0"
    using assms(1) by (simp_all add: conforming_def)
  let ?p = "rnd pf (s * s)"
  let ?q = "rnd pf (rnd pf (rnd pf (Math_cos pf 0 * Math_cos pf v) * s) * s)"
  have t: "haversine_term pf (Some 0) (Some 0) (Some 90) (Some 90) = Some (rnd pf (?p + ?q))"
    by (simp add: haversine_term_def Let_def js_sin_def js_cos_def r0 s0 s_def v_def)
  have p: "\<bar>?p - 1 / 2\<bar> \<le> 2 / 100000"
    by (rule square_half [OF assms(2) s])
  have q: "\<bar>?q\<bar> \<le> 2 / 100000"
    by (rule polar_chain [OF assms(2) s v])
  have "\<bar>(?p + ?q) - 1 / 2\<bar> \<le> 4 / 100000" using p q by arith
  then have "\<bar>rnd pf (?p + ?q) - 1 / 2\<bar> \<le> 4 / 100000 + (1 + 1) / 1000000"
    by (rule rnd_near [OF assms(2)]) simp_all
  then have "\<bar>rnd pf (?p + ?q) - 1 / 2\<bar> \<le> 1 / 1000" by simp
  then show ?thesis using t by blast
qed

lemma quarter_leg:
  assumes "accurate pf"
      and "\<exists>a. haversine_term pf lat1 lon1 lat2 lon2 = Some a \<and> \<bar>a - 1 / 2\<bar> \<le> 1 / 1000"
  shows "\<exists>d. route_haversineDistance pf lat1 lon1 lat2 lon2 = Some d
             \<and> \<bar>d - 6371000 * (pi / 2)\<bar> \<le> 6371000 * (28 / 1000)"
  using assms(2) quarter_distance [OF assms(1)]
  unfolding route_haversineDistance_def Let_def by auto


lemma right_angle_legs:
  assumes "conforming pf" and "accurate pf"
  shows "\<exists>d1 d2 d3.
           sample_distance pf equator_sample quarter_sample = Some d1
           \<and> sample_distance pf quarter_sample pole_sample = Some d2
           \<and> sample_distance pf equator_sample pole_sample = Some d3
           \<and> \<bar>d1 - 6371000 * (pi / 2)\<bar> \<le> 6371000 * (28 / 1000)
           \<and> \<bar>d2 - 6371000 * (pi / 2)\<bar> \<le> 6371000 * (28 / 1000)
           \<and> \<bar>d3 - 6371000 * (pi / 2)\<bar> \<le> 6371000 * (28 / 1000)"
  using quarter_leg [OF assms(2) equator_term [OF assms]]
        quarter_leg [OF assms(2) meridian_term [OF assms]]
        quarter_leg [OF assms(2) diagonal_term [OF assms]]
  by (auto simp: sample_distance_def equator_sample_def quarter_sample_def pole_sample_def
      mk_sample_def)

lemma right_angle_efficiency:
  assumes "conforming pf" and "accurate pf"
  shows "\<exists>q. calculateRouteEfficiency pf right_angle_path = Fin q \<and> 2 / 5 < q \<and> q < 3 / 5"
proof -
  from right_angle_legs [OF assms] obtain d1 d2 d3 where
    s1: "sample_distance pf equator_sample quarter_sample = Some d1" and
    s2: "sample_distance pf quarter_sample pole_sample = Some d2" and
    s3: "sample_distance pf equator_sample pole_sample = Some d3" and
    d1: "\<bar>d1 - 6371000 * (pi / 2)\<bar> \<le> 6371000 * (28 / 1000)" and
    d2: "\<bar>d2 - 6371000 * (pi / 2)\<bar> \<le> 6371000 * (28 / 1000)" and
    d3: "\<bar>d3 - 6371000 * (pi / 2)\<bar> \<le> 6371000 * (28 / 1000)"
    by blast
  let ?T = "rnd pf (rnd pf (0 + d1) + d2)"
  have t: "calculateTotalDistance pf right_angle_path = Some ?T"
    by (simp add: calculateTotalDistance_def right_angle_path_def upto_3 s1 s2)
  have "\<bar>(0 + d1) - 6371000 * (pi / 2)\<bar> \<le> 178388" using d1 by simp
  then have "\<bar>rnd pf (0 + d1) - 6371000 * (pi / 2)\<bar> \<le> 178388 + (20000000 + 1) / 1000000"
    by (rule rnd_near [OF assms(2)]) (use pi_less_4 pi_ge_two in simp_all)
  then have r1: "\<bar>rnd pf (0 + d1) - 6371000 * (pi / 2)\<bar> \<le> 178409" by simp
  have d2': "\<bar>d2 - 6371000 * (pi / 2)\<bar> \<le> 178388" using d2 by simp
  have "\<bar>(rnd pf (0 + d1) + d2) - 6371000 * pi\<bar> \<le> 356797" using r1 d2' by arith
  then have "\<bar>?T - 6371000 * pi\<bar> \<le> 356797 + (30000000 + 1) / 1000000"
    by (rule rnd_near [OF assms(2)]) (use pi_less_4 pi_ge_two in simp_all)
  then have T: "\<bar>?T - 6371000 * pi\<bar> \<le> 356828" by simp
  have d3': "\<bar>d3 - 6371000 * (pi / 2)\<bar> \<le> 178388" using d3 by simp
  have Tpos: "0 < ?T" using T pi_ge_two by arith
  have up: "d3 \<le> 11 / 20 * ?T" using T d3' pi_ge_two by arith
  have dn: "9 / 20 * ?T \<le> d3" using T d3' pi_ge_two by arith
  have q0: "9 / 20 \<le> d3 / ?T \<and> d3 / ?T \<le> 11 / 20"
    using up dn Tpos by (simp add: pos_le_divide_eq pos_divide_le_eq)
  have z: "\<bar>d3 / ?T - d3 / ?T\<bar> \<le> 0" by simp
  have qa: "\<bar>d3 / ?T\<bar> + 0 \<le> 1" using q0 by arith
  have "\<bar>rnd pf (d3 / ?T) - d3 / ?T\<bar> \<le> 0 + (1 + 1) / 1000000"
    by (rule rnd_near [OF assms(2) z qa]) simp
  then have "\<bar>rnd pf (d3 / ?T) - d3 / ?T\<bar> \<le> 1 / 100" by simp
  then have "2 / 5 < rnd pf (d3 / ?T) \<and> rnd pf (d3 / ?T) < 3 / 5" using q0 by arith
  moreover have "calculateRouteEfficiency pf right_angle_path = Fin (rnd pf (d3 / ?T))"
    using t s3 Tpos by (simp add: calculateRouteEfficiency_def Let_def right_angle_path_def js_div_def)
  ultimately show ?thesis by blast
qed

subsection \<open>The round trip on an accurate platform\<close>

lemma minus_ninety_near:
  assumes "accurate pf"
  shows "\<bar>rnd pf (- 90) - (- 90)\<bar> \<le> 1 / 10000"
proof -
  have "\<bar>(- 90::real) - (- 90)\<bar> \<le> 0" by simp
  then have "\<bar>rnd pf (- 90) - (- 90)\<bar> \<le> 0 + (90 + 1) / 1000000"
    by (rule rnd_near [OF assms]) simp_all
  then show ?thesis by simp
qed

lemma quarter_turn_back:
  assumes "accurate pf" and "\<bar>x - (- 90)\<bar> \<le> 1 / 10000"
  shows "\<bar>rnd pf (rnd pf (x * Math_PI pf) / 180) - (- (pi / 2))\<bar> \<le> 1 / 100000"
proof -
  have p: "\<bar>Math_PI pf - pi\<bar> \<le> 1 / 1000000"
    using assms(1) unfolding accurate_def by blast
  have "\<bar>x * Math_PI pf - (- 90) * pi\<bar> \<le> 1 / 10000 * (4 + 1 / 1000000) + 90 * (1 / 1000000)"
    by (rule near_mult [OF assms(2) p]) (use pi_less_4 pi_ge_two in simp_all)
  then have a: "\<bar>x * Math_PI pf - (- 90) * pi\<bar> \<le> 6 / 10000" by simp
  have "\<bar>rnd pf (x * Math_PI pf) - (- 90) * pi\<bar> \<le> 6 / 10000 + (361 + 1) / 1000000"
    by (rule rnd_near [OF assms(1) a]) (use pi_less_4 pi_ge_two in simp_all)
  then have "\<bar>rnd pf (x * Math_PI pf) - (- 90) * pi\<bar> \<le> 1 / 1000" by simp
  then have "\<bar>rnd pf (x * Math_PI pf) / 180 - (- (pi / 2))\<bar> \<le> 6 / 1000000"
    by arith
  then have "\<bar>rnd pf (rnd pf (x * Math_PI pf) / 180) - (- (pi / 2))\<bar>
               \<le> 6 / 1000000 + (3 + 1) / 1000000"
    by (rule rnd_near [OF assms(1)]) (use pi_less_4 pi_ge_two in simp_all)
  then show ?thesis by simp
qed

lemma half_sine_back:
  assumes "accurate pf" and "\<bar>u - (- (pi / 2))\<bar> \<le> 1 / 100000"
  shows "\<bar>Math_sin pf (rnd pf (u / 2)) - (- (sqrt 2 / 2))\<bar> \<le> 1 / 100000"
proof -
  have "\<bar>u / 2 - (- (pi / 4))\<bar> \<le> 5 / 1000000" using assms(2) by arith
  then have "\<bar>rnd pf (u / 2) - (- (pi / 4))\<bar> \<le> 5 / 1000000 + (2 + 1) / 1000000"
    by (rule rnd_near [OF assms(1)]) (use pi_less_4 pi_ge_two in simp_all)
  then have h: "\<bar>rnd pf (u / 2) - (- (pi / 4))\<bar> \<le> 8 / 1000000" by simp
  then have "\<bar>rnd pf (u / 2)\<bar> \<le> 4" using pi_less_4 pi_ge_two by arith
  then have "\<bar>Math_sin pf (rnd pf (u / 2)) - sin (rnd pf (u / 2))\<bar> \<le> 1 / 1000000"
    using assms(1) unfolding accurate_def by blast
  moreover have "\<bar>sin (rnd pf (u / 2)) - sin (- (pi / 4))\<bar> \<le> 8 / 1000000"
    using sin_lipschitz [of "rnd pf (u / 2)" "- (pi / 4)"] h by linarith
  moreover have "sin (- (pi / 4)) = - (sqrt 2 / 2)" by (simp add: sin_45)
  ultimately show ?thesis by arith
qed

lemma minus_quarter_sine:
  assumes "accurate pf"
  shows "\<bar>Math_sin pf (rnd pf (rnd pf (rnd pf (rnd pf (- 90) * Math_PI pf) / 180) / 2))
            - (- (sqrt 2 / 2))\<bar> \<le> 1 / 100000"
  by (intro half_sine_back quarter_turn_back minus_ninety_near assms)

lemma minus_root_bounds: "\<bar>- (sqrt 2 / 2)\<bar> \<le> (71 / 100 :: real)"
  using half_root(2,3) by simp

lemma square_half_back:
  assumes "accurate pf" and "\<bar>s - (- (sqrt 2 / 2))\<bar> \<le> 1 / 100000"
  shows "\<bar>rnd pf (s * s) - 1 / 2\<bar> \<le> 2 / 100000"
proof -
  have "\<bar>s * s - (- (sqrt 2 / 2)) * (- (sqrt 2 / 2))\<bar>
          \<le> 1 / 100000 * (71 / 100 + 1 / 100000) + 71 / 100 * (1 / 100000)"
    by (rule near_mult [OF assms(2) assms(2) minus_root_bounds minus_root_bounds])
  moreover have "(- (sqrt 2 / 2)) * (- (sqrt 2 / 2)) = (1 / 2 :: real)" by simp
  ultimately have "\<bar>s * s - 1 / 2\<bar> \<le> 15 / 1000000" by simp
  then have "\<bar>rnd pf (s * s) - 1 / 2\<bar> \<le> 15 / 1000000 + (1 + 1) / 1000000"
    by (rule rnd_near [OF assms(1)]) simp_all
  then show ?thesis by simp
qed

lemma polar_chain_back:
  assumes "accurate pf" and "\<bar>s - (- (sqrt 2 / 2))\<bar> \<le> 1 / 100000"
      and "\<bar>v - pi / 2\<bar> \<le> 1 / 100000"
  shows "\<bar>rnd pf (rnd pf (rnd pf (Math_cos pf v * Math_cos pf 0) * s) * s)\<bar> \<le> 2 / 100000"
proof -
  let ?k = "Math_cos pf 0"
  let ?w = "Math_cos pf v"
  have k: "\<bar>?k - 1\<bar> \<le> 1 / 1000000" by (rule cos_zero_near [OF assms(1)])
  have one: "\<bar>1 :: real\<bar> \<le> 1" and zero: "\<bar>0 :: real\<bar> \<le> 0" by simp_all
  have "\<bar>v\<bar> \<le> 4" using assms(3) pi_less_4 pi_ge_two by arith
  then have "\<bar>?w - cos v\<bar> \<le> 1 / 1000000"
    using assms(1) unfolding accurate_def by blast
  moreover have "\<bar>cos v\<bar> \<le> 1 / 100000"
    using cos_near_half_pi [of v] assms(3) by linarith
  ultimately have w: "\<bar>?w - 0\<bar> \<le> 11 / 1000000" by arith
  have "\<bar>?w * ?k - 0 * 1\<bar> \<le> 11 / 1000000 * (1 + 1 / 1000000) + 0 * (1 / 1000000)"
    by (rule near_mult [OF w k zero one])
  then have "\<bar>?w * ?k - 0\<bar> \<le> 12 / 1000000" by simp
  then have "\<bar>rnd pf (?w * ?k) - 0\<bar> \<le> 12 / 1000000 + (1 + 1) / 1000000"
    by (rule rnd_near [OF assms(1)]) simp_all
  then have q1: "\<bar>rnd pf (?w * ?k) - 0\<bar> \<le> 14 / 1000000" by simp
  have "\<bar>rnd pf (?w * ?k) * s - 0 * (- (sqrt 2 / 2))\<bar>
          \<le> 14 / 1000000 * (71 / 100 + 1 / 100000) + 0 * (1 / 100000)"
    by (rule near_mult [OF q1 assms(2) zero minus_root_bounds])
  then have "\<bar>rnd pf (?w * ?k) * s - 0\<bar> \<le> 10 / 1000000" by simp
  then have "\<bar>rnd pf (rnd pf (?w * ?k) * s) - 0\<bar> \<le> 10 / 1000000 + (1 + 1) / 1000000"
    by (rule rnd_near [OF assms(1)]) simp_all
  then have q2: "\<bar>rnd pf (rnd pf (?w * ?k) * s) - 0\<bar> \<le> 12 / 1000000" by simp
  have "\<bar>rnd pf (rnd pf (?w * ?k) * s) * s - 0 * (- (sqrt 2 / 2))\<bar>
          \<le> 12 / 1000000 * (71 / 100 + 1 / 100000) + 0 * (1 / 100000)"
    by (rule near_mult [OF q2 assms(2) zero minus_root_bounds])
  then have "\<bar>rnd pf (rnd pf (?w * ?k) * s) * s - 0\<bar> \<le> 10 / 1000000" by simp
  then have "\<bar>rnd pf (rnd pf (rnd pf (?w * ?k) * s) * s) - 0\<bar> \<le> 10 / 1000000 + (1 + 1) / 1000000"
    by (rule rnd_near [OF assms(1)]) simp_all
  then show ?thesis by simp
qed

lemma return_term:
  assumes "conforming pf" and "accurate pf"
  shows "\<exists>a. haversine_term pf (Some 90) (Some 90) (Some 0) (Some 0) = Some a
             \<and> \<bar>a - 1 / 2\<bar> \<le> 1 / 1000"
proof -
  define s where
    "s = Math_sin pf (rnd pf (rnd pf (rnd pf (rnd pf (- 90) * Math_PI pf) / 180) / 2))"
  define v where "v = rnd pf (rnd pf (90 * Math_PI pf) / 180)"
  have s: "\<bar>s - (- (sqrt 2 / 2))\<bar> \<le> 1 / 100000"
    unfolding s_def by (rule minus_quarter_sine [OF assms(2)])
  have v: "\<bar>v - pi / 2\<bar> \<le> 1 / 100000"
    unfolding v_def by (rule quarter_turn [OF assms(2)]) simp
  have r0: "rnd pf 0 = 0" and s0: "Math_sin pf 0 = 0"
    using assms(1) by (simp_all add: conforming_def)
  let ?p = "rnd pf (s * s)"
  let ?q = "rnd pf (rnd pf (rnd pf (Math_cos pf v * Math_cos pf 0) * s) * s)"
  have t: "haversine_term pf (Some 90) (Some 90) (Some 0) (Some 0) = Some (rnd pf (?p + ?q))"
    by (simp add: haversine_term_def Let_def js_sin_def js_cos_def r0 s0 s_def v_def)
  have p: "\<bar>?p - 1 / 2\<bar> \<le> 2 / 100000"
    by (rule square_half_back [OF assms(2) s])
  have q: "\<bar>?q\<bar> \<le> 2 / 100000"
    by (rule polar_chain_back [OF assms(2) s v])
  have "\<bar>(?p + ?q) - 1 / 2\<bar> \<le> 4 / 100000" using p q by arith
  then have "\<bar>rnd pf (?p + ?q) - 1 / 2\<bar> \<le> 4 / 100000 + (1 + 1) / 1000000"
    by (rule rnd_near [OF assms(2)]) simp_all
  then have "\<bar>rnd pf (?p + ?q) - 1 / 2\<bar> \<le> 1 / 1000" by simp
  then show ?thesis using t by blast
qed

lemma round_trip_total:
  assumes "conforming pf" and "accurate pf"
  shows "\<exists>t. calculateTotalDistance pf round_trip = Some t \<and> t \<noteq> 0"
proof -
  from quarter_leg [OF assms(2) diagonal_term [OF assms]] obtain d1 where
    s1: "sample_distance pf equator_sample pole_sample = Some d1" and
    d1: "\<bar>d1 - 6371000 * (pi / 2)\<bar> \<le> 6371000 * (28 / 1000)"
    by (auto simp: sample_distance_def equator_sample_def pole_sample_def mk_sample_def)
  from quarter_leg [OF assms(2) return_term [OF assms]] obtain d2 where
    s2: "sample_distance pf pole_sample equator_sample = Some d2" and
    d2: "\<bar>d2 - 6371000 * (pi / 2)\<bar> \<le> 6371000 * (28 / 1000)"
    by (auto simp: sample_distance_def equator_sample_def pole_sample_def mk_sample_def)
  let ?T = "rnd pf (rnd pf (0 + d1) + d2)"
  have t: "calculateTotalDistance pf round_trip = Some ?T"
    by (simp add: calculateTotalDistance_def round_trip_def upto_3 s1 s2)
  have "\<bar>(0 + d1) - 6371000 * (pi / 2)\<bar> \<le> 178388" using d1 by simp
  then have "\<bar>rnd pf (0 + d1) - 6371000 * (pi / 2)\<bar> \<le> 178388 + (20000000 + 1) / 1000000"
    by (rule rnd_near [OF assms(2)]) (use pi_less_4 pi_ge_two in simp_all)
  then have r1: "\<bar>rnd pf (0 + d1) - 6371000 * (pi / 2)\<bar> \<le> 178409" by simp
  have d2': "\<bar>d2 - 6371000 * (pi / 2)\<bar> \<le> 178388" using d2 by simp
  have "\<bar>(rnd pf (0 + d1) + d2) - 6371000 * pi\<bar> \<le> 356797" using r1 d2' by arith
  then have "\<bar>?T - 6371000 * pi\<bar> \<le> 356797 + (30000000 + 1) / 1000000"
    by (rule rnd_near [OF assms(2)]) (use pi_less_4 pi_ge_two in simp_all)
  then have "\<bar>?T - 6371000 * pi\<bar> \<le> 356828" by simp
  then have "?T \<noteq> 0" using pi_ge_two by arith
  then show ?thesis using t by blast
qed

lemma round_trip_zero:
  assumes "conforming pf" and "accurate pf"
  shows "calculateRouteEfficiency pf round_trip = Fin 0"
proof -
  from round_trip_total [OF assms] obtain t where
    t: "calculateTotalDistance pf round_trip = Some t" "t \<noteq> 0" by blast
  have "calculateRouteEfficiency pf round_trip
          = (case calculateTotalDistance pf round_trip of
               None \<Rightarrow> NotANumber
             | Some t \<Rightarrow> if t \<noteq> 0 then Fin 0 else NotANumber)"
    by (rule round_trip_efficiency [OF assms(1)])
       (simp_all add: round_trip_def sample_bounds same_position_def)
  then show ?thesis using t by simp
qed

lemma standstill_nan:
  assumes "conforming pf"
  shows "calculateRouteEfficiency pf [equator_sample, equator_sample] = NotANumber"
proof -
  have "sample_distance pf equator_sample equator_sample = Some 0"
    by (simp add: sample_distance_def equator_sample_def mk_sample_def distance_same [OF assms])
  then show ?thesis by (simp add: two_sample_efficiency [OF assms])
qed

lemma pole_distance:
  assumes "conforming pf" and "accurate pf"
  shows "\<exists>d. sample_distance pf equator_sample pole_sample = Some d \<and> d \<noteq> 0"
proof -
  from quarter_leg [OF assms(2) diagonal_term [OF assms]] obtain d where
    s: "sample_distance pf equator_sample pole_sample = Some d" and
    d: "\<bar>d - 6371000 * (pi / 2)\<bar> \<le> 6371000 * (28 / 1000)"
    by (auto simp: sample_distance_def equator_sample_def pole_sample_def mk_sample_def)
  have "\<bar>d - 6371000 * (pi / 2)\<bar> \<le> 178388" using d by simp
  then have "d \<noteq> 0" using pi_ge_two by arith
  then show ?thesis using s by blast
qed

subsection \<open>The claim\<close>

text \<open>
  Claim C6, as the specification states it, fails on the code: for a trip that returns to
  its start the direct distance is 0 and the efficiency is 0, not strictly positive; for
  a trip that never moves the quotient \<open>0 / 0\<close> is \<open>NaN\<close>. The two trips are evaluated in
  double arithmetic with correctly rounded functions, and in exact arithmetic.
\<close>

theorem round_trip_counterexample:
  "2 \<le> length round_trip
   \<and> calculateRouteEfficiency ieee_platform round_trip = Fin 0
   \<and> calculateRouteEfficiency ieee_platform [equator_sample, equator_sample] = NotANumber
   \<and> calculateRouteEfficiency exact_platform round_trip = Fin 0
   \<and> calculateRouteEfficiency exact_platform [equator_sample, equator_sample] = NotANumber"
  using round_trip_zero [OF ieee_conforming ieee_accurate] standstill_nan [OF ieee_conforming]
    round_trip_zero [OF exact_conforming exact_accurate] standstill_nan [OF exact_conforming]
  by (simp add: round_trip_def)

text \<open>
  Claim C6, amended. For every trip of at least two samples with positions in range, on
  every platform that rounds to nearest, \<open>calculateRouteEfficiency\<close> is the specification's
  quotient: the distance from the first to the last sample divided by the distances of
  the consecutive segments summed from left to right, every operation rounded. The result
  is never negative. It is \<open>0\<close> when the trip ends at the position where it started and the
  summed distance is a non-zero number, and \<open>NaN\<close> when that sum is \<open>0\<close> or \<open>NaN\<close>. For a trip
  of two samples it is exactly \<open>1\<close>, unless their distance is \<open>0\<close> or \<open>NaN\<close>; for two samples
  at (0, 0) it is \<open>NaN\<close>. On every platform that is accurate to \<open>10\<^sup>-\<^sup>6\<close> it is \<open>0\<close> for the
  trip from (0, 0) to the pole and back, and for the right-angle path from (0, 0) along
  the equator to (0, 90) and up the meridian to the pole it lies strictly between 0.4 and
  0.6. No upper bound is stated for longer trips: \<open>1\<close> bounds the quotient of the exact
  distances, and the rounded quotient can exceed it.
\<close>

theorem route_efficiency_rounded:
  assumes "conforming pf" and "2 \<le> length td" and "list_all in_bounds td"
  shows "calculateRouteEfficiency pf td = spec_routeEfficiency pf td
         \<and> not_negative (calculateRouteEfficiency pf td)
         \<and> (same_position (hd td) (last td) \<longrightarrow>
               calculateRouteEfficiency pf td
                 = (case calculateTotalDistance pf td of
                      None \<Rightarrow> NotANumber
                    | Some t \<Rightarrow> if t \<noteq> 0 then Fin 0 else NotANumber))
         \<and> (length td = 2 \<longrightarrow>
               calculateRouteEfficiency pf td
                 = (case sample_distance pf (hd td) (last td) of
                      None \<Rightarrow> NotANumber
                    | Some d \<Rightarrow> if d \<noteq> 0 then Fin 1 else NotANumber))
         \<and> calculateRouteEfficiency pf [equator_sample, equator_sample] = NotANumber
         \<and> (accurate pf \<longrightarrow>
               calculateRouteEfficiency pf round_trip = Fin 0
               \<and> (\<exists>q. calculateRouteEfficiency pf right_angle_path = Fin q
                        \<and> 2 / 5 < q \<and> q < 3 / 5))"
proof -
  have ne: "td \<noteq> []" using assms(2) by auto
  then have h: "in_bounds (hd td)" using assms(3) by (auto simp: list_all_iff)
  have a: "calculateRouteEfficiency pf td = spec_routeEfficiency pf td"
    by (rule efficiency_as_specified [OF assms(2)])
  have b: "not_negative (calculateRouteEfficiency pf td)"
    by (rule efficiency_not_negative [OF assms(1)])
  have c: "calculateRouteEfficiency pf td
             = (case calculateTotalDistance pf td of
                  None \<Rightarrow> NotANumber
                | Some t \<Rightarrow> if t \<noteq> 0 then Fin 0 else NotANumber)"
    if "same_position (hd td) (last td)"
    by (rule round_trip_efficiency [OF assms(1,2) h that])
  have d: "calculateRouteEfficiency pf td
             = (case sample_distance pf (hd td) (last td) of
                  None \<Rightarrow> NotANumber
                | Some d \<Rightarrow> if d \<noteq> 0 then Fin 1 else NotANumber)"
    if "length td = 2"
  proof -
    from that obtain p q where td: "td = [p, q]"
      by (cases td; cases "tl td") auto
    show ?thesis unfolding td using two_sample_efficiency [OF assms(1), of p q] by simp
  qed
  have e: "\<exists>q. calculateRouteEfficiency pf right_angle_path = Fin q \<and> 2 / 5 < q \<and> q < 3 / 5"
    if "accurate pf"
    by (rule right_angle_efficiency [OF assms(1) that])
  have f: "calculateRouteEfficiency pf round_trip = Fin 0" if "accurate pf"
    by (rule round_trip_zero [OF assms(1) that])
  have g: "calculateRouteEfficiency pf [equator_sample, equator_sample] = NotANumber"
    by (rule standstill_nan [OF assms(1)])
  show ?thesis using a b c d e f g by blast
qed

theorem route_efficiency_rounded_witness:
  "conforming ieee_platform \<and> accurate ieee_platform
   \<and> 2 \<le> length round_trip \<and> list_all in_bounds round_trip
   \<and> same_position (hd round_trip) (last round_trip)
   \<and> calculateRouteEfficiency ieee_platform round_trip = Fin 0
   \<and> spec_routeEfficiency ieee_platform round_trip = Fin 0
   \<and> length [equator_sample, pole_sample] = 2
   \<and> list_all in_bounds [equator_sample, pole_sample]
   \<and> calculateRouteEfficiency ieee_platform [equator_sample, pole_sample] = Fin 1
   \<and> (\<exists>q. calculateRouteEfficiency ieee_platform right_angle_path = Fin q
            \<and> 2 / 5 < q \<and> q < 3 / 5)"
proof -
  have l: "2 \<le> length round_trip" by (simp add: round_trip_def)
  have b: "list_all in_bounds round_trip" by (simp add: round_trip_def sample_bounds)
  have s: "same_position (hd round_trip) (last round_trip)"
    by (simp add: round_trip_def same_position_def)
  have l2: "2 \<le> length [equator_sample, pole_sample]"
    and len2: "length [equator_sample, pole_sample] = 2"
    by simp_all
  have b2: "list_all in_bounds [equator_sample, pole_sample]" by (simp add: sample_bounds)
  note w1 = route_efficiency_rounded [OF ieee_conforming l b]
  note w2 = route_efficiency_rounded [OF ieee_conforming l2 b2]
  have r: "calculateRouteEfficiency ieee_platform round_trip = Fin 0"
    using w1 ieee_accurate by blast
  have "calculateRouteEfficiency ieee_platform round_trip
          = spec_routeEfficiency ieee_platform round_trip"
    using w1 by blast
  with r have r': "spec_routeEfficiency ieee_platform round_trip = Fin 0" by simp
  obtain d where d: "sample_distance ieee_platform equator_sample pole_sample = Some d" "d \<noteq> 0"
    using pole_distance [OF ieee_conforming ieee_accurate] by blast
  have "calculateRouteEfficiency ieee_platform [equator_sample, pole_sample]
          = (case sample_distance ieee_platform (hd [equator_sample, pole_sample])
                    (last [equator_sample, pole_sample]) of
               None \<Rightarrow> NotANumber
             | Some d \<Rightarrow> if d \<noteq> 0 then Fin 1 else NotANumber)"
    using w2 len2 by blast
  then have p: "calculateRouteEfficiency ieee_platform [equator_sample, pole_sample] = Fin 1"
    by (simp add: d)
  have q: "\<exists>q. calculateRouteEfficiency ieee_platform right_angle_path = Fin q
              \<and> 2 / 5 < q \<and> q < 3 / 5"
    using w1 ieee_accurate by blast
  show ?thesis
    using ieee_conforming ieee_accurate l b s r r' len2 b2 p q by blast
qed

end
